theory Spec2Isabelle
  imports Main "HOL-Library.Sublist" "HOL-Library.Log_Nat" "HOL-Library.Multiset"
begin

section \<open>Scheduled post store (app/database/crud.py, app/database/connection.py)\<close>

text \<open>
  The table \<open>scheduled_posts\<close> is a list of rows. A timestamp is a number of
  microseconds (the resolution of Python's \<open>datetime\<close> and of the \<open>TIMESTAMP\<close>
  column). A media entry is the JSON object stored in \<open>media_paths\<close>: a dict from
  keys to strings, where a key that is absent or holds \<open>None\<close> has no binding.
  The column \<open>media_paths\<close> is \<open>NULL\<close> (\<open>None\<close>) when the list given to
  \<open>add_scheduled_post\<close> is empty.
\<close>

type_synonym timestamp = int

type_synonym media_entry = "(string \<times> string) list"

definition dict_get :: "media_entry \<Rightarrow> string \<Rightarrow> string option" where
  "dict_get m k = map_of m k"

record scheduled_post =
  post_id :: int
  post_type :: string
  selected_caption :: string
  scheduled_time :: timestamp
  google_drive_folder_id :: "string option"
  google_calendar_event_id :: "string option"
  status :: string
  media_paths :: "media_entry list option"
  created_at :: timestamp

record database =
  rows :: "scheduled_post list"
  id_serial :: int

definition timedelta_minutes :: "int \<Rightarrow> int" where
  "timedelta_minutes m = m * 60000000"

definition timedelta_hours :: "int \<Rightarrow> int" where
  "timedelta_hours h = h * 3600000000"

text \<open>
  \<open>INSERT INTO scheduled_posts (...) VALUES (...)\<close>: the id comes from the serial,
  status and created_at take their column defaults.
\<close>

definition add_scheduled_post ::
  "timestamp \<Rightarrow> string \<Rightarrow> string \<Rightarrow> timestamp \<Rightarrow> string option \<Rightarrow> string option
     \<Rightarrow> media_entry list \<Rightarrow> database \<Rightarrow> database" where
  "add_scheduled_post now ptype caption stime folder_id event_id mpaths db =
     \<lparr>rows = rows db @
        [\<lparr>post_id = id_serial db, post_type = ptype, selected_caption = caption,
          scheduled_time = stime, google_drive_folder_id = folder_id,
          google_calendar_event_id = event_id, status = ''scheduled'',
          media_paths = (if mpaths \<noteq> [] then Some mpaths else None),
          created_at = now\<rparr>],
      id_serial = id_serial db + 1\<rparr>"

text \<open>
  \<open>SELECT * FROM scheduled_posts WHERE scheduled_time < threshold AND status = 'scheduled'\<close>
\<close>

definition find_posts_for_deletion :: "timestamp \<Rightarrow> int \<Rightarrow> database \<Rightarrow> scheduled_post list" where
  "find_posts_for_deletion now delay_hours db =
     (let threshold_time = now - timedelta_hours delay_hours
      in filter (\<lambda>r. scheduled_time r < threshold_time \<and> status r = ''scheduled'') (rows db))"

text \<open>
  \<open>SELECT * FROM scheduled_posts
   WHERE scheduled_time >= now_minus_one AND scheduled_time <= now AND status = 'scheduled'
   ORDER BY scheduled_time ASC\<close>.
  The order of rows with equal \<open>scheduled_time\<close> is left open by SQL; the model
  keeps them in table order.
\<close>

definition find_posts_to_trigger :: "timestamp \<Rightarrow> database \<Rightarrow> scheduled_post list" where
  "find_posts_to_trigger now db =
     (let now_minus_one = now - timedelta_minutes 1
      in sort_key scheduled_time
           (filter (\<lambda>r. scheduled_time r \<ge> now_minus_one \<and> scheduled_time r \<le> now
                         \<and> status r = ''scheduled'') (rows db)))"

text \<open>\<open>UPDATE scheduled_posts SET status = new_status WHERE id = post_id\<close>\<close>

definition update_post_status :: "int \<Rightarrow> string \<Rightarrow> database \<Rightarrow> database" where
  "update_post_status pid new_status db =
     db\<lparr>rows := map (\<lambda>r. if post_id r = pid then r\<lparr>status := new_status\<rparr> else r) (rows db)\<rparr>"

text \<open>
  \<open>UPDATE scheduled_posts SET status = 'cancelled'
   WHERE google_calendar_event_id = event_id AND status = 'scheduled'\<close>
\<close>

definition cancel_post_by_event_id :: "string \<Rightarrow> database \<Rightarrow> database" where
  "cancel_post_by_event_id event_id db =
     db\<lparr>rows := map (\<lambda>r. if google_calendar_event_id r = Some event_id \<and> status r = ''scheduled''
                           then r\<lparr>status := ''cancelled''\<rparr> else r) (rows db)\<rparr>"

section \<open>Python values, exceptions and configuration\<close>

text \<open>
  Exceptions are values: a call that can raise returns \<open>exn + 'a\<close>, \<open>Inl\<close> the
  exception. \<open>HttpError\<close> is googleapiclient's error and carries the response status.
\<close>

datatype exn =
    HttpError nat
  | ConnectionError string
  | AttributeError string
  | TypeError string
  | ValueError string
  | RuntimeError string
  | ValidationError string
  | OSError string
  | ZeroDivisionError string
  | Exception string

datatype http_exception = HTTPException nat string

text \<open>Truthiness of an optional string: \<open>None\<close> and the empty string are falsy.\<close>

definition truthy :: "string option \<Rightarrow> bool" where
  "truthy v = (case v of None \<Rightarrow> False | Some s \<Rightarrow> s \<noteq> [])"

text \<open>\<open>a or b\<close> on optional strings.\<close>

definition py_or :: "string option \<Rightarrow> string option \<Rightarrow> string option" where
  "py_or a b = (if truthy a then a else b)"

definition startswith :: "string \<Rightarrow> string \<Rightarrow> bool" where
  "startswith s p = (take (length p) s = p)"

definition is_http_url :: "string \<Rightarrow> bool" where
  "is_http_url s = (startswith s ''http://'' \<or> startswith s ''https://'')"

text \<open>app/config.py: the settings the modelled code reads.\<close>

record settings =
  FACEBOOK_PAGE_ACCESS_TOKEN :: "string option"
  INSTAGRAM_USER_ID :: "string option"
  FACEBOOK_GRAPH_API_VERSION :: string
  FACEBOOK_WEBHOOK_VERIFY_TOKEN :: "string option"
  CLOUDFLARE_R2_BUCKET :: "string option"
  CLOUDFLARE_R2_ENDPOINT :: "string option"
  CLOUDFLARE_R2_PUBLIC_URL :: "string option"

definition example_settings :: settings where
  "example_settings = \<lparr>FACEBOOK_PAGE_ACCESS_TOKEN = Some ''token'',
     INSTAGRAM_USER_ID = Some ''1784'', FACEBOOK_GRAPH_API_VERSION = ''v17.0'',
     FACEBOOK_WEBHOOK_VERIFY_TOKEN = Some ''s3cret'',
     CLOUDFLARE_R2_BUCKET = Some ''bucket'',
     CLOUDFLARE_R2_ENDPOINT = Some ''https://acc.r2.cloudflarestorage.com'',
     CLOUDFLARE_R2_PUBLIC_URL = None\<rparr>"

section \<open>Webhook verification (app/routes/instagram_webhook.py)\<close>

definition verify_webhook :: "settings \<Rightarrow> string \<Rightarrow> string \<Rightarrow> string \<Rightarrow> http_exception + string" where
  "verify_webhook cfg hub_mode hub_challenge hub_verify_token =
     (if hub_mode = ''subscribe'' \<and> Some hub_verify_token = FACEBOOK_WEBHOOK_VERIFY_TOKEN cfg
      then Inr hub_challenge
      else Inl (HTTPException 403 ''Verification failed''))"

section \<open>Publish target client (app/services/facebook_graph.py)\<close>

text \<open>
  A parsed JSON value; \<open>JNull\<close> is Python's \<open>None\<close>. An object is the parsed dict,
  one binding per key.
\<close>

datatype json =
    JNull
  | JBool bool
  | JNum int
  | JStr string
  | JArr "json list"
  | JObj "(string \<times> json) list"

fun json_truthy :: "json \<Rightarrow> bool" where
  "json_truthy JNull = False"
| "json_truthy (JBool b) = b"
| "json_truthy (JNum n) = (n \<noteq> 0)"
| "json_truthy (JStr s) = (s \<noteq> [])"
| "json_truthy (JArr xs) = (xs \<noteq> [])"
| "json_truthy (JObj kvs) = (kvs \<noteq> [])"

text \<open>\<open>v.get(key)\<close>: only a dict has the method.\<close>

fun json_get :: "json \<Rightarrow> string \<Rightarrow> exn + json" where
  "json_get (JObj kvs) k = Inr (case map_of kvs k of None \<Rightarrow> JNull | Some v \<Rightarrow> v)"
| "json_get _ k = Inl (AttributeError ''object has no attribute get'')"

text \<open>
  What \<open>requests.post\<close> gives back: the status code, the outcome of \<open>resp.json()\<close>
  (\<open>None\<close> when it raises) and the raw text. The network is a parameter: a request
  either raises or yields a response.
\<close>

record http_response =
  resp_status_code :: nat
  resp_json :: "json option"
  resp_text :: string

type_synonym form_data = "(string \<times> json) list"

type_synonym requests_post = "string \<Rightarrow> form_data \<Rightarrow> nat \<Rightarrow> exn + http_response"

record graph_result =
  status_code :: nat
  json_field :: json
  text_field :: string

definition graph_url :: "settings \<Rightarrow> string \<Rightarrow> string" where
  "graph_url cfg path =
     (let version = (if FACEBOOK_GRAPH_API_VERSION cfg \<noteq> [] then FACEBOOK_GRAPH_API_VERSION cfg
                     else ''v17.0'')
      in ''https://graph.facebook.com/'' @ version @ ''/'' @ path)"

definition to_graph_result :: "http_response \<Rightarrow> graph_result" where
  "to_graph_result resp =
     \<lparr>status_code = resp_status_code resp,
      json_field = (case resp_json resp of None \<Rightarrow> JNull | Some j \<Rightarrow> j),
      text_field = resp_text resp\<rparr>"

definition post_graph :: "settings \<Rightarrow> requests_post \<Rightarrow> string \<Rightarrow> form_data \<Rightarrow> nat \<Rightarrow> exn + graph_result" where
  "post_graph cfg rpost path data timeout =
     (case rpost (graph_url cfg path) data timeout of
        Inl e \<Rightarrow> Inl e
      | Inr resp \<Rightarrow> Inr (to_graph_result resp))"

definition video_post :: "settings \<Rightarrow> requests_post \<Rightarrow> string \<Rightarrow> form_data \<Rightarrow> nat \<Rightarrow> exn + graph_result" where
  "video_post cfg rpost path data timeout =
     (let version = (if FACEBOOK_GRAPH_API_VERSION cfg \<noteq> [] then FACEBOOK_GRAPH_API_VERSION cfg
                     else ''v17.0'');
          url = ''https://graph-video.facebook.com/'' @ version @ ''/'' @ path
      in case rpost url data timeout of
           Inl e \<Rightarrow> Inl e
         | Inr resp \<Rightarrow> Inr (to_graph_result resp))"

definition status_ok :: "nat \<Rightarrow> bool" where
  "status_ok c = (c = 200 \<or> c = 201)"

text \<open>The second phase shared by the three operations: publish a created container.\<close>

definition media_publish ::
  "settings \<Rightarrow> requests_post \<Rightarrow> string \<Rightarrow> string \<Rightarrow> json \<Rightarrow> nat \<Rightarrow> string \<Rightarrow> string
     \<Rightarrow> exn + (bool \<times> string)" where
  "media_publish cfg rpost ig_user token creation_id timeout ok_msg fail_msg =
     (case post_graph cfg rpost (ig_user @ ''/media_publish'')
             [(''creation_id'', creation_id), (''access_token'', JStr token)] timeout of
        Inl e \<Rightarrow> Inl e
      | Inr res_publish \<Rightarrow>
          if status_ok (status_code res_publish)
          then Inr (True, ok_msg @ text_field res_publish)
          else Inr (False, fail_msg @ text_field res_publish))"

definition publish_photo :: "settings \<Rightarrow> requests_post \<Rightarrow> string \<Rightarrow> string \<Rightarrow> exn + (bool \<times> string)" where
  "publish_photo cfg rpost image_url caption =
     (case (FACEBOOK_PAGE_ACCESS_TOKEN cfg, INSTAGRAM_USER_ID cfg) of
        (Some token, Some ig_user) \<Rightarrow>
          if token = [] \<or> ig_user = []
          then Inr (False, ''Facebook/Instagram credentials not configured'')
          else
            (case post_graph cfg rpost (ig_user @ ''/media'')
                    [(''image_url'', JStr image_url), (''caption'', JStr caption),
                     (''access_token'', JStr token)] 30 of
               Inl e \<Rightarrow> Inl e
             | Inr res_create \<Rightarrow>
                 if \<not> status_ok (status_code res_create) \<or> \<not> json_truthy (json_field res_create)
                 then Inr (False, ''Failed to create media container: '' @ text_field res_create)
                 else
                   (case json_get (json_field res_create) ''id'' of
                      Inl e \<Rightarrow> Inl e
                    | Inr creation_id \<Rightarrow>
                        if \<not> json_truthy creation_id
                        then Inr (False, ''No creation id returned: '' @ text_field res_create)
                        else media_publish cfg rpost ig_user token creation_id 30
                               ''Published: '' ''Publish failed: ''))
      | _ \<Rightarrow> Inr (False, ''Facebook/Instagram credentials not configured''))"

text \<open>
  The loop of publish_carousel over the image urls: it raises, returns early with a
  failure pair, or ends with the list of child ids.
\<close>

datatype 'a flow = Raises exn | Returns "bool \<times> string" | Goes 'a

fun create_children ::
  "settings \<Rightarrow> requests_post \<Rightarrow> string \<Rightarrow> string \<Rightarrow> string list \<Rightarrow> json list \<Rightarrow> json list flow" where
  "create_children cfg rpost ig_user token [] child_ids = Goes child_ids"
| "create_children cfg rpost ig_user token (url # urls) child_ids =
     (case post_graph cfg rpost (ig_user @ ''/media'')
             [(''image_url'', JStr url), (''is_carousel_item'', JBool True),
              (''access_token'', JStr token)] 30 of
        Inl e \<Rightarrow> Raises e
      | Inr res \<Rightarrow>
          if \<not> status_ok (status_code res) \<or> \<not> json_truthy (json_field res)
          then Returns (False, ''Failed creating child media: '' @ text_field res)
          else
            (case json_get (json_field res) ''id'' of
               Inl e \<Rightarrow> Raises e
             | Inr cid \<Rightarrow>
                 if \<not> json_truthy cid
                 then Returns (False, ''No child id returned: '' @ text_field res)
                 else create_children cfg rpost ig_user token urls (child_ids @ [cid])))"

text \<open>\<open>",".join(child_ids)\<close>: a TypeError unless every item is a string.\<close>

fun join_comma :: "json list \<Rightarrow> exn + string" where
  "join_comma [] = Inr []"
| "join_comma [JStr s] = Inr s"
| "join_comma (JStr s # rest) =
     (case join_comma rest of Inl e \<Rightarrow> Inl e | Inr t \<Rightarrow> Inr (s @ '','' @ t))"
| "join_comma (_ # rest) = Inl (TypeError ''sequence item: expected str instance'')"

definition publish_carousel :: "settings \<Rightarrow> requests_post \<Rightarrow> string list \<Rightarrow> string \<Rightarrow> exn + (bool \<times> string)" where
  "publish_carousel cfg rpost image_urls caption =
     (case (FACEBOOK_PAGE_ACCESS_TOKEN cfg, INSTAGRAM_USER_ID cfg) of
        (Some token, Some ig_user) \<Rightarrow>
          if token = [] \<or> ig_user = []
          then Inr (False, ''Facebook/Instagram credentials not configured'')
          else
            (case create_children cfg rpost ig_user token image_urls [] of
               Raises e \<Rightarrow> Inl e
             | Returns r \<Rightarrow> Inr r
             | Goes child_ids \<Rightarrow>
                 (case join_comma child_ids of
                    Inl e \<Rightarrow> Inl e
                  | Inr children_param \<Rightarrow>
                      (case post_graph cfg rpost (ig_user @ ''/media'')
                              [(''children'', JStr children_param), (''caption'', JStr caption),
                               (''access_token'', JStr token)] 30 of
                         Inl e \<Rightarrow> Inl e
                       | Inr res_parent \<Rightarrow>
                           if \<not> status_ok (status_code res_parent)
                              \<or> \<not> json_truthy (json_field res_parent)
                           then Inr (False, ''Failed to create parent carousel container: ''
                                              @ text_field res_parent)
                           else
                             (case json_get (json_field res_parent) ''id'' of
                                Inl e \<Rightarrow> Inl e
                              | Inr creation_id \<Rightarrow>
                                  if \<not> json_truthy creation_id
                                  then Inr (False, ''No creation id for carousel: ''
                                                     @ text_field res_parent)
                                  else media_publish cfg rpost ig_user token creation_id 30
                                         ''Carousel published: '' ''Carousel publish failed: ''))))
      | _ \<Rightarrow> Inr (False, ''Facebook/Instagram credentials not configured''))"

definition publish_video :: "settings \<Rightarrow> requests_post \<Rightarrow> string \<Rightarrow> string \<Rightarrow> exn + (bool \<times> string)" where
  "publish_video cfg rpost video_url caption =
     (case (FACEBOOK_PAGE_ACCESS_TOKEN cfg, INSTAGRAM_USER_ID cfg) of
        (Some token, Some ig_user) \<Rightarrow>
          if token = [] \<or> ig_user = []
          then Inr (False, ''Facebook/Instagram credentials not configured'')
          else
            (case video_post cfg rpost (ig_user @ ''/media'')
                    [(''video_url'', JStr video_url), (''caption'', JStr caption),
                     (''access_token'', JStr token)] 120 of
               Inl e \<Rightarrow> Inl e
             | Inr res_create \<Rightarrow>
                 if \<not> status_ok (status_code res_create) \<or> \<not> json_truthy (json_field res_create)
                 then Inr (False, ''Failed to create video container: '' @ text_field res_create)
                 else
                   (case json_get (json_field res_create) ''id'' of
                      Inl e \<Rightarrow> Inl e
                    | Inr creation_id \<Rightarrow>
                        if \<not> json_truthy creation_id
                        then Inr (False, ''No creation id returned for video: ''
                                           @ text_field res_create)
                        else media_publish cfg rpost ig_user token creation_id 60
                               ''Video published: '' ''Video publish failed: ''))
      | _ \<Rightarrow> Inr (False, ''Facebook/Instagram credentials not configured''))"

text \<open>Two networks: one that is unreachable, one where the Graph API accepts everything.\<close>

definition net_down :: requests_post where
  "net_down url data timeout = Inl (ConnectionError ''Max retries exceeded'')"

definition net_ok :: requests_post where
  "net_ok url data timeout =
     Inr \<lparr>resp_status_code = 200, resp_json = Some (JObj [(''id'', JStr ''17900'')]),
          resp_text = ''{id: 17900}''\<rparr>"

text \<open>A network where the Graph API answers every request with 400.\<close>

definition net_refusing :: requests_post where
  "net_refusing url data timeout =
     Inr \<lparr>resp_status_code = 400, resp_json = Some (JObj [(''error'', JStr ''bad request'')]),
          resp_text = ''{error: bad request}''\<rparr>"

text \<open>The call came back with a value.\<close>

definition returned :: "exn + 'a \<Rightarrow> bool" where
  "returned r = (case r of Inl e \<Rightarrow> False | Inr v \<Rightarrow> True)"

definition is_JStr :: "json \<Rightarrow> bool" where
  "is_JStr j = (case j of JStr s \<Rightarrow> True | _ \<Rightarrow> False)"

text \<open>
  Vocabulary for the container-creation responses. \<open>rejected\<close> is the test the three
  operations make on a creation response (\<open>status_code not in (200, 201) or not json\<close>);
  \<open>container_id\<close> is the id read from its body and \<open>created\<close> says that the request
  came back accepted with a truthy id.
\<close>

definition rejected :: "http_response \<Rightarrow> bool" where
  "rejected r = (\<not> status_ok (resp_status_code r) \<or> \<not> json_truthy (json_field (to_graph_result r)))"

definition container_id :: "exn + http_response \<Rightarrow> json" where
  "container_id out =
     (case out of
        Inl e \<Rightarrow> JNull
      | Inr r \<Rightarrow> (case json_get (json_field (to_graph_result r)) ''id'' of
                    Inl e \<Rightarrow> JNull
                  | Inr c \<Rightarrow> c))"

definition created :: "exn + http_response \<Rightarrow> bool" where
  "created out =
     (case out of
        Inl e \<Rightarrow> False
      | Inr r \<Rightarrow> \<not> rejected r \<and> json_truthy (container_id out))"

text \<open>A network where the Graph API creates containers but refuses to publish them.\<close>

definition net_publish_refused :: requests_post where
  "net_publish_refused url data timeout =
     (if map_of data ''creation_id'' = None
      then Inr \<lparr>resp_status_code = 200, resp_json = Some (JObj [(''id'', JStr ''17900'')]),
                resp_text = ''{id: 17900}''\<rparr>
      else Inr \<lparr>resp_status_code = 400,
                resp_json = Some (JObj [(''error'', JStr ''media not ready'')]),
                resp_text = ''{error: media not ready}''\<rparr>)"

text \<open>A table with one post that became due two minutes before the clock reading 120 s.\<close>

definition stale_post :: scheduled_post where
  "stale_post = \<lparr>post_id = 1, post_type = ''static'', selected_caption = ''Hello'',
     scheduled_time = 0, google_drive_folder_id = Some ''folder1'',
     google_calendar_event_id = Some ''evt1'', status = ''scheduled'',
     media_paths = Some [[(''r2_url'', ''https://cdn.example/a.jpg'')]], created_at = 0\<rparr>"

definition stale_db :: database where
  "stale_db = \<lparr>rows = [stale_post], id_serial = 2\<rparr>"

section \<open>The outside world\<close>

text \<open>
  Calls that leave the process are parameters of the model: each maps its request to
  an exception or a result. \<open>google_creds\<close> is the outcome of get_google_creds,
  \<open>drive_build\<close> that of \<open>build("drive", "v3", credentials=creds)\<close>,
  \<open>drive_files_delete\<close> that of \<open>service.files().delete(fileId=...).execute()\<close>,
  \<open>drive_download\<close> that of google_drive.download_file_bytes, \<open>r2_download\<close> that of
  r2_service.download_bytes_from_r2_url, \<open>http_get\<close> that of \<open>requests.get\<close>,
  \<open>read_file\<close> that of opening and reading a local file, \<open>urlparse_path\<close> is
  \<open>urlparse(url).path\<close>, and \<open>db_error\<close> tells whether execute_query raises.
\<close>

record drive_file =
  df_bytes :: string
  df_file_name :: "string option"
  df_mime_type :: "string option"

record get_response =
  get_status :: nat
  get_content :: string
  get_content_type :: "string option"

datatype db_op =
    FindForDeletion
  | FindToTrigger
  | UpdateStatus int string
  | AddPost
  | CancelByEvent string

record world =
  google_creds :: "exn + string"
  drive_build :: "exn + unit"
  drive_files_delete :: "string option \<Rightarrow> exn + unit"
  drive_download :: "string \<Rightarrow> exn + drive_file"
  r2_download :: "string \<Rightarrow> exn + string"
  http_get :: "string \<Rightarrow> nat \<Rightarrow> exn + get_response"
  read_file :: "string \<Rightarrow> exn + string"
  urlparse_path :: "string \<Rightarrow> string"
  db_error :: "db_op \<Rightarrow> exn option"

text \<open>A world in which every service is unreachable, to be updated field by field.\<close>

definition dead_world :: world where
  "dead_world =
     \<lparr>google_creds = Inl (OSError ''Credentials file not found''),
      drive_build = Inl (ConnectionError ''unreachable''),
      drive_files_delete = (\<lambda>f. Inl (ConnectionError ''unreachable'')),
      drive_download = (\<lambda>f. Inl (ConnectionError ''unreachable'')),
      r2_download = (\<lambda>u. Inl (RuntimeError ''R2 not configured'')),
      http_get = (\<lambda>u t. Inl (ConnectionError ''unreachable'')),
      read_file = (\<lambda>p. Inl (OSError ''No such file or directory'')),
      urlparse_path = (\<lambda>u. u),
      db_error = (\<lambda>q. None)\<rparr>"

section \<open>Media resolution (app/services/publisher_service.py)\<close>

datatype media_source = R2 | Drive | Http | Local

definition source_name :: "media_source \<Rightarrow> string" where
  "source_name s = (case s of R2 \<Rightarrow> ''r2'' | Drive \<Rightarrow> ''drive'' | Http \<Rightarrow> ''http'' | Local \<Rightarrow> ''local'')"

record media_bytes =
  mb_bytes :: string
  mb_file_name :: "string option"
  mb_mime_type :: "string option"
  mb_source :: string

text \<open>\<open>s.split(c)[-1]\<close>: the part after the last separator.\<close>

definition last_segment :: "char \<Rightarrow> string \<Rightarrow> string" where
  "last_segment c s = rev (takeWhile (\<lambda>x. x \<noteq> c) (rev s))"

text \<open>
  Each of the four blocks of get_media_bytes: \<open>None\<close> when its guard is false and
  nothing is fetched, otherwise the outcome of the fetch (an exception is swallowed by
  \<open>except Exception: pass\<close> in the caller below).
\<close>

definition fetch_r2 :: "world \<Rightarrow> media_entry \<Rightarrow> (exn + media_bytes) option" where
  "fetch_r2 w media_entry =
     (case py_or (dict_get media_entry ''r2_url'') (dict_get media_entry ''url'') of
        None \<Rightarrow> None
      | Some r2_url \<Rightarrow>
          if r2_url \<noteq> [] \<and> is_http_url r2_url
          then Some (case r2_download w r2_url of
                       Inl e \<Rightarrow> Inl e
                     | Inr data \<Rightarrow>
                         Inr \<lparr>mb_bytes = data,
                              mb_file_name = Some (last_segment CHR ''/'' (urlparse_path w r2_url)),
                              mb_mime_type = None, mb_source = ''r2''\<rparr>)
          else None)"

definition fetch_drive :: "world \<Rightarrow> media_entry \<Rightarrow> (exn + media_bytes) option" where
  "fetch_drive w media_entry =
     (case dict_get media_entry ''uploaded_file_id'' of
        None \<Rightarrow> None
      | Some drive_id \<Rightarrow>
          if drive_id \<noteq> []
          then Some (case drive_download w drive_id of
                       Inl e \<Rightarrow> Inl e
                     | Inr info \<Rightarrow>
                         Inr \<lparr>mb_bytes = df_bytes info, mb_file_name = df_file_name info,
                              mb_mime_type = df_mime_type info, mb_source = ''drive''\<rparr>)
          else None)"

text \<open>\<open>resp.raise_for_status()\<close> raises for a status from 400 to 599.\<close>

definition raise_for_status :: "get_response \<Rightarrow> exn + get_response" where
  "raise_for_status resp =
     (if 400 \<le> get_status resp \<and> get_status resp < 600
      then Inl (ConnectionError ''HTTPError'') else Inr resp)"

definition fetch_http :: "world \<Rightarrow> media_entry \<Rightarrow> (exn + media_bytes) option" where
  "fetch_http w media_entry =
     (case py_or (dict_get media_entry ''requested_path'') (dict_get media_entry ''url'') of
        None \<Rightarrow> None
      | Some req \<Rightarrow>
          if req \<noteq> [] \<and> is_http_url req
          then Some (case http_get w req 20 of
                       Inl e \<Rightarrow> Inl e
                     | Inr resp0 \<Rightarrow>
                         (case raise_for_status resp0 of
                            Inl e \<Rightarrow> Inl e
                          | Inr resp \<Rightarrow>
                              (let seg = last_segment CHR ''/'' (urlparse_path w req);
                                   fname = (if seg \<noteq> [] then seg else ''file'')
                               in Inr \<lparr>mb_bytes = get_content resp, mb_file_name = Some fname,
                                       mb_mime_type = get_content_type resp,
                                       mb_source = ''http''\<rparr>)))
          else None)"

definition fetch_local :: "world \<Rightarrow> media_entry \<Rightarrow> (exn + media_bytes) option" where
  "fetch_local w media_entry =
     (case py_or (dict_get media_entry ''requested_path'') (dict_get media_entry ''url'') of
        None \<Rightarrow> None
      | Some req \<Rightarrow>
          if req \<noteq> [] \<and> \<not> is_http_url req
          then Some (case read_file w req of
                       Inl e \<Rightarrow> Inl e
                     | Inr data \<Rightarrow>
                         (let seg = last_segment CHR ''/'' req;
                              fname = (if seg \<noteq> [] then seg else last_segment (CHR 0x5C) req)
                          in Inr \<lparr>mb_bytes = data, mb_file_name = Some fname,
                                  mb_mime_type = None, mb_source = ''local''\<rparr>))
          else None)"

text \<open>
  get_media_bytes runs the four blocks in order and returns at the first fetch that
  succeeds. The first component of the result lists the sources it fetched from, in
  the order of the fetches; the second is the returned dict or the final RuntimeError.
\<close>

fun try_sources ::
  "(media_source \<times> (exn + media_bytes) option) list \<Rightarrow> media_source list \<times> (exn + media_bytes)" where
  "try_sources [] = ([], Inl (RuntimeError ''No available source found for media entry''))"
| "try_sources ((s, None) # rest) = try_sources rest"
| "try_sources ((s, Some (Inr res)) # rest) = ([s], Inr res)"
| "try_sources ((s, Some (Inl e)) # rest) =
     (case try_sources rest of (tried, out) \<Rightarrow> (s # tried, out))"

definition get_media_bytes :: "world \<Rightarrow> media_entry \<Rightarrow> media_source list \<times> (exn + media_bytes)" where
  "get_media_bytes w media_entry =
     try_sources [(R2, fetch_r2 w media_entry), (Drive, fetch_drive w media_entry),
                  (Http, fetch_http w media_entry), (Local, fetch_local w media_entry)]"

text \<open>
  An entry with an R2 url and a Drive id, in a world where R2, Drive and the web answer.
\<close>

definition both_entry :: media_entry where
  "both_entry = [(''requested_path'', ''/temp_generated_images/a.png''),
                 (''r2_url'', ''https://bucket.r2.cloudflarestorage.com/posts/a.png''),
                 (''uploaded_file_id'', ''1AbC'')]"

definition stores_world :: world where
  "stores_world = dead_world
     \<lparr>r2_download := (\<lambda>u. Inr ''r2-bytes''),
      drive_download := (\<lambda>f. Inr \<lparr>df_bytes = ''drive-bytes'', df_file_name = Some ''a.png'',
                                  df_mime_type = Some ''image/png''\<rparr>),
      http_get := (\<lambda>u t. Inr \<lparr>get_status = 200, get_content = ''http-bytes'',
                                 get_content_type = Some ''image/png''\<rparr>)\<rparr>"

text \<open>
  An entry with a Drive id and an HTTP requested_path but no R2 url.
\<close>

definition drive_entry :: media_entry where
  "drive_entry = [(''requested_path'', ''https://cdn.example.com/a.png''),
                  (''uploaded_file_id'', ''1AbC'')]"

section \<open>Archive folder deletion and the cleanup job
  (app/services/google_drive.py, app/services/cleanup_service.py)\<close>

text \<open>
  delete_drive_folder: get_google_creds is called before the try block; inside it,
  an HttpError of any status is only printed, any other exception propagates.
\<close>

definition delete_drive_folder :: "world \<Rightarrow> string option \<Rightarrow> exn + unit" where
  "delete_drive_folder w folder_id =
     (case google_creds w of
        Inl e \<Rightarrow> Inl e
      | Inr creds \<Rightarrow>
          (case drive_build w of
             Inl (HttpError st) \<Rightarrow> Inr ()
           | Inl e \<Rightarrow> Inl e
           | Inr service \<Rightarrow>
               (case drive_files_delete w folder_id of
                  Inl (HttpError st) \<Rightarrow> Inr ()
                | Inl e \<Rightarrow> Inl e
                | Inr u \<Rightarrow> Inr ())))"

definition DELETE_DELAY_HOURS :: int where
  "DELETE_DELAY_HOURS = 1"

text \<open>
  The loop of check_and_delete_posts. The state is the table, deleted_count and the
  exceptions caught by the per-post \<open>except\<close> (error_count is their number).
\<close>

record cleanup_state =
  cs_db :: database
  deleted_count :: nat
  errors_caught :: "(int \<times> exn) list"

definition error_count :: "cleanup_state \<Rightarrow> nat" where
  "error_count st = length (errors_caught st)"

definition delete_post :: "world \<Rightarrow> scheduled_post \<Rightarrow> cleanup_state \<Rightarrow> cleanup_state" where
  "delete_post w post st =
     (case delete_drive_folder w (google_drive_folder_id post) of
        Inl e \<Rightarrow> st\<lparr>errors_caught := errors_caught st @ [(post_id post, e)]\<rparr>
      | Inr u \<Rightarrow>
          (case db_error w (UpdateStatus (post_id post) ''deleted'') of
             Some e \<Rightarrow> st\<lparr>errors_caught := errors_caught st @ [(post_id post, e)]\<rparr>
           | None \<Rightarrow>
               st\<lparr>cs_db := update_post_status (post_id post) ''deleted'' (cs_db st),
                  deleted_count := deleted_count st + 1\<rparr>))"

fun delete_posts :: "world \<Rightarrow> scheduled_post list \<Rightarrow> cleanup_state \<Rightarrow> cleanup_state" where
  "delete_posts w [] st = st"
| "delete_posts w (post # posts) st = delete_posts w posts (delete_post w post st)"

text \<open>
  check_and_delete_posts: a failing query is the critical error of the outer
  \<open>except\<close> and leaves everything as it was.
\<close>

definition check_and_delete_posts :: "world \<Rightarrow> timestamp \<Rightarrow> database \<Rightarrow> cleanup_state" where
  "check_and_delete_posts w now db =
     (case db_error w FindForDeletion of
        Some e \<Rightarrow> \<lparr>cs_db = db, deleted_count = 0, errors_caught = []\<rparr>
      | None \<Rightarrow>
          delete_posts w (find_posts_for_deletion now DELETE_DELAY_HOURS db)
            \<lparr>cs_db = db, deleted_count = 0, errors_caught = []\<rparr>)"

definition is_HttpError :: "exn \<Rightarrow> bool" where
  "is_HttpError e = (case e of HttpError st \<Rightarrow> True | _ \<Rightarrow> False)"

text \<open>A world where Drive answers every delete with HTTP 500.\<close>

definition drive_500_world :: world where
  "drive_500_world = dead_world
     \<lparr>google_creds := Inr ''creds'', drive_build := Inr (),
      drive_files_delete := (\<lambda>f. Inl (HttpError 500))\<rparr>"

definition old_post :: scheduled_post where
  "old_post = \<lparr>post_id = 7, post_type = ''static'', selected_caption = ''Hello'',
     scheduled_time = 0, google_drive_folder_id = Some ''folder7'',
     google_calendar_event_id = Some ''evt7'', status = ''scheduled'',
     media_paths = None, created_at = 0\<rparr>"

definition old_db :: database where
  "old_db = \<lparr>rows = [old_post], id_serial = 8\<rparr>"

section \<open>Image normaliser (validate_and_prepare_image in app/services/cleanup_service.py)\<close>

text \<open>
  Python floats are IEEE doubles. The model keeps a float as the rational it denotes;
  \<open>fl\<close> rounds a rational to the nearest double (53 significant bits, ties to even).
  Overflow and subnormal numbers do not occur for the magnitudes of image sizes and are
  not modelled. \<open>ilog2 x\<close> is the exponent of a positive \<open>x\<close>, \<open>pow2\<close> a power of two with
  an integer exponent.
\<close>

definition pow2 :: "int \<Rightarrow> rat" where
  "pow2 k = (if 0 \<le> k then 2 ^ nat k else 1 / 2 ^ nat (- k))"

definition ilog2 :: "rat \<Rightarrow> int" where
  "ilog2 x =
     (let (p, q) = quotient_of x;
          d = bitlen p - bitlen q
      in if pow2 d \<le> x then d else d - 1)"

text \<open>Rounding to the nearest integer, ties to the even one: Python's \<open>round(x)\<close>.\<close>

definition round_half_even :: "rat \<Rightarrow> int" where
  "round_half_even x =
     (let f = \<lfloor>x\<rfloor>; r = x - of_int f
      in if r < 1 / 2 then f else if 1 / 2 < r then f + 1 else if even f then f else f + 1)"

definition fl :: "rat \<Rightarrow> rat" where
  "fl x =
     (if x = 0 then 0
      else (let a = \<bar>x\<bar>;
                u = pow2 (ilog2 a - 52);
                m = of_int (round_half_even (a / u)) * u
            in if x < 0 then - m else m))"

text \<open>\<open>int(x)\<close> truncates towards zero.\<close>

definition py_int :: "rat \<Rightarrow> int" where
  "py_int x = (if 0 \<le> x then \<lfloor>x\<rfloor> else \<lceil>x\<rceil>)"

text \<open>The constants of validate_and_prepare_image; \<open>4/5\<close> and \<open>1.91\<close> are floats.\<close>

definition MIN_RATIO :: rat where
  "MIN_RATIO = fl (4 / 5)"

definition MAX_RATIO :: rat where
  "MAX_RATIO = fl (191 / 100)"

definition MIN_WIDTH :: int where
  "MIN_WIDTH = 320"

definition MAX_WIDTH :: int where
  "MAX_WIDTH = 1440"

text \<open>
  The resize branch: \<open>new_h = int(new_w / ratio)\<close>, \<open>img.resize((new_w, new_h))\<close>, then
  \<open>width, height = img.size\<close> and \<open>ratio = width / height\<close>. The ratio is 0 only for an
  image of height 0, and then the division raises; Pillow refuses to resize to a
  height of 0.
\<close>

definition resize_width :: "int \<Rightarrow> rat \<Rightarrow> exn + (int \<times> int \<times> rat)" where
  "resize_width new_w ratio =
     (if ratio = 0 then Inl (ZeroDivisionError ''float division by zero'')
      else (let new_h = py_int (fl (of_int new_w / ratio))
            in if new_h \<le> 0 then Inl (ValueError ''height and width must be > 0'')
               else Inr (new_w, new_h, fl (of_int new_w / of_int new_h))))"

text \<open>
  The crop branch; \<open>img.crop((l, t, r, b))\<close> gives an image of size \<open>(r - l, b - t)\<close>.
\<close>

definition crop_to_ratio :: "int \<Rightarrow> int \<Rightarrow> rat \<Rightarrow> int \<times> int" where
  "crop_to_ratio width height ratio =
     (if ratio < MIN_RATIO \<or> ratio > MAX_RATIO
      then (let target_ratio = max MIN_RATIO (min MAX_RATIO ratio);
                target_w = width;
                target_h = round_half_even (fl (of_int target_w / target_ratio))
            in if target_h \<le> height then (target_w, target_h)
               else (let target_h = height;
                         target_w = round_half_even (fl (of_int target_h * target_ratio))
                     in (target_w, target_h)))
      else (width, height))"

text \<open>
  The size of the image that is encoded, from the size of the decoded one (the lines
  from \<open>width, height = img.size\<close> to the crop).
\<close>

definition normalize_size :: "int \<Rightarrow> int \<Rightarrow> exn + (int \<times> int)" where
  "normalize_size width height =
     (let ratio = (if height \<noteq> 0 then fl (of_int width / of_int height) else 0)
      in case (if width < MIN_WIDTH then resize_width MIN_WIDTH ratio
               else if width > MAX_WIDTH then resize_width MAX_WIDTH ratio
               else Inr (width, height, ratio)) of
           Inl e \<Rightarrow> Inl e
         | Inr (width, height, ratio) \<Rightarrow> Inr (crop_to_ratio width height ratio))"

text \<open>
  The encode loop. \<open>jpeg_size quality\<close> is the size in bytes of the file written by
  \<open>img.save(out_f, format='JPEG', quality=quality)\<close>; the loop returns the quality and
  the size of the file it leaves. \<open>int(quality * 0.85)\<close> multiplies two floats.
\<close>

definition next_quality :: "int \<Rightarrow> int" where
  "next_quality quality = py_int (fl (fl (of_int quality) * fl (85 / 100)))"

partial_function (option) encode_loop :: "(int \<Rightarrow> nat) \<Rightarrow> int \<Rightarrow> (int \<times> nat) option" where
  "encode_loop jpeg_size quality =
     (let size = jpeg_size quality
      in if size \<le> 8 * 1024 * 1024 \<or> quality \<le> 40 then Some (quality, size)
         else encode_loop jpeg_size (next_quality quality))"

section \<open>Archive upload (upload_files_to_drive in app/services/google_drive.py)\<close>

text \<open>
  The services upload_files_to_drive and schedule_post talk to, beyond those of
  \<open>world\<close>: \<open>root_folder\<close> is the outcome of create_social_media_root_folder,
  \<open>drive_create_folder\<close> that of creating the post folder (root id and post type
  given, the id read with \<open>.get("id")\<close>), \<open>drive_create_file\<close> that of
  \<open>service.files().create(body, media_body).execute().get("id")\<close> for a folder, a file
  name and a body, \<open>path_exists\<close> is \<open>os.path.exists\<close>, \<open>r2_put_object\<close> uploads bytes
  to R2 under a fresh key and gives the public url, \<open>r2_upload_file\<close> is
  \<open>upload_file_to_r2(path).get('url')\<close>, and \<open>create_calendar_event\<close> is the function of
  that name. File names built from \<open>uuid4\<close> and the mime type derived from a name are
  not computed by the model: \<open>media_name\<close> and \<open>mime_of\<close> supply them; they have no
  effect on the control flow. \<open>parse_time\<close> is the database's reading of the ISO time
  string.
\<close>

datatype media_body = FromBytes string | FromFile string

record uploader =
  up_world :: world
  root_folder :: "exn + string option"
  drive_create_folder :: "string option \<Rightarrow> string \<Rightarrow> exn + string option"
  drive_create_file :: "string option \<Rightarrow> string \<Rightarrow> media_body \<Rightarrow> exn + string option"
  path_exists :: "string \<Rightarrow> bool"
  r2_put_object :: "string \<Rightarrow> exn + string"
  r2_upload_file :: "string \<Rightarrow> exn + string option"
  media_name :: "string \<Rightarrow> string"
  mime_of :: "string \<Rightarrow> string"
  create_calendar_event ::
    "string \<Rightarrow> string \<Rightarrow> string option \<Rightarrow> string \<Rightarrow> string option \<Rightarrow> exn + string option"
  parse_time :: "string \<Rightarrow> timestamp"

text \<open>One media path ends as an entry of \<open>uploaded_media\<close> or as an entry of \<open>missing_media\<close>.\<close>

datatype item = Uploaded media_entry | Missing string

text \<open>The dict appended to \<open>uploaded_media\<close>; a key whose value is \<open>None\<close> is left out.\<close>

definition uploaded_entry ::
  "string \<Rightarrow> string option \<Rightarrow> string \<Rightarrow> string \<Rightarrow> string option \<Rightarrow> media_entry" where
  "uploaded_entry media_path file_id file_name mime_type r2_url =
     [(''requested_path'', media_path)]
     @ (case file_id of None \<Rightarrow> [] | Some i \<Rightarrow> [(''uploaded_file_id'', i)])
     @ [(''file_name'', file_name), (''mime_type'', mime_type)]
     @ (case r2_url of None \<Rightarrow> [] | Some r \<Rightarrow> [(''r2_url'', r)])"

text \<open>\<open>requests.get(url, timeout=20)\<close>, \<open>raise_for_status()\<close>, \<open>.content\<close>.\<close>

definition download :: "world \<Rightarrow> string \<Rightarrow> exn + string" where
  "download w url =
     (case http_get w url 20 of
        Inl e \<Rightarrow> Inl e
      | Inr resp0 \<Rightarrow> (case raise_for_status resp0 of
                       Inl e \<Rightarrow> Inl e
                     | Inr resp \<Rightarrow> Inr (get_content resp)))"

text \<open>The branch of the loop body for a media path that is an http(s) url.\<close>

definition process_url :: "settings \<Rightarrow> uploader \<Rightarrow> string option \<Rightarrow> string \<Rightarrow> item" where
  "process_url cfg u post_folder_id media_path =
     (case download (up_world u) media_path of
        Inl e \<Rightarrow> Missing media_path
      | Inr content \<Rightarrow>
          (let r2_url = (if truthy (CLOUDFLARE_R2_BUCKET cfg)
                         then (case r2_put_object u content of
                                 Inl e \<Rightarrow> None
                               | Inr url \<Rightarrow> Some url)
                         else None)
           in case (if truthy r2_url then download (up_world u) (the r2_url) else Inr content) of
                Inl e \<Rightarrow> Missing media_path
              | Inr drive_content \<Rightarrow>
                  (let file_name = media_name u media_path;
                       mime_type = mime_of u file_name
                   in case drive_create_file u post_folder_id file_name (FromBytes drive_content) of
                        Inl e \<Rightarrow> Missing media_path
                      | Inr file_id \<Rightarrow>
                          Uploaded (uploaded_entry media_path file_id file_name mime_type r2_url))))"

text \<open>
  The branch for a local path. A file opened in a \<open>with\<close> block is handed to the
  Drive upload after the block has closed it: the body is then \<open>FromFile\<close>.
\<close>

definition process_local :: "settings \<Rightarrow> uploader \<Rightarrow> string option \<Rightarrow> string \<Rightarrow> item" where
  "process_local cfg u post_folder_id media_path =
     (let abs_media_path =
            (if startswith media_path ''/temp_generated_images/''
                \<or> startswith media_path ''/temp_generated_videos/''
             then ''app/frontend/'' @ dropWhile (\<lambda>c. c = CHR ''/'') media_path
             else media_path)
      in if \<not> path_exists u abs_media_path then Missing abs_media_path
         else (let file_name = last_segment CHR ''/'' abs_media_path;
                   mime_type = mime_of u file_name;
                   r2_url = (if truthy (CLOUDFLARE_R2_BUCKET cfg)
                             then (case r2_upload_file u abs_media_path of
                                     Inl e \<Rightarrow> None
                                   | Inr url \<Rightarrow> url)
                             else None);
                   opened = (case read_file (up_world u) abs_media_path of
                               Inl e \<Rightarrow> Inl e
                             | Inr data \<Rightarrow> Inr (FromFile abs_media_path));
                   media = (if truthy r2_url
                            then (case download (up_world u) (the r2_url) of
                                    Inl e \<Rightarrow> opened
                                  | Inr drive_content \<Rightarrow> Inr (FromBytes drive_content))
                            else opened)
               in case media of
                    Inl e \<Rightarrow> Missing media_path
                  | Inr body \<Rightarrow>
                      (case drive_create_file u post_folder_id file_name body of
                         Inl e \<Rightarrow> Missing media_path
                       | Inr file_id \<Rightarrow>
                           Uploaded (uploaded_entry media_path file_id file_name mime_type
                                       r2_url))))"

definition process_media :: "settings \<Rightarrow> uploader \<Rightarrow> string option \<Rightarrow> string \<Rightarrow> item" where
  "process_media cfg u post_folder_id media_path =
     (if is_http_url media_path then process_url cfg u post_folder_id media_path
      else process_local cfg u post_folder_id media_path)"

text \<open>The loop over the selected media: the lists \<open>uploaded_media\<close> and \<open>missing_media\<close>.\<close>

fun upload_media ::
  "settings \<Rightarrow> uploader \<Rightarrow> string option \<Rightarrow> string list \<Rightarrow> media_entry list \<times> string list
     \<Rightarrow> media_entry list \<times> string list" where
  "upload_media cfg u post_folder_id [] acc = acc"
| "upload_media cfg u post_folder_id (media_path # rest) (uploaded_media, missing_media) =
     (case process_media cfg u post_folder_id media_path of
        Uploaded entry \<Rightarrow>
          upload_media cfg u post_folder_id rest (uploaded_media @ [entry], missing_media)
      | Missing p \<Rightarrow>
          upload_media cfg u post_folder_id rest (uploaded_media, missing_media @ [p]))"

text \<open>\<open>str\<close> of a list of strings, as it appears in the f-string of the exception.\<close>

fun join_with :: "string \<Rightarrow> string list \<Rightarrow> string" where
  "join_with sep [] = []"
| "join_with sep [x] = x"
| "join_with sep (x # xs) = x @ sep @ join_with sep xs"

definition list_repr :: "string list \<Rightarrow> string" where
  "list_repr xs = ''['' @ join_with '', '' (map (\<lambda>s. [CHR 0x27] @ s @ [CHR 0x27]) xs) @ '']''"

text \<open>
  upload_files_to_drive. The second component lists the folders whose deletion was
  requested with \<open>service.files().delete(fileId=...).execute()\<close>; an exception of that
  call is printed and dropped. Every other exception leaves the function (both
  \<open>except\<close> clauses re-raise).
\<close>

definition upload_files_to_drive ::
  "settings \<Rightarrow> uploader \<Rightarrow> string list \<Rightarrow> string \<Rightarrow> string
     \<Rightarrow> (exn + (string option \<times> media_entry list)) \<times> string option list" where
  "upload_files_to_drive cfg u selected_media_paths caption ptype =
     (case google_creds (up_world u) of
        Inl e \<Rightarrow> (Inl e, [])
      | Inr creds \<Rightarrow>
     (case drive_build (up_world u) of
        Inl e \<Rightarrow> (Inl e, [])
      | Inr service \<Rightarrow>
     (case root_folder u of
        Inl e \<Rightarrow> (Inl e, [])
      | Inr root_folder_id \<Rightarrow>
     (case drive_create_folder u root_folder_id ptype of
        Inl e \<Rightarrow> (Inl e, [])
      | Inr post_folder_id \<Rightarrow>
          (case upload_media cfg u post_folder_id selected_media_paths ([], []) of
             (uploaded_media, missing_media) \<Rightarrow>
               if missing_media \<noteq> []
               then (Inl (Exception (''Missing media files: '' @ list_repr missing_media)),
                     [post_folder_id])
               else (case drive_create_file u post_folder_id ''caption.txt'' (FromBytes caption) of
                       Inl e \<Rightarrow> (Inl e, [])
                     | Inr caption_file \<Rightarrow> (Inr (post_folder_id, uploaded_media), [])))))))"

section \<open>Scheduling (schedule_post in app/routes/schedular.py)\<close>

record schedule_request =
  req_selected_media :: "string list"
  req_selected_caption :: string
  req_scheduled_time :: string
  req_post_type :: string
  req_timezone :: "string option"

text \<open>schemas.ScheduleResponse: \<open>folder_id\<close> and \<open>event_id\<close> are required strings.\<close>

record schedule_response =
  sr_message :: string
  sr_folder_id :: string
  sr_event_id :: string
  sr_webhook_sent :: bool
  sr_webhook_status :: "string option"

text \<open>
  Building the response validates the fields: \<open>None\<close> for a \<open>str\<close> field is a
  ValidationError (its text is abridged here).
\<close>

definition ScheduleResponse ::
  "string \<Rightarrow> string option \<Rightarrow> string option \<Rightarrow> bool \<Rightarrow> string option \<Rightarrow> exn + schedule_response" where
  "ScheduleResponse msg fid eid sent wstatus =
     (case (fid, eid) of
        (Some f, Some e) \<Rightarrow>
          Inr \<lparr>sr_message = msg, sr_folder_id = f, sr_event_id = e, sr_webhook_sent = sent,
               sr_webhook_status = wstatus\<rparr>
      | _ \<Rightarrow> Inl (ValidationError ''validation error for ScheduleResponse: none is not an allowed value''))"

text \<open>\<open>str(e)\<close>.\<close>

definition exn_str :: "exn \<Rightarrow> string" where
  "exn_str e =
     (case e of
        HttpError st \<Rightarrow> ''HttpError''
      | ConnectionError s \<Rightarrow> s | AttributeError s \<Rightarrow> s | TypeError s \<Rightarrow> s
      | ValueError s \<Rightarrow> s | RuntimeError s \<Rightarrow> s | ValidationError s \<Rightarrow> s
      | OSError s \<Rightarrow> s | ZeroDivisionError s \<Rightarrow> s | Exception s \<Rightarrow> s)"

text \<open>\<open>s.replace(a, b)\<close> for single characters.\<close>

definition replace_char :: "char \<Rightarrow> char \<Rightarrow> string \<Rightarrow> string" where
  "replace_char a b s = map (\<lambda>c. if c = a then b else c) s"

definition placeholder_suffix :: "schedule_request \<Rightarrow> string" where
  "placeholder_suffix req =
     req_post_type req @ ''_''
       @ replace_char CHR ''T'' CHR ''_'' (replace_char CHR '':'' CHR ''-'' (req_scheduled_time req))"

text \<open>
  schedule_post: the result is the response or the HTTPException the route raises,
  together with the table as the request leaves it. \<open>now\<close> is the database clock.
\<close>

definition schedule_post ::
  "settings \<Rightarrow> uploader \<Rightarrow> timestamp \<Rightarrow> schedule_request \<Rightarrow> database
     \<Rightarrow> (http_exception + schedule_response) \<times> database" where
  "schedule_post cfg u now req db =
     (let up = fst (upload_files_to_drive cfg u (req_selected_media req)
                      (req_selected_caption req) (req_post_type req));
          folder_id = (case up of Inl drive_e \<Rightarrow> None | Inr (f, m) \<Rightarrow> f);
          uploaded_media = (case up of Inl drive_e \<Rightarrow> None | Inr (f, m) \<Rightarrow> Some m);
          drive_upload_success = (case up of Inl drive_e \<Rightarrow> False | Inr (f, m) \<Rightarrow> truthy f);
          event_id =
            (if drive_upload_success \<and> truthy folder_id
             then (case create_calendar_event u (req_scheduled_time req)
                          (req_selected_caption req) folder_id (req_post_type req)
                          (req_timezone req) of
                     Inl cal_e \<Rightarrow> None
                   | Inr ev \<Rightarrow> ev)
             else None);
          final_folder_id = py_or folder_id (Some (''no_drive_'' @ placeholder_suffix req));
          final_event_id = py_or event_id (Some (''no_calendar_'' @ placeholder_suffix req));
          final_uploaded_media = (case uploaded_media of None \<Rightarrow> [] | Some m \<Rightarrow> m)
      in case db_error (up_world u) AddPost of
           Some db_e \<Rightarrow>
             (Inl (HTTPException 500
                     (''Scheduling failed: Failed to save to database: '' @ exn_str db_e)), db)
         | None \<Rightarrow>
             (let db' = add_scheduled_post now (req_post_type req) (req_selected_caption req)
                          (parse_time u (req_scheduled_time req)) final_folder_id final_event_id
                          final_uploaded_media db
              in case ScheduleResponse
                        ''Post scheduled successfully. Webhook will be triggered at the scheduled time.''
                        folder_id event_id False
                        (Some ''Pending - will be sent at scheduled time'') of
                   Inl e \<Rightarrow> (Inl (HTTPException 500 (''Scheduling failed: '' @ exn_str e)), db')
                 | Inr response \<Rightarrow> (Inr response, db')))"

text \<open>
  An archive that cannot be reached, and one that works but in which no local file
  exists; a request for one generated image.
\<close>

definition dead_uploader :: uploader where
  "dead_uploader =
     \<lparr>up_world = dead_world,
      root_folder = Inl (ConnectionError ''unreachable''),
      drive_create_folder = (\<lambda>r p. Inl (ConnectionError ''unreachable'')),
      drive_create_file = (\<lambda>f n b. Inl (ConnectionError ''unreachable'')),
      path_exists = (\<lambda>p. False),
      r2_put_object = (\<lambda>b. Inl (RuntimeError ''R2 not configured'')),
      r2_upload_file = (\<lambda>p. Inl (RuntimeError ''R2 not configured'')),
      media_name = (\<lambda>p. ''media_0000.png''),
      mime_of = (\<lambda>n. ''image/png''),
      create_calendar_event = (\<lambda>t c f p z. Inl (ConnectionError ''unreachable'')),
      parse_time = (\<lambda>s. 1767261600000000)\<rparr>"


definition image_request :: schedule_request where
  "image_request =
     \<lparr>req_selected_media = [''/temp_generated_images/a.png''],
      req_selected_caption = ''Hello'',
      req_scheduled_time = ''2026-01-01T10:00'',
      req_post_type = ''static'',
      req_timezone = None\<rparr>"

definition empty_db :: database where
  "empty_db = \<lparr>rows = [], id_serial = 1\<rparr>"

section \<open>Properties\<close>

subsection \<open>Trigger selection\<close>

lemma set_find_posts_to_trigger:
  "set (find_posts_to_trigger now db) =
     {r \<in> set (rows db). now - 60000000 \<le> scheduled_time r \<and> scheduled_time r \<le> now
        \<and> status r = ''scheduled''}"
  by (auto simp: find_posts_to_trigger_def timedelta_minutes_def Let_def)

lemma find_posts_to_trigger_scheduled:
  "r \<in> set (find_posts_to_trigger now db) \<Longrightarrow> status r = ''scheduled''"
  by (simp add: set_find_posts_to_trigger)

text \<open>
  C2 as stated fails on the code: a scheduled post that became due more than one minute
  before \<open>now\<close> is not selected.
\<close>

theorem C2_counterexample:
  "stale_post \<in> set (rows stale_db) \<and> status stale_post = ''scheduled''
     \<and> scheduled_time stale_post \<le> 120000000
     \<and> stale_post \<notin> set (find_posts_to_trigger 120000000 stale_db)"
  by (simp add: set_find_posts_to_trigger stale_db_def stale_post_def)

text \<open>
  C2 (amended): find_posts_to_trigger selects exactly the rows with status 'scheduled'
  whose scheduled_time lies in the closed window [now - 1 minute, now], each as often as
  it is in the table, ordered ascending by scheduled_time.
\<close>

theorem C2_trigger_selection_window:
  "set (find_posts_to_trigger now db) =
     {r \<in> set (rows db). now - timedelta_minutes 1 \<le> scheduled_time r \<and> scheduled_time r \<le> now
        \<and> status r = ''scheduled''}
   \<and> sorted (map scheduled_time (find_posts_to_trigger now db))
   \<and> mset (find_posts_to_trigger now db) =
       filter_mset (\<lambda>r. now - timedelta_minutes 1 \<le> scheduled_time r \<and> scheduled_time r \<le> now
                          \<and> status r = ''scheduled'') (mset (rows db))"
proof (intro conjI)
  show "set (find_posts_to_trigger now db) =
     {r \<in> set (rows db). now - timedelta_minutes 1 \<le> scheduled_time r \<and> scheduled_time r \<le> now
        \<and> status r = ''scheduled''}"
    by (simp add: set_find_posts_to_trigger timedelta_minutes_def)
  show "sorted (map scheduled_time (find_posts_to_trigger now db))"
    by (simp add: find_posts_to_trigger_def Let_def)
  show "mset (find_posts_to_trigger now db) =
       filter_mset (\<lambda>r. now - timedelta_minutes 1 \<le> scheduled_time r \<and> scheduled_time r \<le> now
                          \<and> status r = ''scheduled'') (mset (rows db))"
    by (simp add: find_posts_to_trigger_def Let_def)
qed

subsection \<open>Webhook verification\<close>

text \<open>
  C9 as stated fails on the code: with the right verify token but a mode other than
  subscribe, the endpoint answers 403.
\<close>

theorem C9_counterexample:
  "Some ''s3cret'' = FACEBOOK_WEBHOOK_VERIFY_TOKEN example_settings
     \<and> verify_webhook example_settings ''unsubscribe'' ''1158201444'' ''s3cret''
         = Inl (HTTPException 403 ''Verification failed'')"
  by (simp add: verify_webhook_def example_settings_def)

text \<open>
  C9 (amended): verify_webhook returns the hub.challenge string if and only if hub.mode
  is 'subscribe' and hub.verify_token equals the configured verify token; in every other
  case it raises HTTPException 403.
\<close>

theorem C9_verify_webhook:
  "(verify_webhook cfg hub_mode hub_challenge hub_verify_token = Inr hub_challenge)
     = (hub_mode = ''subscribe'' \<and> FACEBOOK_WEBHOOK_VERIFY_TOKEN cfg = Some hub_verify_token)
   \<and> ((hub_mode = ''subscribe'' \<and> FACEBOOK_WEBHOOK_VERIFY_TOKEN cfg = Some hub_verify_token)
        \<or> verify_webhook cfg hub_mode hub_challenge hub_verify_token
             = Inl (HTTPException 403 ''Verification failed''))"
  by (auto simp: verify_webhook_def)

subsection \<open>Publish target client\<close>

lemma to_graph_result_sel:
  "status_code (to_graph_result r) = resp_status_code r"
  "text_field (to_graph_result r) = resp_text r"
  by (simp_all add: to_graph_result_def)

text \<open>
  The flow shared by publish_photo, publish_video and the parent phase of
  publish_carousel: create a container with request \<open>q\<close>, then publish its id with
  \<open>pub\<close>.
\<close>

lemma two_phase_cases:
  assumes "res =
     (case q of
        Inl e \<Rightarrow> Inl e
      | Inr r \<Rightarrow>
          if rejected r then Inr (False, m1 @ resp_text r)
          else (case json_get (json_field (to_graph_result r)) ''id'' of
                  Inl e \<Rightarrow> Inl e
                | Inr c \<Rightarrow>
                    if \<not> json_truthy c then Inr (False, m2 @ resp_text r)
                    else (case pub c of
                            Inl e \<Rightarrow> Inl e
                          | Inr p \<Rightarrow>
                              if status_ok (resp_status_code p)
                              then Inr (True, m3 @ resp_text p)
                              else Inr (False, m4 @ resp_text p))))"
  shows "(\<forall>e. q = Inl e \<longrightarrow> res = Inl e)
   \<and> (\<forall>r. q = Inr r \<longrightarrow>
        (rejected r \<longrightarrow> res = Inr (False, m1 @ resp_text r))
      \<and> (\<not> rejected r \<longrightarrow>
          (\<forall>e. json_get (json_field (to_graph_result r)) ''id'' = Inl e \<longrightarrow> res = Inl e)
        \<and> (\<forall>c. json_get (json_field (to_graph_result r)) ''id'' = Inr c \<longrightarrow>
             (\<not> json_truthy c \<longrightarrow> res = Inr (False, m2 @ resp_text r))
           \<and> (json_truthy c \<longrightarrow>
                (\<forall>e. pub c = Inl e \<longrightarrow> res = Inl e)
              \<and> (\<forall>p. pub c = Inr p \<longrightarrow>
                   (status_ok (resp_status_code p) \<longrightarrow> res = Inr (True, m3 @ resp_text p))
                 \<and> (\<not> status_ok (resp_status_code p) \<longrightarrow>
                      res = Inr (False, m4 @ resp_text p)))))))"
  using assms by simp

lemma two_phase_raises_only:
  assumes "res =
     (case q of
        Inl e \<Rightarrow> Inl e
      | Inr r \<Rightarrow>
          if rejected r then Inr (False, m1 @ resp_text r)
          else (case json_get (json_field (to_graph_result r)) ''id'' of
                  Inl e \<Rightarrow> Inl e
                | Inr c \<Rightarrow>
                    if \<not> json_truthy c then Inr (False, m2 @ resp_text r)
                    else (case pub c of
                            Inl e \<Rightarrow> Inl e
                          | Inr p \<Rightarrow>
                              if status_ok (resp_status_code p)
                              then Inr (True, m3 @ resp_text p)
                              else Inr (False, m4 @ resp_text p))))"
    and "res = Inl e"
  shows "q = Inl e
    \<or> (\<exists>r. q = Inr r \<and> \<not> rejected r \<and> json_get (json_field (to_graph_result r)) ''id'' = Inl e)
    \<or> (\<exists>c. pub c = Inl e)"
proof (cases q)
  case (Inl a)
  then show ?thesis using assms by simp
next
  case (Inr r)
  show ?thesis
  proof (cases "rejected r")
    case True
    then show ?thesis using assms Inr by simp
  next
    case nr: False
    show ?thesis
    proof (cases "json_get (json_field (to_graph_result r)) ''id''")
      case (Inl a)
      then show ?thesis using assms Inr nr by simp
    next
      case c: (Inr c)
      show ?thesis
      proof (cases "json_truthy c")
        case False
        then show ?thesis using assms Inr nr c by simp
      next
        case True
        show ?thesis
        proof (cases "pub c")
          case (Inl a)
          then have "a = e" using assms Inr nr c True by simp
          then show ?thesis using Inl by blast
        next
          case p: (Inr p)
          then show ?thesis using assms Inr nr c True by (cases "status_ok (resp_status_code p)") simp_all
        qed
      qed
    qed
  qed
qed

lemma publish_photo_unconfigured:
  "\<not> truthy (FACEBOOK_PAGE_ACCESS_TOKEN cfg) \<or> \<not> truthy (INSTAGRAM_USER_ID cfg) \<Longrightarrow>
     publish_photo cfg rpost image_url caption =
       Inr (False, ''Facebook/Instagram credentials not configured'')"
  by (cases "FACEBOOK_PAGE_ACCESS_TOKEN cfg"; cases "INSTAGRAM_USER_ID cfg")
     (auto simp: publish_photo_def truthy_def)

lemma publish_video_unconfigured:
  "\<not> truthy (FACEBOOK_PAGE_ACCESS_TOKEN cfg) \<or> \<not> truthy (INSTAGRAM_USER_ID cfg) \<Longrightarrow>
     publish_video cfg rpost video_url caption =
       Inr (False, ''Facebook/Instagram credentials not configured'')"
  by (cases "FACEBOOK_PAGE_ACCESS_TOKEN cfg"; cases "INSTAGRAM_USER_ID cfg")
     (auto simp: publish_video_def truthy_def)

lemma publish_carousel_unconfigured:
  "\<not> truthy (FACEBOOK_PAGE_ACCESS_TOKEN cfg) \<or> \<not> truthy (INSTAGRAM_USER_ID cfg) \<Longrightarrow>
     publish_carousel cfg rpost image_urls caption =
       Inr (False, ''Facebook/Instagram credentials not configured'')"
  by (cases "FACEBOOK_PAGE_ACCESS_TOKEN cfg"; cases "INSTAGRAM_USER_ID cfg")
     (auto simp: publish_carousel_def truthy_def)

lemma configured_cases:
  obtains "\<not> truthy (FACEBOOK_PAGE_ACCESS_TOKEN cfg) \<or> \<not> truthy (INSTAGRAM_USER_ID cfg)"
  | token ig_user where "FACEBOOK_PAGE_ACCESS_TOKEN cfg = Some token" "token \<noteq> []"
      "INSTAGRAM_USER_ID cfg = Some ig_user" "ig_user \<noteq> []"
  by (cases "FACEBOOK_PAGE_ACCESS_TOKEN cfg"; cases "INSTAGRAM_USER_ID cfg")
     (auto simp: truthy_def)

lemma media_publish_unfold:
  "media_publish cfg rpost ig_user token c t okm fm =
     (case rpost (graph_url cfg (ig_user @ ''/media_publish''))
             [(''creation_id'', c), (''access_token'', JStr token)] t of
        Inl e \<Rightarrow> Inl e
      | Inr p \<Rightarrow>
          if status_ok (resp_status_code p)
          then Inr (True, okm @ resp_text p)
          else Inr (False, fm @ resp_text p))"
  by (simp add: media_publish_def post_graph_def to_graph_result_sel split: sum.splits)

lemma publish_photo_unfold:
  assumes "FACEBOOK_PAGE_ACCESS_TOKEN cfg = Some token" "token \<noteq> []"
    "INSTAGRAM_USER_ID cfg = Some ig_user" "ig_user \<noteq> []"
  shows "publish_photo cfg rpost image_url caption =
     (case rpost (graph_url cfg (ig_user @ ''/media''))
             [(''image_url'', JStr image_url), (''caption'', JStr caption),
              (''access_token'', JStr token)] 30 of
        Inl e \<Rightarrow> Inl e
      | Inr r \<Rightarrow>
          if rejected r then Inr (False, ''Failed to create media container: '' @ resp_text r)
          else (case json_get (json_field (to_graph_result r)) ''id'' of
                  Inl e \<Rightarrow> Inl e
                | Inr c \<Rightarrow>
                    if \<not> json_truthy c then Inr (False, ''No creation id returned: '' @ resp_text r)
                    else (case rpost (graph_url cfg (ig_user @ ''/media_publish''))
                                 [(''creation_id'', c), (''access_token'', JStr token)] 30 of
                            Inl e \<Rightarrow> Inl e
                          | Inr p \<Rightarrow>
                              if status_ok (resp_status_code p)
                              then Inr (True, ''Published: '' @ resp_text p)
                              else Inr (False, ''Publish failed: '' @ resp_text p))))"
  using assms
  by (simp add: publish_photo_def post_graph_def media_publish_unfold rejected_def
      to_graph_result_sel split: sum.splits)

lemma publish_video_unfold:
  assumes "FACEBOOK_PAGE_ACCESS_TOKEN cfg = Some token" "token \<noteq> []"
    "INSTAGRAM_USER_ID cfg = Some ig_user" "ig_user \<noteq> []"
  shows "publish_video cfg rpost video_url caption =
     (case rpost (''https://graph-video.facebook.com/''
                    @ (if FACEBOOK_GRAPH_API_VERSION cfg \<noteq> [] then FACEBOOK_GRAPH_API_VERSION cfg
                       else ''v17.0'')
                    @ ''/'' @ ig_user @ ''/media'')
             [(''video_url'', JStr video_url), (''caption'', JStr caption),
              (''access_token'', JStr token)] 120 of
        Inl e \<Rightarrow> Inl e
      | Inr r \<Rightarrow>
          if rejected r then Inr (False, ''Failed to create video container: '' @ resp_text r)
          else (case json_get (json_field (to_graph_result r)) ''id'' of
                  Inl e \<Rightarrow> Inl e
                | Inr c \<Rightarrow>
                    if \<not> json_truthy c
                    then Inr (False, ''No creation id returned for video: '' @ resp_text r)
                    else (case rpost (graph_url cfg (ig_user @ ''/media_publish''))
                                 [(''creation_id'', c), (''access_token'', JStr token)] 60 of
                            Inl e \<Rightarrow> Inl e
                          | Inr p \<Rightarrow>
                              if status_ok (resp_status_code p)
                              then Inr (True, ''Video published: '' @ resp_text p)
                              else Inr (False, ''Video publish failed: '' @ resp_text p))))"
  using assms
  by (simp add: publish_video_def video_post_def Let_def media_publish_unfold rejected_def
      to_graph_result_sel split: sum.splits)

lemma created_iff:
  "created out \<longleftrightarrow>
     (\<exists>r c. out = Inr r \<and> \<not> rejected r
        \<and> json_get (json_field (to_graph_result r)) ''id'' = Inr c \<and> json_truthy c
        \<and> container_id out = c)"
proof (cases out)
  case (Inl e)
  then show ?thesis by (simp add: created_def)
next
  case (Inr r)
  then show ?thesis
    by (cases "json_get (json_field (to_graph_result r)) ''id''")
       (simp_all add: created_def container_id_def)
qed

lemma create_children_step:
  "create_children cfg rpost ig_user token (x # post) acc =
     (case rpost (graph_url cfg (ig_user @ ''/media''))
             [(''image_url'', JStr x), (''is_carousel_item'', JBool True),
              (''access_token'', JStr token)] 30 of
        Inl e \<Rightarrow> Raises e
      | Inr r \<Rightarrow>
          if rejected r then Returns (False, ''Failed creating child media: '' @ resp_text r)
          else (case json_get (json_field (to_graph_result r)) ''id'' of
                  Inl e \<Rightarrow> Raises e
                | Inr c \<Rightarrow>
                    if \<not> json_truthy c
                    then Returns (False, ''No child id returned: '' @ resp_text r)
                    else create_children cfg rpost ig_user token post (acc @ [c])))"
  by (simp add: post_graph_def rejected_def to_graph_result_sel split: sum.splits)

lemma create_children_created:
  assumes "\<forall>y\<in>set pre. created (rpost (graph_url cfg (ig_user @ ''/media''))
             [(''image_url'', JStr y), (''is_carousel_item'', JBool True),
              (''access_token'', JStr token)] 30)"
  shows "create_children cfg rpost ig_user token (pre @ rest) acc =
     create_children cfg rpost ig_user token rest
       (acc @ map (\<lambda>y. container_id (rpost (graph_url cfg (ig_user @ ''/media''))
             [(''image_url'', JStr y), (''is_carousel_item'', JBool True),
              (''access_token'', JStr token)] 30)) pre)"
  using assms
proof (induction pre arbitrary: acc)
  case Nil
  then show ?case by simp
next
  case (Cons y ys)
  let ?out = "rpost (graph_url cfg (ig_user @ ''/media''))
             [(''image_url'', JStr y), (''is_carousel_item'', JBool True),
              (''access_token'', JStr token)] 30"
  from Cons.prems have "created ?out" by simp
  then obtain r c where o: "?out = Inr r" "\<not> rejected r"
      "json_get (json_field (to_graph_result r)) ''id'' = Inr c" "json_truthy c"
      "container_id ?out = c"
    unfolding created_iff by blast
  have "create_children cfg rpost ig_user token ((y # ys) @ rest) acc =
        create_children cfg rpost ig_user token (ys @ rest) (acc @ [c])"
    using o(1-4) by (simp only: append_Cons create_children_step) simp
  also have "\<dots> = create_children cfg rpost ig_user token rest
       ((acc @ [c]) @ map (\<lambda>y. container_id (rpost (graph_url cfg (ig_user @ ''/media''))
             [(''image_url'', JStr y), (''is_carousel_item'', JBool True),
              (''access_token'', JStr token)] 30)) ys)"
    using Cons.prems by (intro Cons.IH) simp
  finally show ?case using o(5) by simp
qed

lemma create_children_all_created:
  assumes "\<forall>y\<in>set urls. created (rpost (graph_url cfg (ig_user @ ''/media''))
             [(''image_url'', JStr y), (''is_carousel_item'', JBool True),
              (''access_token'', JStr token)] 30)"
  shows "create_children cfg rpost ig_user token urls [] =
     Goes (map (\<lambda>y. container_id (rpost (graph_url cfg (ig_user @ ''/media''))
             [(''image_url'', JStr y), (''is_carousel_item'', JBool True),
              (''access_token'', JStr token)] 30)) urls)"
  using assms create_children_created[where rpost = rpost and cfg = cfg and ig_user = ig_user
      and token = token and pre = urls and rest = "[]" and acc = "[]"]
  by simp

lemma publish_carousel_unfold:
  assumes "FACEBOOK_PAGE_ACCESS_TOKEN cfg = Some token" "token \<noteq> []"
    "INSTAGRAM_USER_ID cfg = Some ig_user" "ig_user \<noteq> []"
  shows "publish_carousel cfg rpost image_urls caption =
     (case create_children cfg rpost ig_user token image_urls [] of
        Raises e \<Rightarrow> Inl e
      | Returns r \<Rightarrow> Inr r
      | Goes child_ids \<Rightarrow>
          (case join_comma child_ids of
             Inl e \<Rightarrow> Inl e
           | Inr s \<Rightarrow>
     (case rpost (graph_url cfg (ig_user @ ''/media''))
             [(''children'', JStr s), (''caption'', JStr caption),
              (''access_token'', JStr token)] 30 of
        Inl e \<Rightarrow> Inl e
      | Inr r \<Rightarrow>
          if rejected r
          then Inr (False, ''Failed to create parent carousel container: '' @ resp_text r)
          else (case json_get (json_field (to_graph_result r)) ''id'' of
                  Inl e \<Rightarrow> Inl e
                | Inr c \<Rightarrow>
                    if \<not> json_truthy c
                    then Inr (False, ''No creation id for carousel: '' @ resp_text r)
                    else (case rpost (graph_url cfg (ig_user @ ''/media_publish''))
                                 [(''creation_id'', c), (''access_token'', JStr token)] 30 of
                            Inl e \<Rightarrow> Inl e
                          | Inr p \<Rightarrow>
                              if status_ok (resp_status_code p)
                              then Inr (True, ''Carousel published: '' @ resp_text p)
                              else Inr (False, ''Carousel publish failed: '' @ resp_text p))))))"
  using assms
  by (simp add: publish_carousel_def post_graph_def media_publish_unfold rejected_def
      to_graph_result_sel split: sum.splits flow.splits)

text \<open>The outcome of publish_carousel when the child request for \<open>x\<close> is the first to fail.\<close>

lemma publish_carousel_child:
  assumes "FACEBOOK_PAGE_ACCESS_TOKEN cfg = Some token" "token \<noteq> []"
    "INSTAGRAM_USER_ID cfg = Some ig_user" "ig_user \<noteq> []"
    and "image_urls = pre @ x # post"
    and "\<forall>y\<in>set pre. created (rpost (graph_url cfg (ig_user @ ''/media''))
             [(''image_url'', JStr y), (''is_carousel_item'', JBool True),
              (''access_token'', JStr token)] 30)"
  shows "(\<forall>e. rpost (graph_url cfg (ig_user @ ''/media''))
             [(''image_url'', JStr x), (''is_carousel_item'', JBool True),
              (''access_token'', JStr token)] 30 = Inl e \<longrightarrow>
            publish_carousel cfg rpost image_urls caption = Inl e)
   \<and> (\<forall>r. rpost (graph_url cfg (ig_user @ ''/media''))
             [(''image_url'', JStr x), (''is_carousel_item'', JBool True),
              (''access_token'', JStr token)] 30 = Inr r \<longrightarrow>
        (rejected r \<longrightarrow>
           publish_carousel cfg rpost image_urls caption =
             Inr (False, ''Failed creating child media: '' @ resp_text r))
      \<and> (\<not> rejected r \<longrightarrow>
          (\<forall>e. json_get (json_field (to_graph_result r)) ''id'' = Inl e \<longrightarrow>
             publish_carousel cfg rpost image_urls caption = Inl e)
        \<and> (\<forall>c. json_get (json_field (to_graph_result r)) ''id'' = Inr c \<and> \<not> json_truthy c \<longrightarrow>
             publish_carousel cfg rpost image_urls caption =
               Inr (False, ''No child id returned: '' @ resp_text r))))"
proof -
  have "create_children cfg rpost ig_user token image_urls [] =
     create_children cfg rpost ig_user token (x # post)
       (map (\<lambda>y. container_id (rpost (graph_url cfg (ig_user @ ''/media''))
             [(''image_url'', JStr y), (''is_carousel_item'', JBool True),
              (''access_token'', JStr token)] 30)) pre)"
    using assms(6) create_children_created[where rpost = rpost and cfg = cfg
        and ig_user = ig_user and token = token and pre = pre and rest = "x # post"
        and acc = "[]"]
    unfolding assms(5) by simp
  then show ?thesis
    by (simp add: publish_carousel_unfold[OF assms(1-4)] create_children_step
        del: create_children.simps)
qed

lemma publish_carousel_parent:
  assumes "FACEBOOK_PAGE_ACCESS_TOKEN cfg = Some token" "token \<noteq> []"
    "INSTAGRAM_USER_ID cfg = Some ig_user" "ig_user \<noteq> []"
    and "\<forall>y\<in>set image_urls. created (rpost (graph_url cfg (ig_user @ ''/media''))
             [(''image_url'', JStr y), (''is_carousel_item'', JBool True),
              (''access_token'', JStr token)] 30)"
  shows "publish_carousel cfg rpost image_urls caption =
     (case join_comma (map (\<lambda>y. container_id (rpost (graph_url cfg (ig_user @ ''/media''))
             [(''image_url'', JStr y), (''is_carousel_item'', JBool True),
              (''access_token'', JStr token)] 30)) image_urls) of
             Inl e \<Rightarrow> Inl e
           | Inr s \<Rightarrow>
     (case rpost (graph_url cfg (ig_user @ ''/media''))
             [(''children'', JStr s), (''caption'', JStr caption),
              (''access_token'', JStr token)] 30 of
        Inl e \<Rightarrow> Inl e
      | Inr r \<Rightarrow>
          if rejected r
          then Inr (False, ''Failed to create parent carousel container: '' @ resp_text r)
          else (case json_get (json_field (to_graph_result r)) ''id'' of
                  Inl e \<Rightarrow> Inl e
                | Inr c \<Rightarrow>
                    if \<not> json_truthy c
                    then Inr (False, ''No creation id for carousel: '' @ resp_text r)
                    else (case rpost (graph_url cfg (ig_user @ ''/media_publish''))
                                 [(''creation_id'', c), (''access_token'', JStr token)] 30 of
                            Inl e \<Rightarrow> Inl e
                          | Inr p \<Rightarrow>
                              if status_ok (resp_status_code p)
                              then Inr (True, ''Carousel published: '' @ resp_text p)
                              else Inr (False, ''Carousel publish failed: '' @ resp_text p)))))"
  using assms(5) create_children_all_created[where rpost = rpost and cfg = cfg
      and ig_user = ig_user and token = token and urls = image_urls]
  by (simp add: publish_carousel_unfold[OF assms(1-4)])

text \<open>Where an exception of the three operations can come from.\<close>

lemma publish_photo_raises_only:
  assumes "publish_photo cfg rpost image_url caption = Inl e"
  shows "(\<exists>url data t. rpost url data t = Inl e)
    \<or> (\<exists>url data t r. rpost url data t = Inr r \<and> \<not> rejected r
          \<and> json_get (json_field (to_graph_result r)) ''id'' = Inl e)"
proof (cases rule: configured_cases[of cfg])
  case 1
  then show ?thesis using assms publish_photo_unconfigured[of cfg rpost image_url caption] by simp
next
  case (2 token ig_user)
  from two_phase_raises_only[OF publish_photo_unfold[OF 2] assms]
  show ?thesis by blast
qed

lemma publish_video_raises_only:
  assumes "publish_video cfg rpost video_url caption = Inl e"
  shows "(\<exists>url data t. rpost url data t = Inl e)
    \<or> (\<exists>url data t r. rpost url data t = Inr r \<and> \<not> rejected r
          \<and> json_get (json_field (to_graph_result r)) ''id'' = Inl e)"
proof (cases rule: configured_cases[of cfg])
  case 1
  then show ?thesis using assms publish_video_unconfigured[of cfg rpost video_url caption] by simp
next
  case (2 token ig_user)
  from two_phase_raises_only[OF publish_video_unfold[OF 2] assms]
  show ?thesis by blast
qed

lemma join_comma_raises:
  "join_comma ids = Inl e \<Longrightarrow>
     e = TypeError ''sequence item: expected str instance'' \<and> (\<exists>c\<in>set ids. \<not> is_JStr c)"
proof (induction ids rule: join_comma.induct)
  case (3 s v va)
  then show ?case by (cases "join_comma (v # va)") (simp_all add: is_JStr_def)
qed (simp_all add: is_JStr_def)

lemma create_children_raises_only:
  "create_children cfg rpost ig_user token urls acc = Raises e \<Longrightarrow>
     (\<exists>url data t. rpost url data t = Inl e)
     \<or> (\<exists>url data t r. rpost url data t = Inr r \<and> \<not> rejected r
           \<and> json_get (json_field (to_graph_result r)) ''id'' = Inl e)"
proof (induction urls arbitrary: acc)
  case Nil
  then show ?case by simp
next
  case (Cons x post)
  let ?out = "rpost (graph_url cfg (ig_user @ ''/media''))
             [(''image_url'', JStr x), (''is_carousel_item'', JBool True),
              (''access_token'', JStr token)] 30"
  note step = create_children_step[of cfg rpost ig_user token x post acc]
  show ?case
  proof (cases ?out)
    case (Inl a)
    then have "a = e" using Cons.prems step by simp
    then show ?thesis using Inl by blast
  next
    case (Inr r)
    show ?thesis
    proof (cases "rejected r")
      case True
      then show ?thesis using Cons.prems step Inr by simp
    next
      case nr: False
      show ?thesis
      proof (cases "json_get (json_field (to_graph_result r)) ''id''")
        case (Inl a)
        then have "a = e" using Cons.prems step Inr nr by simp
        then show ?thesis using Inl Inr nr by blast
      next
        case c: (Inr c)
        show ?thesis
        proof (cases "json_truthy c")
          case False
          then show ?thesis using Cons.prems step Inr nr c by simp
        next
          case True
          then have "create_children cfg rpost ig_user token post (acc @ [c]) = Raises e"
            using Cons.prems step Inr nr c by simp
          then show ?thesis by (rule Cons.IH)
        qed
      qed
    qed
  qed
qed

lemma create_children_ids:
  "create_children cfg rpost ig_user token urls acc = Goes ids \<Longrightarrow> c \<in> set ids \<Longrightarrow>
     c \<in> set acc
     \<or> (\<exists>url data t r. rpost url data t = Inr r \<and> \<not> rejected r
           \<and> json_get (json_field (to_graph_result r)) ''id'' = Inr c \<and> json_truthy c)"
proof (induction urls arbitrary: acc)
  case Nil
  then show ?case by simp
next
  case (Cons x post)
  let ?out = "rpost (graph_url cfg (ig_user @ ''/media''))
             [(''image_url'', JStr x), (''is_carousel_item'', JBool True),
              (''access_token'', JStr token)] 30"
  note step = create_children_step[of cfg rpost ig_user token x post acc]
  show ?case
  proof (cases ?out)
    case (Inl a)
    then show ?thesis using Cons.prems step by simp
  next
    case (Inr r)
    show ?thesis
    proof (cases "rejected r")
      case True
      then show ?thesis using Cons.prems step Inr by simp
    next
      case nr: False
      show ?thesis
      proof (cases "json_get (json_field (to_graph_result r)) ''id''")
        case (Inl a)
        then show ?thesis using Cons.prems step Inr nr by simp
      next
        case d: (Inr d)
        show ?thesis
        proof (cases "json_truthy d")
          case False
          then show ?thesis using Cons.prems step Inr nr d by simp
        next
          case True
          then have "create_children cfg rpost ig_user token post (acc @ [d]) = Goes ids"
            using Cons.prems step Inr nr d by simp
          from Cons.IH[OF this Cons.prems(2)]
          have "c \<in> set (acc @ [d])
             \<or> (\<exists>url data t r. rpost url data t = Inr r \<and> \<not> rejected r
                   \<and> json_get (json_field (to_graph_result r)) ''id'' = Inr c \<and> json_truthy c)" .
          then show ?thesis using Inr nr d True by auto
        qed
      qed
    qed
  qed
qed

lemma publish_carousel_raises_only:
  assumes "publish_carousel cfg rpost image_urls caption = Inl e"
  shows "(\<exists>url data t. rpost url data t = Inl e)
    \<or> (\<exists>url data t r. rpost url data t = Inr r \<and> \<not> rejected r
          \<and> json_get (json_field (to_graph_result r)) ''id'' = Inl e)
    \<or> (\<exists>url data t r c. rpost url data t = Inr r \<and> \<not> rejected r
          \<and> json_get (json_field (to_graph_result r)) ''id'' = Inr c \<and> json_truthy c
          \<and> \<not> is_JStr c \<and> e = TypeError ''sequence item: expected str instance'')"
proof (cases rule: configured_cases[of cfg])
  case 1
  then show ?thesis
    using assms publish_carousel_unconfigured[of cfg rpost image_urls caption] by simp
next
  case (2 token ig_user)
  note unf = publish_carousel_unfold[OF 2, of rpost image_urls caption]
  show ?thesis
  proof (cases "create_children cfg rpost ig_user token image_urls []")
    case (Raises a)
    then have "a = e" using assms unf by simp
    then show ?thesis using create_children_raises_only[of cfg rpost ig_user token image_urls "[]" e]
        Raises by blast
  next
    case (Returns r)
    then show ?thesis using assms unf by simp
  next
    case (Goes ids)
    show ?thesis
    proof (cases "join_comma ids")
      case (Inl a)
      then have "a = e" using assms unf Goes by simp
      with Inl join_comma_raises[of ids e] obtain c where
        c: "e = TypeError ''sequence item: expected str instance''" "c \<in> set ids" "\<not> is_JStr c"
        by blast
      from create_children_ids[OF Goes c(2)]
      have "\<exists>url data t r. rpost url data t = Inr r \<and> \<not> rejected r
           \<and> json_get (json_field (to_graph_result r)) ''id'' = Inr c \<and> json_truthy c"
        by simp
      then show ?thesis using c(1,3) by blast
    next
      case (Inr s)
      have "publish_carousel cfg rpost image_urls caption =
     (case rpost (graph_url cfg (ig_user @ ''/media''))
             [(''children'', JStr s), (''caption'', JStr caption),
              (''access_token'', JStr token)] 30 of
        Inl e \<Rightarrow> Inl e
      | Inr r \<Rightarrow>
          if rejected r
          then Inr (False, ''Failed to create parent carousel container: '' @ resp_text r)
          else (case json_get (json_field (to_graph_result r)) ''id'' of
                  Inl e \<Rightarrow> Inl e
                | Inr c \<Rightarrow>
                    if \<not> json_truthy c
                    then Inr (False, ''No creation id for carousel: '' @ resp_text r)
                    else (case rpost (graph_url cfg (ig_user @ ''/media_publish''))
                                 [(''creation_id'', c), (''access_token'', JStr token)] 30 of
                            Inl e \<Rightarrow> Inl e
                          | Inr p \<Rightarrow>
                              if status_ok (resp_status_code p)
                              then Inr (True, ''Carousel published: '' @ resp_text p)
                              else Inr (False, ''Carousel publish failed: '' @ resp_text p))))"
        using unf Goes Inr by simp
      from two_phase_raises_only[OF this assms]
      show ?thesis by blast
    qed
  qed
qed

text \<open>
  C4 as stated fails on the code: requests.post is called outside any try block, so a
  network error leaves publish_photo as an exception, not as a pair.
\<close>

theorem C4_counterexample:
  "publish_photo example_settings net_down ''https://cdn.example/a.jpg'' ''Hello''
     = Inl (ConnectionError ''Max retries exceeded'')
   \<and> \<not> returned (publish_photo example_settings net_down ''https://cdn.example/a.jpg'' ''Hello'')"
  by (simp add: publish_photo_def example_settings_def net_down_def post_graph_def returned_def)

text \<open>
  C4 (amended): for every URL list and caption, each of publish_photo, publish_carousel
  and publish_video returns a pair (success, statusMessage) for every failure that the
  Graph API reports in a response, and the message carries the raw response text:
  missing credentials, a container (child, parent) request answered with a status other
  than 200/201 or without a truthy JSON body, a body without a truthy id, and a
  media_publish answered with a status other than 200/201 all give (False, reason);
  the pair is (True, ...) exactly when media_publish is answered with 200 or 201.
  Exceptions are not caught: an exception raised by requests.post in any phase, the
  AttributeError of \<open>.get\<close> on a truthy JSON body that is not an object, and for
  publish_carousel the TypeError of joining child ids that are not strings leave the
  function, and these are the only exceptions that do.
\<close>

theorem C4_publish_results:
  "((\<not> truthy (FACEBOOK_PAGE_ACCESS_TOKEN cfg) \<or> \<not> truthy (INSTAGRAM_USER_ID cfg)) \<longrightarrow>
       publish_photo cfg rpost image_url caption =
         Inr (False, ''Facebook/Instagram credentials not configured'')
     \<and> publish_carousel cfg rpost image_urls caption =
         Inr (False, ''Facebook/Instagram credentials not configured'')
     \<and> publish_video cfg rpost video_url caption =
         Inr (False, ''Facebook/Instagram credentials not configured''))
   \<and> (FACEBOOK_PAGE_ACCESS_TOKEN cfg = Some token \<and> token \<noteq> []
       \<and> INSTAGRAM_USER_ID cfg = Some ig_user \<and> ig_user \<noteq> [] \<longrightarrow>
        (
         (\<forall>e. rpost (graph_url cfg (ig_user @ ''/media''))
                      [(''image_url'', JStr image_url), (''caption'', JStr caption),
                       (''access_token'', JStr token)] 30 = Inl e \<longrightarrow> publish_photo cfg rpost image_url caption = Inl e)
         \<and> (\<forall>r. rpost (graph_url cfg (ig_user @ ''/media''))
                      [(''image_url'', JStr image_url), (''caption'', JStr caption),
                       (''access_token'', JStr token)] 30 = Inr r \<longrightarrow>
              (rejected r \<longrightarrow> publish_photo cfg rpost image_url caption = Inr (False, ''Failed to create media container: '' @ resp_text r))
            \<and> (\<not> rejected r \<longrightarrow>
                (\<forall>e. json_get (json_field (to_graph_result r)) ''id'' = Inl e \<longrightarrow> publish_photo cfg rpost image_url caption = Inl e)
              \<and> (\<forall>c. json_get (json_field (to_graph_result r)) ''id'' = Inr c \<longrightarrow>
                   (\<not> json_truthy c \<longrightarrow> publish_photo cfg rpost image_url caption = Inr (False, ''No creation id returned: '' @ resp_text r))
                 \<and> (json_truthy c \<longrightarrow>
                      (\<forall>e. rpost (graph_url cfg (ig_user @ ''/media_publish''))
                          [(''creation_id'', c), (''access_token'', JStr token)] 30 = Inl e \<longrightarrow> publish_photo cfg rpost image_url caption = Inl e)
                    \<and> (\<forall>p. rpost (graph_url cfg (ig_user @ ''/media_publish''))
                          [(''creation_id'', c), (''access_token'', JStr token)] 30 = Inr p \<longrightarrow>
                         (status_ok (resp_status_code p) \<longrightarrow> publish_photo cfg rpost image_url caption = Inr (True, ''Published: '' @ resp_text p))
                       \<and> (\<not> status_ok (resp_status_code p) \<longrightarrow>
                            publish_photo cfg rpost image_url caption = Inr (False, ''Publish failed: '' @ resp_text p))))))))
      \<and> (
         (\<forall>e. rpost (''https://graph-video.facebook.com/''
                             @ (if FACEBOOK_GRAPH_API_VERSION cfg \<noteq> [] then FACEBOOK_GRAPH_API_VERSION cfg
                                else ''v17.0'')
                             @ ''/'' @ ig_user @ ''/media'')
                      [(''video_url'', JStr video_url), (''caption'', JStr caption),
                       (''access_token'', JStr token)] 120 = Inl e \<longrightarrow> publish_video cfg rpost video_url caption = Inl e)
         \<and> (\<forall>r. rpost (''https://graph-video.facebook.com/''
                             @ (if FACEBOOK_GRAPH_API_VERSION cfg \<noteq> [] then FACEBOOK_GRAPH_API_VERSION cfg
                                else ''v17.0'')
                             @ ''/'' @ ig_user @ ''/media'')
                      [(''video_url'', JStr video_url), (''caption'', JStr caption),
                       (''access_token'', JStr token)] 120 = Inr r \<longrightarrow>
              (rejected r \<longrightarrow> publish_video cfg rpost video_url caption = Inr (False, ''Failed to create video container: '' @ resp_text r))
            \<and> (\<not> rejected r \<longrightarrow>
                (\<forall>e. json_get (json_field (to_graph_result r)) ''id'' = Inl e \<longrightarrow> publish_video cfg rpost video_url caption = Inl e)
              \<and> (\<forall>c. json_get (json_field (to_graph_result r)) ''id'' = Inr c \<longrightarrow>
                   (\<not> json_truthy c \<longrightarrow> publish_video cfg rpost video_url caption = Inr (False, ''No creation id returned for video: '' @ resp_text r))
                 \<and> (json_truthy c \<longrightarrow>
                      (\<forall>e. rpost (graph_url cfg (ig_user @ ''/media_publish''))
                          [(''creation_id'', c), (''access_token'', JStr token)] 60 = Inl e \<longrightarrow> publish_video cfg rpost video_url caption = Inl e)
                    \<and> (\<forall>p. rpost (graph_url cfg (ig_user @ ''/media_publish''))
                          [(''creation_id'', c), (''access_token'', JStr token)] 60 = Inr p \<longrightarrow>
                         (status_ok (resp_status_code p) \<longrightarrow> publish_video cfg rpost video_url caption = Inr (True, ''Video published: '' @ resp_text p))
                       \<and> (\<not> status_ok (resp_status_code p) \<longrightarrow>
                            publish_video cfg rpost video_url caption = Inr (False, ''Video publish failed: '' @ resp_text p))))))))
      \<and> (\<forall>pre x post. image_urls = pre @ x # post
            \<and> (\<forall>y\<in>set pre. created (rpost (graph_url cfg (ig_user @ ''/media''))
             [(''image_url'', JStr y), (''is_carousel_item'', JBool True),
              (''access_token'', JStr token)] 30)) \<longrightarrow>
           (\<forall>e. rpost (graph_url cfg (ig_user @ ''/media''))
             [(''image_url'', JStr x), (''is_carousel_item'', JBool True),
              (''access_token'', JStr token)] 30 = Inl e \<longrightarrow>
              publish_carousel cfg rpost image_urls caption = Inl e)
         \<and> (\<forall>r. rpost (graph_url cfg (ig_user @ ''/media''))
             [(''image_url'', JStr x), (''is_carousel_item'', JBool True),
              (''access_token'', JStr token)] 30 = Inr r \<longrightarrow>
              (rejected r \<longrightarrow>
                 publish_carousel cfg rpost image_urls caption =
                   Inr (False, ''Failed creating child media: '' @ resp_text r))
            \<and> (\<not> rejected r \<longrightarrow>
                (\<forall>e. json_get (json_field (to_graph_result r)) ''id'' = Inl e \<longrightarrow>
                   publish_carousel cfg rpost image_urls caption = Inl e)
              \<and> (\<forall>c. json_get (json_field (to_graph_result r)) ''id'' = Inr c \<and> \<not> json_truthy c \<longrightarrow>
                   publish_carousel cfg rpost image_urls caption =
                     Inr (False, ''No child id returned: '' @ resp_text r)))))
      \<and> ((\<forall>y\<in>set image_urls. created (rpost (graph_url cfg (ig_user @ ''/media''))
             [(''image_url'', JStr y), (''is_carousel_item'', JBool True),
              (''access_token'', JStr token)] 30)) \<longrightarrow>
           (\<forall>e. join_comma (map (\<lambda>y. container_id (rpost (graph_url cfg (ig_user @ ''/media''))
             [(''image_url'', JStr y), (''is_carousel_item'', JBool True),
              (''access_token'', JStr token)] 30)) image_urls) = Inl e \<longrightarrow>
              publish_carousel cfg rpost image_urls caption = Inl e)
         \<and> (\<forall>s. join_comma (map (\<lambda>y. container_id (rpost (graph_url cfg (ig_user @ ''/media''))
             [(''image_url'', JStr y), (''is_carousel_item'', JBool True),
              (''access_token'', JStr token)] 30)) image_urls) = Inr s \<longrightarrow>
                (\<forall>e. rpost (graph_url cfg (ig_user @ ''/media''))
                             [(''children'', JStr s), (''caption'', JStr caption),
                              (''access_token'', JStr token)] 30 = Inl e \<longrightarrow> publish_carousel cfg rpost image_urls caption = Inl e)
                \<and> (\<forall>r. rpost (graph_url cfg (ig_user @ ''/media''))
                             [(''children'', JStr s), (''caption'', JStr caption),
                              (''access_token'', JStr token)] 30 = Inr r \<longrightarrow>
                     (rejected r \<longrightarrow> publish_carousel cfg rpost image_urls caption = Inr (False, ''Failed to create parent carousel container: '' @ resp_text r))
                   \<and> (\<not> rejected r \<longrightarrow>
                       (\<forall>e. json_get (json_field (to_graph_result r)) ''id'' = Inl e \<longrightarrow> publish_carousel cfg rpost image_urls caption = Inl e)
                     \<and> (\<forall>c. json_get (json_field (to_graph_result r)) ''id'' = Inr c \<longrightarrow>
                          (\<not> json_truthy c \<longrightarrow> publish_carousel cfg rpost image_urls caption = Inr (False, ''No creation id for carousel: '' @ resp_text r))
                        \<and> (json_truthy c \<longrightarrow>
                             (\<forall>e. rpost (graph_url cfg (ig_user @ ''/media_publish''))
                                 [(''creation_id'', c), (''access_token'', JStr token)] 30 = Inl e \<longrightarrow> publish_carousel cfg rpost image_urls caption = Inl e)
                           \<and> (\<forall>p. rpost (graph_url cfg (ig_user @ ''/media_publish''))
                                 [(''creation_id'', c), (''access_token'', JStr token)] 30 = Inr p \<longrightarrow>
                                (status_ok (resp_status_code p) \<longrightarrow> publish_carousel cfg rpost image_urls caption = Inr (True, ''Carousel published: '' @ resp_text p))
                              \<and> (\<not> status_ok (resp_status_code p) \<longrightarrow>
                                   publish_carousel cfg rpost image_urls caption = Inr (False, ''Carousel publish failed: '' @ resp_text p))))))))))
   \<and> (\<forall>e. publish_photo cfg rpost image_url caption = Inl e \<longrightarrow>
         (\<exists>url data t. rpost url data t = Inl e)
         \<or> (\<exists>url data t r. rpost url data t = Inr r \<and> \<not> rejected r
               \<and> json_get (json_field (to_graph_result r)) ''id'' = Inl e))
   \<and> (\<forall>e. publish_video cfg rpost video_url caption = Inl e \<longrightarrow>
         (\<exists>url data t. rpost url data t = Inl e)
         \<or> (\<exists>url data t r. rpost url data t = Inr r \<and> \<not> rejected r
               \<and> json_get (json_field (to_graph_result r)) ''id'' = Inl e))
   \<and> (\<forall>e. publish_carousel cfg rpost image_urls caption = Inl e \<longrightarrow>
         (\<exists>url data t. rpost url data t = Inl e)
         \<or> (\<exists>url data t r. rpost url data t = Inr r \<and> \<not> rejected r
               \<and> json_get (json_field (to_graph_result r)) ''id'' = Inl e)
         \<or> (\<exists>url data t r c. rpost url data t = Inr r \<and> \<not> rejected r
               \<and> json_get (json_field (to_graph_result r)) ''id'' = Inr c \<and> json_truthy c
               \<and> \<not> is_JStr c \<and> e = TypeError ''sequence item: expected str instance''))"
proof -
  have g1: "(\<not> truthy (FACEBOOK_PAGE_ACCESS_TOKEN cfg) \<or> \<not> truthy (INSTAGRAM_USER_ID cfg)) \<longrightarrow>
       publish_photo cfg rpost image_url caption =
         Inr (False, ''Facebook/Instagram credentials not configured'')
     \<and> publish_carousel cfg rpost image_urls caption =
         Inr (False, ''Facebook/Instagram credentials not configured'')
     \<and> publish_video cfg rpost video_url caption =
         Inr (False, ''Facebook/Instagram credentials not configured'')"
    using publish_photo_unconfigured[of cfg rpost image_url caption]
      publish_carousel_unconfigured[of cfg rpost image_urls caption]
      publish_video_unconfigured[of cfg rpost video_url caption]
    by blast
  have g2: "FACEBOOK_PAGE_ACCESS_TOKEN cfg = Some token \<and> token \<noteq> []
       \<and> INSTAGRAM_USER_ID cfg = Some ig_user \<and> ig_user \<noteq> [] \<longrightarrow>
        (
         (\<forall>e. rpost (graph_url cfg (ig_user @ ''/media''))
                      [(''image_url'', JStr image_url), (''caption'', JStr caption),
                       (''access_token'', JStr token)] 30 = Inl e \<longrightarrow> publish_photo cfg rpost image_url caption = Inl e)
         \<and> (\<forall>r. rpost (graph_url cfg (ig_user @ ''/media''))
                      [(''image_url'', JStr image_url), (''caption'', JStr caption),
                       (''access_token'', JStr token)] 30 = Inr r \<longrightarrow>
              (rejected r \<longrightarrow> publish_photo cfg rpost image_url caption = Inr (False, ''Failed to create media container: '' @ resp_text r))
            \<and> (\<not> rejected r \<longrightarrow>
                (\<forall>e. json_get (json_field (to_graph_result r)) ''id'' = Inl e \<longrightarrow> publish_photo cfg rpost image_url caption = Inl e)
              \<and> (\<forall>c. json_get (json_field (to_graph_result r)) ''id'' = Inr c \<longrightarrow>
                   (\<not> json_truthy c \<longrightarrow> publish_photo cfg rpost image_url caption = Inr (False, ''No creation id returned: '' @ resp_text r))
                 \<and> (json_truthy c \<longrightarrow>
                      (\<forall>e. rpost (graph_url cfg (ig_user @ ''/media_publish''))
                          [(''creation_id'', c), (''access_token'', JStr token)] 30 = Inl e \<longrightarrow> publish_photo cfg rpost image_url caption = Inl e)
                    \<and> (\<forall>p. rpost (graph_url cfg (ig_user @ ''/media_publish''))
                          [(''creation_id'', c), (''access_token'', JStr token)] 30 = Inr p \<longrightarrow>
                         (status_ok (resp_status_code p) \<longrightarrow> publish_photo cfg rpost image_url caption = Inr (True, ''Published: '' @ resp_text p))
                       \<and> (\<not> status_ok (resp_status_code p) \<longrightarrow>
                            publish_photo cfg rpost image_url caption = Inr (False, ''Publish failed: '' @ resp_text p))))))))
      \<and> (
         (\<forall>e. rpost (''https://graph-video.facebook.com/''
                             @ (if FACEBOOK_GRAPH_API_VERSION cfg \<noteq> [] then FACEBOOK_GRAPH_API_VERSION cfg
                                else ''v17.0'')
                             @ ''/'' @ ig_user @ ''/media'')
                      [(''video_url'', JStr video_url), (''caption'', JStr caption),
                       (''access_token'', JStr token)] 120 = Inl e \<longrightarrow> publish_video cfg rpost video_url caption = Inl e)
         \<and> (\<forall>r. rpost (''https://graph-video.facebook.com/''
                             @ (if FACEBOOK_GRAPH_API_VERSION cfg \<noteq> [] then FACEBOOK_GRAPH_API_VERSION cfg
                                else ''v17.0'')
                             @ ''/'' @ ig_user @ ''/media'')
                      [(''video_url'', JStr video_url), (''caption'', JStr caption),
                       (''access_token'', JStr token)] 120 = Inr r \<longrightarrow>
              (rejected r \<longrightarrow> publish_video cfg rpost video_url caption = Inr (False, ''Failed to create video container: '' @ resp_text r))
            \<and> (\<not> rejected r \<longrightarrow>
                (\<forall>e. json_get (json_field (to_graph_result r)) ''id'' = Inl e \<longrightarrow> publish_video cfg rpost video_url caption = Inl e)
              \<and> (\<forall>c. json_get (json_field (to_graph_result r)) ''id'' = Inr c \<longrightarrow>
                   (\<not> json_truthy c \<longrightarrow> publish_video cfg rpost video_url caption = Inr (False, ''No creation id returned for video: '' @ resp_text r))
                 \<and> (json_truthy c \<longrightarrow>
                      (\<forall>e. rpost (graph_url cfg (ig_user @ ''/media_publish''))
                          [(''creation_id'', c), (''access_token'', JStr token)] 60 = Inl e \<longrightarrow> publish_video cfg rpost video_url caption = Inl e)
                    \<and> (\<forall>p. rpost (graph_url cfg (ig_user @ ''/media_publish''))
                          [(''creation_id'', c), (''access_token'', JStr token)] 60 = Inr p \<longrightarrow>
                         (status_ok (resp_status_code p) \<longrightarrow> publish_video cfg rpost video_url caption = Inr (True, ''Video published: '' @ resp_text p))
                       \<and> (\<not> status_ok (resp_status_code p) \<longrightarrow>
                            publish_video cfg rpost video_url caption = Inr (False, ''Video publish failed: '' @ resp_text p))))))))
      \<and> (\<forall>pre x post. image_urls = pre @ x # post
            \<and> (\<forall>y\<in>set pre. created (rpost (graph_url cfg (ig_user @ ''/media''))
             [(''image_url'', JStr y), (''is_carousel_item'', JBool True),
              (''access_token'', JStr token)] 30)) \<longrightarrow>
           (\<forall>e. rpost (graph_url cfg (ig_user @ ''/media''))
             [(''image_url'', JStr x), (''is_carousel_item'', JBool True),
              (''access_token'', JStr token)] 30 = Inl e \<longrightarrow>
              publish_carousel cfg rpost image_urls caption = Inl e)
         \<and> (\<forall>r. rpost (graph_url cfg (ig_user @ ''/media''))
             [(''image_url'', JStr x), (''is_carousel_item'', JBool True),
              (''access_token'', JStr token)] 30 = Inr r \<longrightarrow>
              (rejected r \<longrightarrow>
                 publish_carousel cfg rpost image_urls caption =
                   Inr (False, ''Failed creating child media: '' @ resp_text r))
            \<and> (\<not> rejected r \<longrightarrow>
                (\<forall>e. json_get (json_field (to_graph_result r)) ''id'' = Inl e \<longrightarrow>
                   publish_carousel cfg rpost image_urls caption = Inl e)
              \<and> (\<forall>c. json_get (json_field (to_graph_result r)) ''id'' = Inr c \<and> \<not> json_truthy c \<longrightarrow>
                   publish_carousel cfg rpost image_urls caption =
                     Inr (False, ''No child id returned: '' @ resp_text r)))))
      \<and> ((\<forall>y\<in>set image_urls. created (rpost (graph_url cfg (ig_user @ ''/media''))
             [(''image_url'', JStr y), (''is_carousel_item'', JBool True),
              (''access_token'', JStr token)] 30)) \<longrightarrow>
           (\<forall>e. join_comma (map (\<lambda>y. container_id (rpost (graph_url cfg (ig_user @ ''/media''))
             [(''image_url'', JStr y), (''is_carousel_item'', JBool True),
              (''access_token'', JStr token)] 30)) image_urls) = Inl e \<longrightarrow>
              publish_carousel cfg rpost image_urls caption = Inl e)
         \<and> (\<forall>s. join_comma (map (\<lambda>y. container_id (rpost (graph_url cfg (ig_user @ ''/media''))
             [(''image_url'', JStr y), (''is_carousel_item'', JBool True),
              (''access_token'', JStr token)] 30)) image_urls) = Inr s \<longrightarrow>
                (\<forall>e. rpost (graph_url cfg (ig_user @ ''/media''))
                             [(''children'', JStr s), (''caption'', JStr caption),
                              (''access_token'', JStr token)] 30 = Inl e \<longrightarrow> publish_carousel cfg rpost image_urls caption = Inl e)
                \<and> (\<forall>r. rpost (graph_url cfg (ig_user @ ''/media''))
                             [(''children'', JStr s), (''caption'', JStr caption),
                              (''access_token'', JStr token)] 30 = Inr r \<longrightarrow>
                     (rejected r \<longrightarrow> publish_carousel cfg rpost image_urls caption = Inr (False, ''Failed to create parent carousel container: '' @ resp_text r))
                   \<and> (\<not> rejected r \<longrightarrow>
                       (\<forall>e. json_get (json_field (to_graph_result r)) ''id'' = Inl e \<longrightarrow> publish_carousel cfg rpost image_urls caption = Inl e)
                     \<and> (\<forall>c. json_get (json_field (to_graph_result r)) ''id'' = Inr c \<longrightarrow>
                          (\<not> json_truthy c \<longrightarrow> publish_carousel cfg rpost image_urls caption = Inr (False, ''No creation id for carousel: '' @ resp_text r))
                        \<and> (json_truthy c \<longrightarrow>
                             (\<forall>e. rpost (graph_url cfg (ig_user @ ''/media_publish''))
                                 [(''creation_id'', c), (''access_token'', JStr token)] 30 = Inl e \<longrightarrow> publish_carousel cfg rpost image_urls caption = Inl e)
                           \<and> (\<forall>p. rpost (graph_url cfg (ig_user @ ''/media_publish''))
                                 [(''creation_id'', c), (''access_token'', JStr token)] 30 = Inr p \<longrightarrow>
                                (status_ok (resp_status_code p) \<longrightarrow> publish_carousel cfg rpost image_urls caption = Inr (True, ''Carousel published: '' @ resp_text p))
                              \<and> (\<not> status_ok (resp_status_code p) \<longrightarrow>
                                   publish_carousel cfg rpost image_urls caption = Inr (False, ''Carousel publish failed: '' @ resp_text p)))))))))"
  proof (rule impI)
    assume "FACEBOOK_PAGE_ACCESS_TOKEN cfg = Some token \<and> token \<noteq> []
       \<and> INSTAGRAM_USER_ID cfg = Some ig_user \<and> ig_user \<noteq> []"
    then have t: "FACEBOOK_PAGE_ACCESS_TOKEN cfg = Some token" "token \<noteq> []"
      "INSTAGRAM_USER_ID cfg = Some ig_user" "ig_user \<noteq> []" by simp_all
    have a: "
         (\<forall>e. rpost (graph_url cfg (ig_user @ ''/media''))
                      [(''image_url'', JStr image_url), (''caption'', JStr caption),
                       (''access_token'', JStr token)] 30 = Inl e \<longrightarrow> publish_photo cfg rpost image_url caption = Inl e)
         \<and> (\<forall>r. rpost (graph_url cfg (ig_user @ ''/media''))
                      [(''image_url'', JStr image_url), (''caption'', JStr caption),
                       (''access_token'', JStr token)] 30 = Inr r \<longrightarrow>
              (rejected r \<longrightarrow> publish_photo cfg rpost image_url caption = Inr (False, ''Failed to create media container: '' @ resp_text r))
            \<and> (\<not> rejected r \<longrightarrow>
                (\<forall>e. json_get (json_field (to_graph_result r)) ''id'' = Inl e \<longrightarrow> publish_photo cfg rpost image_url caption = Inl e)
              \<and> (\<forall>c. json_get (json_field (to_graph_result r)) ''id'' = Inr c \<longrightarrow>
                   (\<not> json_truthy c \<longrightarrow> publish_photo cfg rpost image_url caption = Inr (False, ''No creation id returned: '' @ resp_text r))
                 \<and> (json_truthy c \<longrightarrow>
                      (\<forall>e. rpost (graph_url cfg (ig_user @ ''/media_publish''))
                          [(''creation_id'', c), (''access_token'', JStr token)] 30 = Inl e \<longrightarrow> publish_photo cfg rpost image_url caption = Inl e)
                    \<and> (\<forall>p. rpost (graph_url cfg (ig_user @ ''/media_publish''))
                          [(''creation_id'', c), (''access_token'', JStr token)] 30 = Inr p \<longrightarrow>
                         (status_ok (resp_status_code p) \<longrightarrow> publish_photo cfg rpost image_url caption = Inr (True, ''Published: '' @ resp_text p))
                       \<and> (\<not> status_ok (resp_status_code p) \<longrightarrow>
                            publish_photo cfg rpost image_url caption = Inr (False, ''Publish failed: '' @ resp_text p)))))))"
      by (rule two_phase_cases[OF publish_photo_unfold[OF t]])
    have b: "
         (\<forall>e. rpost (''https://graph-video.facebook.com/''
                             @ (if FACEBOOK_GRAPH_API_VERSION cfg \<noteq> [] then FACEBOOK_GRAPH_API_VERSION cfg
                                else ''v17.0'')
                             @ ''/'' @ ig_user @ ''/media'')
                      [(''video_url'', JStr video_url), (''caption'', JStr caption),
                       (''access_token'', JStr token)] 120 = Inl e \<longrightarrow> publish_video cfg rpost video_url caption = Inl e)
         \<and> (\<forall>r. rpost (''https://graph-video.facebook.com/''
                             @ (if FACEBOOK_GRAPH_API_VERSION cfg \<noteq> [] then FACEBOOK_GRAPH_API_VERSION cfg
                                else ''v17.0'')
                             @ ''/'' @ ig_user @ ''/media'')
                      [(''video_url'', JStr video_url), (''caption'', JStr caption),
                       (''access_token'', JStr token)] 120 = Inr r \<longrightarrow>
              (rejected r \<longrightarrow> publish_video cfg rpost video_url caption = Inr (False, ''Failed to create video container: '' @ resp_text r))
            \<and> (\<not> rejected r \<longrightarrow>
                (\<forall>e. json_get (json_field (to_graph_result r)) ''id'' = Inl e \<longrightarrow> publish_video cfg rpost video_url caption = Inl e)
              \<and> (\<forall>c. json_get (json_field (to_graph_result r)) ''id'' = Inr c \<longrightarrow>
                   (\<not> json_truthy c \<longrightarrow> publish_video cfg rpost video_url caption = Inr (False, ''No creation id returned for video: '' @ resp_text r))
                 \<and> (json_truthy c \<longrightarrow>
                      (\<forall>e. rpost (graph_url cfg (ig_user @ ''/media_publish''))
                          [(''creation_id'', c), (''access_token'', JStr token)] 60 = Inl e \<longrightarrow> publish_video cfg rpost video_url caption = Inl e)
                    \<and> (\<forall>p. rpost (graph_url cfg (ig_user @ ''/media_publish''))
                          [(''creation_id'', c), (''access_token'', JStr token)] 60 = Inr p \<longrightarrow>
                         (status_ok (resp_status_code p) \<longrightarrow> publish_video cfg rpost video_url caption = Inr (True, ''Video published: '' @ resp_text p))
                       \<and> (\<not> status_ok (resp_status_code p) \<longrightarrow>
                            publish_video cfg rpost video_url caption = Inr (False, ''Video publish failed: '' @ resp_text p)))))))"
      by (rule two_phase_cases[OF publish_video_unfold[OF t]])
    have c: "(\<forall>pre x post. image_urls = pre @ x # post
            \<and> (\<forall>y\<in>set pre. created (rpost (graph_url cfg (ig_user @ ''/media''))
             [(''image_url'', JStr y), (''is_carousel_item'', JBool True),
              (''access_token'', JStr token)] 30)) \<longrightarrow>
           (\<forall>e. rpost (graph_url cfg (ig_user @ ''/media''))
             [(''image_url'', JStr x), (''is_carousel_item'', JBool True),
              (''access_token'', JStr token)] 30 = Inl e \<longrightarrow>
              publish_carousel cfg rpost image_urls caption = Inl e)
         \<and> (\<forall>r. rpost (graph_url cfg (ig_user @ ''/media''))
             [(''image_url'', JStr x), (''is_carousel_item'', JBool True),
              (''access_token'', JStr token)] 30 = Inr r \<longrightarrow>
              (rejected r \<longrightarrow>
                 publish_carousel cfg rpost image_urls caption =
                   Inr (False, ''Failed creating child media: '' @ resp_text r))
            \<and> (\<not> rejected r \<longrightarrow>
                (\<forall>e. json_get (json_field (to_graph_result r)) ''id'' = Inl e \<longrightarrow>
                   publish_carousel cfg rpost image_urls caption = Inl e)
              \<and> (\<forall>c. json_get (json_field (to_graph_result r)) ''id'' = Inr c \<and> \<not> json_truthy c \<longrightarrow>
                   publish_carousel cfg rpost image_urls caption =
                     Inr (False, ''No child id returned: '' @ resp_text r)))))"
    proof (intro allI impI)
      fix pre x post
      assume h: "image_urls = pre @ x # post
            \<and> (\<forall>y\<in>set pre. created (rpost (graph_url cfg (ig_user @ ''/media''))
             [(''image_url'', JStr y), (''is_carousel_item'', JBool True),
              (''access_token'', JStr token)] 30))"
      show "(\<forall>e. rpost (graph_url cfg (ig_user @ ''/media''))
             [(''image_url'', JStr x), (''is_carousel_item'', JBool True),
              (''access_token'', JStr token)] 30 = Inl e \<longrightarrow>
              publish_carousel cfg rpost image_urls caption = Inl e)
         \<and> (\<forall>r. rpost (graph_url cfg (ig_user @ ''/media''))
             [(''image_url'', JStr x), (''is_carousel_item'', JBool True),
              (''access_token'', JStr token)] 30 = Inr r \<longrightarrow>
              (rejected r \<longrightarrow>
                 publish_carousel cfg rpost image_urls caption =
                   Inr (False, ''Failed creating child media: '' @ resp_text r))
            \<and> (\<not> rejected r \<longrightarrow>
                (\<forall>e. json_get (json_field (to_graph_result r)) ''id'' = Inl e \<longrightarrow>
                   publish_carousel cfg rpost image_urls caption = Inl e)
              \<and> (\<forall>c. json_get (json_field (to_graph_result r)) ''id'' = Inr c \<and> \<not> json_truthy c \<longrightarrow>
                   publish_carousel cfg rpost image_urls caption =
                     Inr (False, ''No child id returned: '' @ resp_text r))))"
        using h publish_carousel_child[where rpost = rpost and cfg = cfg and token = token
            and ig_user = ig_user and image_urls = image_urls and pre = pre and x = x
            and post = post and caption = caption, OF t]
        by blast
    qed
    have d: "((\<forall>y\<in>set image_urls. created (rpost (graph_url cfg (ig_user @ ''/media''))
             [(''image_url'', JStr y), (''is_carousel_item'', JBool True),
              (''access_token'', JStr token)] 30)) \<longrightarrow>
           (\<forall>e. join_comma (map (\<lambda>y. container_id (rpost (graph_url cfg (ig_user @ ''/media''))
             [(''image_url'', JStr y), (''is_carousel_item'', JBool True),
              (''access_token'', JStr token)] 30)) image_urls) = Inl e \<longrightarrow>
              publish_carousel cfg rpost image_urls caption = Inl e)
         \<and> (\<forall>s. join_comma (map (\<lambda>y. container_id (rpost (graph_url cfg (ig_user @ ''/media''))
             [(''image_url'', JStr y), (''is_carousel_item'', JBool True),
              (''access_token'', JStr token)] 30)) image_urls) = Inr s \<longrightarrow>
                (\<forall>e. rpost (graph_url cfg (ig_user @ ''/media''))
                             [(''children'', JStr s), (''caption'', JStr caption),
                              (''access_token'', JStr token)] 30 = Inl e \<longrightarrow> publish_carousel cfg rpost image_urls caption = Inl e)
                \<and> (\<forall>r. rpost (graph_url cfg (ig_user @ ''/media''))
                             [(''children'', JStr s), (''caption'', JStr caption),
                              (''access_token'', JStr token)] 30 = Inr r \<longrightarrow>
                     (rejected r \<longrightarrow> publish_carousel cfg rpost image_urls caption = Inr (False, ''Failed to create parent carousel container: '' @ resp_text r))
                   \<and> (\<not> rejected r \<longrightarrow>
                       (\<forall>e. json_get (json_field (to_graph_result r)) ''id'' = Inl e \<longrightarrow> publish_carousel cfg rpost image_urls caption = Inl e)
                     \<and> (\<forall>c. json_get (json_field (to_graph_result r)) ''id'' = Inr c \<longrightarrow>
                          (\<not> json_truthy c \<longrightarrow> publish_carousel cfg rpost image_urls caption = Inr (False, ''No creation id for carousel: '' @ resp_text r))
                        \<and> (json_truthy c \<longrightarrow>
                             (\<forall>e. rpost (graph_url cfg (ig_user @ ''/media_publish''))
                                 [(''creation_id'', c), (''access_token'', JStr token)] 30 = Inl e \<longrightarrow> publish_carousel cfg rpost image_urls caption = Inl e)
                           \<and> (\<forall>p. rpost (graph_url cfg (ig_user @ ''/media_publish''))
                                 [(''creation_id'', c), (''access_token'', JStr token)] 30 = Inr p \<longrightarrow>
                                (status_ok (resp_status_code p) \<longrightarrow> publish_carousel cfg rpost image_urls caption = Inr (True, ''Carousel published: '' @ resp_text p))
                              \<and> (\<not> status_ok (resp_status_code p) \<longrightarrow>
                                   publish_carousel cfg rpost image_urls caption = Inr (False, ''Carousel publish failed: '' @ resp_text p)))))))))"
    proof (rule impI)
      assume h: "\<forall>y\<in>set image_urls. created (rpost (graph_url cfg (ig_user @ ''/media''))
             [(''image_url'', JStr y), (''is_carousel_item'', JBool True),
              (''access_token'', JStr token)] 30)"
      note par = publish_carousel_parent[where rpost = rpost and cfg = cfg and token = token
            and ig_user = ig_user and image_urls = image_urls and caption = caption, OF t h]
      have d1: "\<forall>e. join_comma (map (\<lambda>y. container_id (rpost (graph_url cfg (ig_user @ ''/media''))
             [(''image_url'', JStr y), (''is_carousel_item'', JBool True),
              (''access_token'', JStr token)] 30)) image_urls) = Inl e \<longrightarrow>
              publish_carousel cfg rpost image_urls caption = Inl e"
        using par by simp
      have d2: "\<forall>s. join_comma (map (\<lambda>y. container_id (rpost (graph_url cfg (ig_user @ ''/media''))
             [(''image_url'', JStr y), (''is_carousel_item'', JBool True),
              (''access_token'', JStr token)] 30)) image_urls) = Inr s \<longrightarrow>
                (\<forall>e. rpost (graph_url cfg (ig_user @ ''/media''))
                             [(''children'', JStr s), (''caption'', JStr caption),
                              (''access_token'', JStr token)] 30 = Inl e \<longrightarrow> publish_carousel cfg rpost image_urls caption = Inl e)
                \<and> (\<forall>r. rpost (graph_url cfg (ig_user @ ''/media''))
                             [(''children'', JStr s), (''caption'', JStr caption),
                              (''access_token'', JStr token)] 30 = Inr r \<longrightarrow>
                     (rejected r \<longrightarrow> publish_carousel cfg rpost image_urls caption = Inr (False, ''Failed to create parent carousel container: '' @ resp_text r))
                   \<and> (\<not> rejected r \<longrightarrow>
                       (\<forall>e. json_get (json_field (to_graph_result r)) ''id'' = Inl e \<longrightarrow> publish_carousel cfg rpost image_urls caption = Inl e)
                     \<and> (\<forall>c. json_get (json_field (to_graph_result r)) ''id'' = Inr c \<longrightarrow>
                          (\<not> json_truthy c \<longrightarrow> publish_carousel cfg rpost image_urls caption = Inr (False, ''No creation id for carousel: '' @ resp_text r))
                        \<and> (json_truthy c \<longrightarrow>
                             (\<forall>e. rpost (graph_url cfg (ig_user @ ''/media_publish''))
                                 [(''creation_id'', c), (''access_token'', JStr token)] 30 = Inl e \<longrightarrow> publish_carousel cfg rpost image_urls caption = Inl e)
                           \<and> (\<forall>p. rpost (graph_url cfg (ig_user @ ''/media_publish''))
                                 [(''creation_id'', c), (''access_token'', JStr token)] 30 = Inr p \<longrightarrow>
                                (status_ok (resp_status_code p) \<longrightarrow> publish_carousel cfg rpost image_urls caption = Inr (True, ''Carousel published: '' @ resp_text p))
                              \<and> (\<not> status_ok (resp_status_code p) \<longrightarrow>
                                   publish_carousel cfg rpost image_urls caption = Inr (False, ''Carousel publish failed: '' @ resp_text p)))))))"
      proof (rule allI, rule impI)
        fix s
        assume j: "join_comma (map (\<lambda>y. container_id (rpost (graph_url cfg (ig_user @ ''/media''))
             [(''image_url'', JStr y), (''is_carousel_item'', JBool True),
              (''access_token'', JStr token)] 30)) image_urls) = Inr s"
        have "publish_carousel cfg rpost image_urls caption =
     (case rpost (graph_url cfg (ig_user @ ''/media''))
             [(''children'', JStr s), (''caption'', JStr caption),
              (''access_token'', JStr token)] 30 of
        Inl e \<Rightarrow> Inl e
      | Inr r \<Rightarrow>
          if rejected r
          then Inr (False, ''Failed to create parent carousel container: '' @ resp_text r)
          else (case json_get (json_field (to_graph_result r)) ''id'' of
                  Inl e \<Rightarrow> Inl e
                | Inr c \<Rightarrow>
                    if \<not> json_truthy c
                    then Inr (False, ''No creation id for carousel: '' @ resp_text r)
                    else (case rpost (graph_url cfg (ig_user @ ''/media_publish''))
                                 [(''creation_id'', c), (''access_token'', JStr token)] 30 of
                            Inl e \<Rightarrow> Inl e
                          | Inr p \<Rightarrow>
                              if status_ok (resp_status_code p)
                              then Inr (True, ''Carousel published: '' @ resp_text p)
                              else Inr (False, ''Carousel publish failed: '' @ resp_text p))))"
          using par j by simp
        then show "
                (\<forall>e. rpost (graph_url cfg (ig_user @ ''/media''))
                             [(''children'', JStr s), (''caption'', JStr caption),
                              (''access_token'', JStr token)] 30 = Inl e \<longrightarrow> publish_carousel cfg rpost image_urls caption = Inl e)
                \<and> (\<forall>r. rpost (graph_url cfg (ig_user @ ''/media''))
                             [(''children'', JStr s), (''caption'', JStr caption),
                              (''access_token'', JStr token)] 30 = Inr r \<longrightarrow>
                     (rejected r \<longrightarrow> publish_carousel cfg rpost image_urls caption = Inr (False, ''Failed to create parent carousel container: '' @ resp_text r))
                   \<and> (\<not> rejected r \<longrightarrow>
                       (\<forall>e. json_get (json_field (to_graph_result r)) ''id'' = Inl e \<longrightarrow> publish_carousel cfg rpost image_urls caption = Inl e)
                     \<and> (\<forall>c. json_get (json_field (to_graph_result r)) ''id'' = Inr c \<longrightarrow>
                          (\<not> json_truthy c \<longrightarrow> publish_carousel cfg rpost image_urls caption = Inr (False, ''No creation id for carousel: '' @ resp_text r))
                        \<and> (json_truthy c \<longrightarrow>
                             (\<forall>e. rpost (graph_url cfg (ig_user @ ''/media_publish''))
                                 [(''creation_id'', c), (''access_token'', JStr token)] 30 = Inl e \<longrightarrow> publish_carousel cfg rpost image_urls caption = Inl e)
                           \<and> (\<forall>p. rpost (graph_url cfg (ig_user @ ''/media_publish''))
                                 [(''creation_id'', c), (''access_token'', JStr token)] 30 = Inr p \<longrightarrow>
                                (status_ok (resp_status_code p) \<longrightarrow> publish_carousel cfg rpost image_urls caption = Inr (True, ''Carousel published: '' @ resp_text p))
                              \<and> (\<not> status_ok (resp_status_code p) \<longrightarrow>
                                   publish_carousel cfg rpost image_urls caption = Inr (False, ''Carousel publish failed: '' @ resp_text p)))))))"
          by (rule two_phase_cases)
      qed
      show "(\<forall>e. join_comma (map (\<lambda>y. container_id (rpost (graph_url cfg (ig_user @ ''/media''))
             [(''image_url'', JStr y), (''is_carousel_item'', JBool True),
              (''access_token'', JStr token)] 30)) image_urls) = Inl e \<longrightarrow>
              publish_carousel cfg rpost image_urls caption = Inl e)
         \<and> (\<forall>s. join_comma (map (\<lambda>y. container_id (rpost (graph_url cfg (ig_user @ ''/media''))
             [(''image_url'', JStr y), (''is_carousel_item'', JBool True),
              (''access_token'', JStr token)] 30)) image_urls) = Inr s \<longrightarrow>
                (\<forall>e. rpost (graph_url cfg (ig_user @ ''/media''))
                             [(''children'', JStr s), (''caption'', JStr caption),
                              (''access_token'', JStr token)] 30 = Inl e \<longrightarrow> publish_carousel cfg rpost image_urls caption = Inl e)
                \<and> (\<forall>r. rpost (graph_url cfg (ig_user @ ''/media''))
                             [(''children'', JStr s), (''caption'', JStr caption),
                              (''access_token'', JStr token)] 30 = Inr r \<longrightarrow>
                     (rejected r \<longrightarrow> publish_carousel cfg rpost image_urls caption = Inr (False, ''Failed to create parent carousel container: '' @ resp_text r))
                   \<and> (\<not> rejected r \<longrightarrow>
                       (\<forall>e. json_get (json_field (to_graph_result r)) ''id'' = Inl e \<longrightarrow> publish_carousel cfg rpost image_urls caption = Inl e)
                     \<and> (\<forall>c. json_get (json_field (to_graph_result r)) ''id'' = Inr c \<longrightarrow>
                          (\<not> json_truthy c \<longrightarrow> publish_carousel cfg rpost image_urls caption = Inr (False, ''No creation id for carousel: '' @ resp_text r))
                        \<and> (json_truthy c \<longrightarrow>
                             (\<forall>e. rpost (graph_url cfg (ig_user @ ''/media_publish''))
                                 [(''creation_id'', c), (''access_token'', JStr token)] 30 = Inl e \<longrightarrow> publish_carousel cfg rpost image_urls caption = Inl e)
                           \<and> (\<forall>p. rpost (graph_url cfg (ig_user @ ''/media_publish''))
                                 [(''creation_id'', c), (''access_token'', JStr token)] 30 = Inr p \<longrightarrow>
                                (status_ok (resp_status_code p) \<longrightarrow> publish_carousel cfg rpost image_urls caption = Inr (True, ''Carousel published: '' @ resp_text p))
                              \<and> (\<not> status_ok (resp_status_code p) \<longrightarrow>
                                   publish_carousel cfg rpost image_urls caption = Inr (False, ''Carousel publish failed: '' @ resp_text p))))))))"
        by (rule conjI[OF d1 d2])
    qed
    show "(
         (\<forall>e. rpost (graph_url cfg (ig_user @ ''/media''))
                      [(''image_url'', JStr image_url), (''caption'', JStr caption),
                       (''access_token'', JStr token)] 30 = Inl e \<longrightarrow> publish_photo cfg rpost image_url caption = Inl e)
         \<and> (\<forall>r. rpost (graph_url cfg (ig_user @ ''/media''))
                      [(''image_url'', JStr image_url), (''caption'', JStr caption),
                       (''access_token'', JStr token)] 30 = Inr r \<longrightarrow>
              (rejected r \<longrightarrow> publish_photo cfg rpost image_url caption = Inr (False, ''Failed to create media container: '' @ resp_text r))
            \<and> (\<not> rejected r \<longrightarrow>
                (\<forall>e. json_get (json_field (to_graph_result r)) ''id'' = Inl e \<longrightarrow> publish_photo cfg rpost image_url caption = Inl e)
              \<and> (\<forall>c. json_get (json_field (to_graph_result r)) ''id'' = Inr c \<longrightarrow>
                   (\<not> json_truthy c \<longrightarrow> publish_photo cfg rpost image_url caption = Inr (False, ''No creation id returned: '' @ resp_text r))
                 \<and> (json_truthy c \<longrightarrow>
                      (\<forall>e. rpost (graph_url cfg (ig_user @ ''/media_publish''))
                          [(''creation_id'', c), (''access_token'', JStr token)] 30 = Inl e \<longrightarrow> publish_photo cfg rpost image_url caption = Inl e)
                    \<and> (\<forall>p. rpost (graph_url cfg (ig_user @ ''/media_publish''))
                          [(''creation_id'', c), (''access_token'', JStr token)] 30 = Inr p \<longrightarrow>
                         (status_ok (resp_status_code p) \<longrightarrow> publish_photo cfg rpost image_url caption = Inr (True, ''Published: '' @ resp_text p))
                       \<and> (\<not> status_ok (resp_status_code p) \<longrightarrow>
                            publish_photo cfg rpost image_url caption = Inr (False, ''Publish failed: '' @ resp_text p))))))))
      \<and> (
         (\<forall>e. rpost (''https://graph-video.facebook.com/''
                             @ (if FACEBOOK_GRAPH_API_VERSION cfg \<noteq> [] then FACEBOOK_GRAPH_API_VERSION cfg
                                else ''v17.0'')
                             @ ''/'' @ ig_user @ ''/media'')
                      [(''video_url'', JStr video_url), (''caption'', JStr caption),
                       (''access_token'', JStr token)] 120 = Inl e \<longrightarrow> publish_video cfg rpost video_url caption = Inl e)
         \<and> (\<forall>r. rpost (''https://graph-video.facebook.com/''
                             @ (if FACEBOOK_GRAPH_API_VERSION cfg \<noteq> [] then FACEBOOK_GRAPH_API_VERSION cfg
                                else ''v17.0'')
                             @ ''/'' @ ig_user @ ''/media'')
                      [(''video_url'', JStr video_url), (''caption'', JStr caption),
                       (''access_token'', JStr token)] 120 = Inr r \<longrightarrow>
              (rejected r \<longrightarrow> publish_video cfg rpost video_url caption = Inr (False, ''Failed to create video container: '' @ resp_text r))
            \<and> (\<not> rejected r \<longrightarrow>
                (\<forall>e. json_get (json_field (to_graph_result r)) ''id'' = Inl e \<longrightarrow> publish_video cfg rpost video_url caption = Inl e)
              \<and> (\<forall>c. json_get (json_field (to_graph_result r)) ''id'' = Inr c \<longrightarrow>
                   (\<not> json_truthy c \<longrightarrow> publish_video cfg rpost video_url caption = Inr (False, ''No creation id returned for video: '' @ resp_text r))
                 \<and> (json_truthy c \<longrightarrow>
                      (\<forall>e. rpost (graph_url cfg (ig_user @ ''/media_publish''))
                          [(''creation_id'', c), (''access_token'', JStr token)] 60 = Inl e \<longrightarrow> publish_video cfg rpost video_url caption = Inl e)
                    \<and> (\<forall>p. rpost (graph_url cfg (ig_user @ ''/media_publish''))
                          [(''creation_id'', c), (''access_token'', JStr token)] 60 = Inr p \<longrightarrow>
                         (status_ok (resp_status_code p) \<longrightarrow> publish_video cfg rpost video_url caption = Inr (True, ''Video published: '' @ resp_text p))
                       \<and> (\<not> status_ok (resp_status_code p) \<longrightarrow>
                            publish_video cfg rpost video_url caption = Inr (False, ''Video publish failed: '' @ resp_text p))))))))
      \<and> (\<forall>pre x post. image_urls = pre @ x # post
            \<and> (\<forall>y\<in>set pre. created (rpost (graph_url cfg (ig_user @ ''/media''))
             [(''image_url'', JStr y), (''is_carousel_item'', JBool True),
              (''access_token'', JStr token)] 30)) \<longrightarrow>
           (\<forall>e. rpost (graph_url cfg (ig_user @ ''/media''))
             [(''image_url'', JStr x), (''is_carousel_item'', JBool True),
              (''access_token'', JStr token)] 30 = Inl e \<longrightarrow>
              publish_carousel cfg rpost image_urls caption = Inl e)
         \<and> (\<forall>r. rpost (graph_url cfg (ig_user @ ''/media''))
             [(''image_url'', JStr x), (''is_carousel_item'', JBool True),
              (''access_token'', JStr token)] 30 = Inr r \<longrightarrow>
              (rejected r \<longrightarrow>
                 publish_carousel cfg rpost image_urls caption =
                   Inr (False, ''Failed creating child media: '' @ resp_text r))
            \<and> (\<not> rejected r \<longrightarrow>
                (\<forall>e. json_get (json_field (to_graph_result r)) ''id'' = Inl e \<longrightarrow>
                   publish_carousel cfg rpost image_urls caption = Inl e)
              \<and> (\<forall>c. json_get (json_field (to_graph_result r)) ''id'' = Inr c \<and> \<not> json_truthy c \<longrightarrow>
                   publish_carousel cfg rpost image_urls caption =
                     Inr (False, ''No child id returned: '' @ resp_text r)))))
      \<and> ((\<forall>y\<in>set image_urls. created (rpost (graph_url cfg (ig_user @ ''/media''))
             [(''image_url'', JStr y), (''is_carousel_item'', JBool True),
              (''access_token'', JStr token)] 30)) \<longrightarrow>
           (\<forall>e. join_comma (map (\<lambda>y. container_id (rpost (graph_url cfg (ig_user @ ''/media''))
             [(''image_url'', JStr y), (''is_carousel_item'', JBool True),
              (''access_token'', JStr token)] 30)) image_urls) = Inl e \<longrightarrow>
              publish_carousel cfg rpost image_urls caption = Inl e)
         \<and> (\<forall>s. join_comma (map (\<lambda>y. container_id (rpost (graph_url cfg (ig_user @ ''/media''))
             [(''image_url'', JStr y), (''is_carousel_item'', JBool True),
              (''access_token'', JStr token)] 30)) image_urls) = Inr s \<longrightarrow>
                (\<forall>e. rpost (graph_url cfg (ig_user @ ''/media''))
                             [(''children'', JStr s), (''caption'', JStr caption),
                              (''access_token'', JStr token)] 30 = Inl e \<longrightarrow> publish_carousel cfg rpost image_urls caption = Inl e)
                \<and> (\<forall>r. rpost (graph_url cfg (ig_user @ ''/media''))
                             [(''children'', JStr s), (''caption'', JStr caption),
                              (''access_token'', JStr token)] 30 = Inr r \<longrightarrow>
                     (rejected r \<longrightarrow> publish_carousel cfg rpost image_urls caption = Inr (False, ''Failed to create parent carousel container: '' @ resp_text r))
                   \<and> (\<not> rejected r \<longrightarrow>
                       (\<forall>e. json_get (json_field (to_graph_result r)) ''id'' = Inl e \<longrightarrow> publish_carousel cfg rpost image_urls caption = Inl e)
                     \<and> (\<forall>c. json_get (json_field (to_graph_result r)) ''id'' = Inr c \<longrightarrow>
                          (\<not> json_truthy c \<longrightarrow> publish_carousel cfg rpost image_urls caption = Inr (False, ''No creation id for carousel: '' @ resp_text r))
                        \<and> (json_truthy c \<longrightarrow>
                             (\<forall>e. rpost (graph_url cfg (ig_user @ ''/media_publish''))
                                 [(''creation_id'', c), (''access_token'', JStr token)] 30 = Inl e \<longrightarrow> publish_carousel cfg rpost image_urls caption = Inl e)
                           \<and> (\<forall>p. rpost (graph_url cfg (ig_user @ ''/media_publish''))
                                 [(''creation_id'', c), (''access_token'', JStr token)] 30 = Inr p \<longrightarrow>
                                (status_ok (resp_status_code p) \<longrightarrow> publish_carousel cfg rpost image_urls caption = Inr (True, ''Carousel published: '' @ resp_text p))
                              \<and> (\<not> status_ok (resp_status_code p) \<longrightarrow>
                                   publish_carousel cfg rpost image_urls caption = Inr (False, ''Carousel publish failed: '' @ resp_text p)))))))))"
      by (rule conjI[OF a conjI[OF b conjI[OF c d]]])
  qed
  have g3: "\<forall>e. publish_photo cfg rpost image_url caption = Inl e \<longrightarrow>
         (\<exists>url data t. rpost url data t = Inl e)
         \<or> (\<exists>url data t r. rpost url data t = Inr r \<and> \<not> rejected r
               \<and> json_get (json_field (to_graph_result r)) ''id'' = Inl e)"
    by (intro allI impI) (erule publish_photo_raises_only)
  have g4: "\<forall>e. publish_video cfg rpost video_url caption = Inl e \<longrightarrow>
         (\<exists>url data t. rpost url data t = Inl e)
         \<or> (\<exists>url data t r. rpost url data t = Inr r \<and> \<not> rejected r
               \<and> json_get (json_field (to_graph_result r)) ''id'' = Inl e)"
    by (intro allI impI) (erule publish_video_raises_only)
  have g5: "\<forall>e. publish_carousel cfg rpost image_urls caption = Inl e \<longrightarrow>
         (\<exists>url data t. rpost url data t = Inl e)
         \<or> (\<exists>url data t r. rpost url data t = Inr r \<and> \<not> rejected r
               \<and> json_get (json_field (to_graph_result r)) ''id'' = Inl e)
         \<or> (\<exists>url data t r c. rpost url data t = Inr r \<and> \<not> rejected r
               \<and> json_get (json_field (to_graph_result r)) ''id'' = Inr c \<and> json_truthy c
               \<and> \<not> is_JStr c \<and> e = TypeError ''sequence item: expected str instance'')"
    by (intro allI impI) (erule publish_carousel_raises_only)
  show ?thesis
    by (rule conjI[OF g1 conjI[OF g2 conjI[OF g3 conjI[OF g4 g5]]]])
qed

theorem C4_publish_results_witness:
  "FACEBOOK_PAGE_ACCESS_TOKEN example_settings = Some ''token''
   \<and> INSTAGRAM_USER_ID example_settings = Some ''1784''
   \<and> publish_photo example_settings net_publish_refused ''https://cdn.example/a.jpg'' ''Hello''
       = Inr (False, ''Publish failed: {error: media not ready}'')
   \<and> publish_photo example_settings net_ok ''https://cdn.example/a.jpg'' ''Hello''
       = Inr (True, ''Published: {id: 17900}'')
   \<and> publish_video example_settings net_publish_refused ''https://cdn.example/v.mp4'' ''Hello''
       = Inr (False, ''Video publish failed: {error: media not ready}'')
   \<and> publish_video example_settings net_down ''https://cdn.example/v.mp4'' ''Hello''
       = Inl (ConnectionError ''Max retries exceeded'')
   \<and> publish_carousel example_settings net_ok
         [''https://cdn.example/a.jpg'', ''https://cdn.example/b.jpg''] ''Hello''
       = Inr (True, ''Carousel published: {id: 17900}'')
   \<and> publish_carousel example_settings net_publish_refused
         [''https://cdn.example/a.jpg'', ''https://cdn.example/b.jpg''] ''Hello''
       = Inr (False, ''Carousel publish failed: {error: media not ready}'')
   \<and> publish_carousel example_settings net_refusing
         [''https://cdn.example/a.jpg'', ''https://cdn.example/b.jpg''] ''Hello''
       = Inr (False, ''Failed creating child media: {error: bad request}'')"
proof -
  have tok: "FACEBOOK_PAGE_ACCESS_TOKEN example_settings = Some ''token'' \<and> ''token'' \<noteq> []
       \<and> INSTAGRAM_USER_ID example_settings = Some ''1784'' \<and> ''1784'' \<noteq> []"
    by (simp add: example_settings_def)
  note ev = rejected_def status_ok_def to_graph_result_def created_def container_id_def
  note refused = C4_publish_results [where cfg = example_settings
      and rpost = net_publish_refused and token = "''token''" and ig_user = "''1784''"
      and image_url = "''https://cdn.example/a.jpg''" and caption = "''Hello''"
      and video_url = "''https://cdn.example/v.mp4''"
      and image_urls = "[''https://cdn.example/a.jpg'', ''https://cdn.example/b.jpg'']",
      THEN conjunct2, THEN conjunct1, rule_format, OF tok]
  note ok = C4_publish_results [where cfg = example_settings
      and rpost = net_ok and token = "''token''" and ig_user = "''1784''"
      and image_url = "''https://cdn.example/a.jpg''" and caption = "''Hello''"
      and image_urls = "[''https://cdn.example/a.jpg'', ''https://cdn.example/b.jpg'']",
      THEN conjunct2, THEN conjunct1, rule_format, OF tok]
  note down = C4_publish_results [where cfg = example_settings
      and rpost = net_down and token = "''token''" and ig_user = "''1784''"
      and video_url = "''https://cdn.example/v.mp4''" and caption = "''Hello''",
      THEN conjunct2, THEN conjunct1, rule_format, OF tok]
  note refusing = C4_publish_results [where cfg = example_settings
      and rpost = net_refusing and token = "''token''" and ig_user = "''1784''"
      and caption = "''Hello''"
      and image_urls = "[''https://cdn.example/a.jpg'', ''https://cdn.example/b.jpg'']",
      THEN conjunct2, THEN conjunct1, rule_format, OF tok]
  have w1: "publish_photo example_settings net_publish_refused ''https://cdn.example/a.jpg'' ''Hello''
       = Inr (False, ''Publish failed: {error: media not ready}'')"
    using refused [THEN conjunct1] by (simp add: net_publish_refused_def ev)
  have w2: "publish_photo example_settings net_ok ''https://cdn.example/a.jpg'' ''Hello''
       = Inr (True, ''Published: {id: 17900}'')"
    using ok [THEN conjunct1] by (simp add: net_ok_def ev)
  have w3: "publish_video example_settings net_publish_refused ''https://cdn.example/v.mp4'' ''Hello''
       = Inr (False, ''Video publish failed: {error: media not ready}'')"
    using refused [THEN conjunct2, THEN conjunct1] by (simp add: net_publish_refused_def ev)
  have w4: "publish_video example_settings net_down ''https://cdn.example/v.mp4'' ''Hello''
       = Inl (ConnectionError ''Max retries exceeded'')"
    using down [THEN conjunct2, THEN conjunct1] by (simp add: net_down_def)
  have w5: "publish_carousel example_settings net_ok
         [''https://cdn.example/a.jpg'', ''https://cdn.example/b.jpg''] ''Hello''
       = Inr (True, ''Carousel published: {id: 17900}'')"
    using ok [THEN conjunct2, THEN conjunct2, THEN conjunct2] by (simp add: net_ok_def ev)
  have w6: "publish_carousel example_settings net_publish_refused
         [''https://cdn.example/a.jpg'', ''https://cdn.example/b.jpg''] ''Hello''
       = Inr (False, ''Carousel publish failed: {error: media not ready}'')"
    using refused [THEN conjunct2, THEN conjunct2, THEN conjunct2]
    by (simp add: net_publish_refused_def ev)
  have w7: "publish_carousel example_settings net_refusing
         [''https://cdn.example/a.jpg'', ''https://cdn.example/b.jpg''] ''Hello''
       = Inr (False, ''Failed creating child media: {error: bad request}'')"
    using refusing [THEN conjunct2, THEN conjunct2, THEN conjunct1, rule_format,
        where pre = "[]" and x = "''https://cdn.example/a.jpg''"
        and post = "[''https://cdn.example/b.jpg'']"]
    by (simp add: net_refusing_def ev)
  show ?thesis using tok w1 w2 w3 w4 w5 w6 w7 by simp
qed

subsection \<open>Media resolution\<close>

lemma is_http_url_nonempty: "is_http_url u \<Longrightarrow> u \<noteq> []"
  by (auto simp: is_http_url_def startswith_def)

lemma fetch_r2_Some:
  "py_or (dict_get m ''r2_url'') (dict_get m ''url'') = Some u \<Longrightarrow> is_http_url u \<Longrightarrow>
     fetch_r2 w m = Some (case r2_download w u of
                       Inl e \<Rightarrow> Inl e
                     | Inr data \<Rightarrow>
                         Inr \<lparr>mb_bytes = data,
                              mb_file_name = Some (last_segment CHR ''/'' (urlparse_path w u)),
                              mb_mime_type = None, mb_source = ''r2''\<rparr>)"
  using is_http_url_nonempty[of u] by (simp add: fetch_r2_def)

lemma fetch_r2_None:
  "\<not> (\<exists>u. py_or (dict_get m ''r2_url'') (dict_get m ''url'') = Some u \<and> is_http_url u) \<Longrightarrow>
     fetch_r2 w m = None"
  by (cases "py_or (dict_get m ''r2_url'') (dict_get m ''url'')") (simp_all add: fetch_r2_def)

lemma fetch_r2_attempted:
  "fetch_r2 w m \<noteq> None \<longleftrightarrow>
     (\<exists>u. py_or (dict_get m ''r2_url'') (dict_get m ''url'') = Some u \<and> is_http_url u)"
proof (cases "\<exists>u. py_or (dict_get m ''r2_url'') (dict_get m ''url'') = Some u \<and> is_http_url u")
  case False
  then show ?thesis using fetch_r2_None[of m w] by simp
next
  case True
  then obtain u where u: "py_or (dict_get m ''r2_url'') (dict_get m ''url'') = Some u" "is_http_url u"
    by blast
  show ?thesis using True fetch_r2_Some[OF u, of w] by simp
qed

lemma fetch_r2_delivers:
  "fetch_r2 w m = Some (Inr r) \<longleftrightarrow>
     (\<exists>u data. py_or (dict_get m ''r2_url'') (dict_get m ''url'') = Some u \<and> is_http_url u
        \<and> r2_download w u = Inr data
        \<and> r = \<lparr>mb_bytes = data,
                 mb_file_name = Some (last_segment CHR ''/'' (urlparse_path w u)),
                 mb_mime_type = None, mb_source = ''r2''\<rparr>)"
proof (cases "\<exists>u. py_or (dict_get m ''r2_url'') (dict_get m ''url'') = Some u \<and> is_http_url u")
  case False
  then show ?thesis using fetch_r2_None[of m w] by auto
next
  case True
  then obtain u where u: "py_or (dict_get m ''r2_url'') (dict_get m ''url'') = Some u" "is_http_url u"
    by blast
  show ?thesis
  proof (cases "r2_download w u")
    case (Inl e)
    then show ?thesis using u fetch_r2_Some[OF u, of w] by simp
  next
    case (Inr data)
    then show ?thesis using u fetch_r2_Some[OF u, of w] by auto
  qed
qed

lemma fetch_drive_Some:
  "dict_get m ''uploaded_file_id'' = Some d \<Longrightarrow> d \<noteq> [] \<Longrightarrow>
     fetch_drive w m = Some (case drive_download w d of
                       Inl e \<Rightarrow> Inl e
                     | Inr info \<Rightarrow>
                         Inr \<lparr>mb_bytes = df_bytes info, mb_file_name = df_file_name info,
                              mb_mime_type = df_mime_type info, mb_source = ''drive''\<rparr>)"
  by (simp add: fetch_drive_def)

lemma fetch_drive_None:
  "\<not> (\<exists>d. dict_get m ''uploaded_file_id'' = Some d \<and> d \<noteq> []) \<Longrightarrow> fetch_drive w m = None"
  by (cases "dict_get m ''uploaded_file_id''") (simp_all add: fetch_drive_def)

lemma fetch_drive_attempted:
  "fetch_drive w m \<noteq> None \<longleftrightarrow> (\<exists>d. dict_get m ''uploaded_file_id'' = Some d \<and> d \<noteq> [])"
proof (cases "\<exists>d. dict_get m ''uploaded_file_id'' = Some d \<and> d \<noteq> []")
  case False
  then show ?thesis using fetch_drive_None[of m w] by simp
next
  case True
  then obtain d where d: "dict_get m ''uploaded_file_id'' = Some d" "d \<noteq> []" by blast
  show ?thesis using True fetch_drive_Some[OF d, of w] by simp
qed

lemma fetch_drive_delivers:
  "fetch_drive w m = Some (Inr r) \<longleftrightarrow>
     (\<exists>d info. dict_get m ''uploaded_file_id'' = Some d \<and> d \<noteq> []
        \<and> drive_download w d = Inr info
        \<and> r = \<lparr>mb_bytes = df_bytes info, mb_file_name = df_file_name info,
                 mb_mime_type = df_mime_type info, mb_source = ''drive''\<rparr>)"
proof (cases "\<exists>d. dict_get m ''uploaded_file_id'' = Some d \<and> d \<noteq> []")
  case False
  then show ?thesis using fetch_drive_None[of m w] by auto
next
  case True
  then obtain d where d: "dict_get m ''uploaded_file_id'' = Some d" "d \<noteq> []" by blast
  show ?thesis
  proof (cases "drive_download w d")
    case (Inl e)
    then show ?thesis using d fetch_drive_Some[OF d, of w] by simp
  next
    case (Inr info)
    then show ?thesis using d fetch_drive_Some[OF d, of w] by auto
  qed
qed

lemma fetch_http_Some:
  "py_or (dict_get m ''requested_path'') (dict_get m ''url'') = Some q \<Longrightarrow> is_http_url q \<Longrightarrow>
     fetch_http w m = Some (case http_get w q 20 of
                       Inl e \<Rightarrow> Inl e
                     | Inr resp \<Rightarrow>
                         if 400 \<le> get_status resp \<and> get_status resp < 600
                         then Inl (ConnectionError ''HTTPError'')
                         else Inr \<lparr>mb_bytes = get_content resp,
                                 mb_file_name =
                                   Some (if last_segment CHR ''/'' (urlparse_path w q) \<noteq> []
                                         then last_segment CHR ''/'' (urlparse_path w q)
                                         else ''file''),
                                 mb_mime_type = get_content_type resp,
                                 mb_source = ''http''\<rparr>)"
  using is_http_url_nonempty[of q]
  by (cases "http_get w q 20") (simp_all add: fetch_http_def raise_for_status_def Let_def)

lemma fetch_http_None:
  "\<not> (\<exists>q. py_or (dict_get m ''requested_path'') (dict_get m ''url'') = Some q \<and> is_http_url q)
     \<Longrightarrow> fetch_http w m = None"
  by (cases "py_or (dict_get m ''requested_path'') (dict_get m ''url'')")
     (simp_all add: fetch_http_def)

lemma fetch_http_attempted:
  "fetch_http w m \<noteq> None \<longleftrightarrow>
     (\<exists>q. py_or (dict_get m ''requested_path'') (dict_get m ''url'') = Some q \<and> is_http_url q)"
proof (cases "\<exists>q. py_or (dict_get m ''requested_path'') (dict_get m ''url'') = Some q \<and> is_http_url q")
  case False
  then show ?thesis using fetch_http_None[of m w] by simp
next
  case True
  then obtain q where q: "py_or (dict_get m ''requested_path'') (dict_get m ''url'') = Some q"
    "is_http_url q" by blast
  show ?thesis using True fetch_http_Some[OF q, of w] by simp
qed

lemma fetch_http_delivers:
  "fetch_http w m = Some (Inr r) \<longleftrightarrow>
     (\<exists>q resp. py_or (dict_get m ''requested_path'') (dict_get m ''url'') = Some q
        \<and> is_http_url q \<and> http_get w q 20 = Inr resp
        \<and> \<not> (400 \<le> get_status resp \<and> get_status resp < 600)
        \<and> r = \<lparr>mb_bytes = get_content resp,
                 mb_file_name = Some (if last_segment CHR ''/'' (urlparse_path w q) \<noteq> []
                                      then last_segment CHR ''/'' (urlparse_path w q) else ''file''),
                 mb_mime_type = get_content_type resp, mb_source = ''http''\<rparr>)"
proof (cases "\<exists>q. py_or (dict_get m ''requested_path'') (dict_get m ''url'') = Some q \<and> is_http_url q")
  case False
  then show ?thesis using fetch_http_None[of m w] by auto
next
  case True
  then obtain q where q: "py_or (dict_get m ''requested_path'') (dict_get m ''url'') = Some q"
    "is_http_url q" by blast
  show ?thesis
  proof (cases "http_get w q 20")
    case (Inl e)
    then show ?thesis using q fetch_http_Some[OF q, of w] by simp
  next
    case (Inr resp)
    show ?thesis
    proof (cases "400 \<le> get_status resp \<and> get_status resp < 600")
      case True
      then show ?thesis using Inr q fetch_http_Some[OF q, of w] by simp
    next
      case False
      then show ?thesis using Inr q fetch_http_Some[OF q, of w] by auto
    qed
  qed
qed

lemma fetch_local_Some:
  "py_or (dict_get m ''requested_path'') (dict_get m ''url'') = Some q \<Longrightarrow> q \<noteq> [] \<Longrightarrow>
     \<not> is_http_url q \<Longrightarrow>
     fetch_local w m = Some (case read_file w q of
                       Inl e \<Rightarrow> Inl e
                     | Inr data \<Rightarrow>
                         Inr \<lparr>mb_bytes = data,
                              mb_file_name = Some (if last_segment CHR ''/'' q \<noteq> []
                                                   then last_segment CHR ''/'' q
                                                   else last_segment (CHR 0x5C) q),
                              mb_mime_type = None, mb_source = ''local''\<rparr>)"
  by (cases "read_file w q") (simp_all add: fetch_local_def Let_def)

lemma fetch_local_None:
  "\<not> (\<exists>q. py_or (dict_get m ''requested_path'') (dict_get m ''url'') = Some q \<and> q \<noteq> []
         \<and> \<not> is_http_url q)
     \<Longrightarrow> fetch_local w m = None"
  by (cases "py_or (dict_get m ''requested_path'') (dict_get m ''url'')")
     (simp_all add: fetch_local_def)

lemma fetch_local_attempted:
  "fetch_local w m \<noteq> None \<longleftrightarrow>
     (\<exists>q. py_or (dict_get m ''requested_path'') (dict_get m ''url'') = Some q
          \<and> q \<noteq> [] \<and> \<not> is_http_url q)"
proof (cases "\<exists>q. py_or (dict_get m ''requested_path'') (dict_get m ''url'') = Some q \<and> q \<noteq> []
         \<and> \<not> is_http_url q")
  case False
  then show ?thesis using fetch_local_None[of m w] by simp
next
  case True
  then obtain q where q: "py_or (dict_get m ''requested_path'') (dict_get m ''url'') = Some q"
    "q \<noteq> []" "\<not> is_http_url q" by blast
  show ?thesis using True fetch_local_Some[OF q, of w] by simp
qed

lemma fetch_local_delivers:
  "fetch_local w m = Some (Inr r) \<longleftrightarrow>
     (\<exists>q data. py_or (dict_get m ''requested_path'') (dict_get m ''url'') = Some q
        \<and> q \<noteq> [] \<and> \<not> is_http_url q \<and> read_file w q = Inr data
        \<and> r = \<lparr>mb_bytes = data,
                 mb_file_name = Some (if last_segment CHR ''/'' q \<noteq> []
                                      then last_segment CHR ''/'' q
                                      else last_segment (CHR 0x5C) q),
                 mb_mime_type = None, mb_source = ''local''\<rparr>)"
proof (cases "\<exists>q. py_or (dict_get m ''requested_path'') (dict_get m ''url'') = Some q \<and> q \<noteq> []
         \<and> \<not> is_http_url q")
  case False
  then show ?thesis using fetch_local_None[of m w] by auto
next
  case True
  then obtain q where q: "py_or (dict_get m ''requested_path'') (dict_get m ''url'') = Some q"
    "q \<noteq> []" "\<not> is_http_url q" by blast
  show ?thesis
  proof (cases "read_file w q")
    case (Inl e)
    then show ?thesis using q fetch_local_Some[OF q, of w] by simp
  next
    case (Inr data)
    then show ?thesis using q fetch_local_Some[OF q, of w] by auto
  qed
qed

lemma try_sources_subseq: "subseq (fst (try_sources xs)) (map fst xs)"
  by (induction xs rule: try_sources.induct) (auto split: prod.splits)

lemma try_sources_Cons:
  "try_sources ((s, a) # rest) =
     (case a of None \<Rightarrow> try_sources rest
      | Some (Inr r) \<Rightarrow> ([s], Inr r)
      | Some (Inl e) \<Rightarrow> (s # fst (try_sources rest), snd (try_sources rest)))"
  by (simp add: case_prod_beta split: option.splits sum.splits)

lemma get_media_bytes_trace_R2:
  "R2 \<in> set (fst (get_media_bytes w m)) \<longleftrightarrow> fetch_r2 w m \<noteq> None"
  by (auto simp: get_media_bytes_def try_sources_Cons split: option.splits sum.splits)

lemma get_media_bytes_trace_Drive:
  "Drive \<in> set (fst (get_media_bytes w m)) \<longleftrightarrow>
     fetch_drive w m \<noteq> None \<and> (\<forall>r. fetch_r2 w m \<noteq> Some (Inr r))"
  by (auto simp: get_media_bytes_def try_sources_Cons split: option.splits sum.splits)

lemma get_media_bytes_trace_Http:
  "Http \<in> set (fst (get_media_bytes w m)) \<longleftrightarrow>
     fetch_http w m \<noteq> None \<and> (\<forall>r. fetch_r2 w m \<noteq> Some (Inr r))
       \<and> (\<forall>r. fetch_drive w m \<noteq> Some (Inr r))"
  by (auto simp: get_media_bytes_def try_sources_Cons split: option.splits sum.splits)

lemma get_media_bytes_trace_Local:
  "Local \<in> set (fst (get_media_bytes w m)) \<longleftrightarrow>
     fetch_local w m \<noteq> None \<and> (\<forall>r. fetch_r2 w m \<noteq> Some (Inr r))
       \<and> (\<forall>r. fetch_drive w m \<noteq> Some (Inr r)) \<and> (\<forall>r. fetch_http w m \<noteq> Some (Inr r))"
  by (auto simp: get_media_bytes_def try_sources_Cons split: option.splits sum.splits)

lemma get_media_bytes_from_R2:
  "fetch_r2 w m = Some (Inr r) \<Longrightarrow> get_media_bytes w m = ([R2], Inr r)"
  by (simp add: get_media_bytes_def)

lemma get_media_bytes_from_Drive:
  "(\<forall>r. fetch_r2 w m \<noteq> Some (Inr r)) \<Longrightarrow> fetch_drive w m = Some (Inr r) \<Longrightarrow>
     snd (get_media_bytes w m) = Inr r"
  by (auto simp: get_media_bytes_def try_sources_Cons split: option.splits sum.splits)

lemma get_media_bytes_from_Http:
  "(\<forall>r. fetch_r2 w m \<noteq> Some (Inr r)) \<Longrightarrow> (\<forall>r. fetch_drive w m \<noteq> Some (Inr r)) \<Longrightarrow>
     fetch_http w m = Some (Inr r) \<Longrightarrow> snd (get_media_bytes w m) = Inr r"
  by (auto simp: get_media_bytes_def try_sources_Cons split: option.splits sum.splits)

lemma get_media_bytes_from_Local:
  "(\<forall>r. fetch_r2 w m \<noteq> Some (Inr r)) \<Longrightarrow> (\<forall>r. fetch_drive w m \<noteq> Some (Inr r)) \<Longrightarrow>
     (\<forall>r. fetch_http w m \<noteq> Some (Inr r)) \<Longrightarrow>
     fetch_local w m = Some (Inr r) \<Longrightarrow> snd (get_media_bytes w m) = Inr r"
  by (auto simp: get_media_bytes_def try_sources_Cons split: option.splits sum.splits)

lemma get_media_bytes_no_source:
  "(\<forall>r. fetch_r2 w m \<noteq> Some (Inr r)) \<Longrightarrow> (\<forall>r. fetch_drive w m \<noteq> Some (Inr r)) \<Longrightarrow>
     (\<forall>r. fetch_http w m \<noteq> Some (Inr r)) \<Longrightarrow> (\<forall>r. fetch_local w m \<noteq> Some (Inr r)) \<Longrightarrow>
     snd (get_media_bytes w m) = Inl (RuntimeError ''No available source found for media entry'')"
  by (auto simp: get_media_bytes_def try_sources_Cons split: option.splits sum.splits)

text \<open>
  C6: get_media_bytes attempts the sources in the fixed order r2_url, Drive file id
  (uploaded_file_id), requested_path as an HTTP URL, requested_path as a local file.
  The sources it fetches from appear in that order; a source is fetched from exactly
  when its guard on the entry holds and no earlier source has delivered; the bytes
  returned are those of the first source that delivers, and RuntimeError is raised when
  none does. In particular an entry whose r2_url is an http(s) URL that R2 delivers is
  answered from R2 alone, whatever its uploaded_file_id.
\<close>

theorem C6_resolution_priority:
  "subseq (fst (get_media_bytes w m)) [R2, Drive, Http, Local]
   \<and> (\<forall>u data. dict_get m ''r2_url'' = Some u \<and> is_http_url u \<and> r2_download w u = Inr data \<longrightarrow>
         get_media_bytes w m =
           ([R2], Inr \<lparr>mb_bytes = data,
                       mb_file_name = Some (last_segment CHR ''/'' (urlparse_path w u)),
                       mb_mime_type = None, mb_source = ''r2''\<rparr>))
   \<and> (\<forall>r. fetch_r2 w m = Some (Inr r) \<longrightarrow> get_media_bytes w m = ([R2], Inr r))
   \<and> (\<forall>r. (\<forall>x. fetch_r2 w m \<noteq> Some (Inr x)) \<and> fetch_drive w m = Some (Inr r) \<longrightarrow>
         snd (get_media_bytes w m) = Inr r)
   \<and> (\<forall>r. (\<forall>x. fetch_r2 w m \<noteq> Some (Inr x)) \<and> (\<forall>x. fetch_drive w m \<noteq> Some (Inr x))
           \<and> fetch_http w m = Some (Inr r) \<longrightarrow>
         snd (get_media_bytes w m) = Inr r)
   \<and> (\<forall>r. (\<forall>x. fetch_r2 w m \<noteq> Some (Inr x)) \<and> (\<forall>x. fetch_drive w m \<noteq> Some (Inr x))
           \<and> (\<forall>x. fetch_http w m \<noteq> Some (Inr x)) \<and> fetch_local w m = Some (Inr r) \<longrightarrow>
         snd (get_media_bytes w m) = Inr r)
   \<and> ((\<forall>x. fetch_r2 w m \<noteq> Some (Inr x)) \<and> (\<forall>x. fetch_drive w m \<noteq> Some (Inr x))
        \<and> (\<forall>x. fetch_http w m \<noteq> Some (Inr x)) \<and> (\<forall>x. fetch_local w m \<noteq> Some (Inr x)) \<longrightarrow>
         snd (get_media_bytes w m) =
           Inl (RuntimeError ''No available source found for media entry''))
   \<and> (R2 \<in> set (fst (get_media_bytes w m)) \<longleftrightarrow> fetch_r2 w m \<noteq> None)
   \<and> (Drive \<in> set (fst (get_media_bytes w m)) \<longleftrightarrow>
         fetch_drive w m \<noteq> None \<and> (\<forall>x. fetch_r2 w m \<noteq> Some (Inr x)))
   \<and> (Http \<in> set (fst (get_media_bytes w m)) \<longleftrightarrow>
         fetch_http w m \<noteq> None \<and> (\<forall>x. fetch_r2 w m \<noteq> Some (Inr x))
         \<and> (\<forall>x. fetch_drive w m \<noteq> Some (Inr x)))
   \<and> (Local \<in> set (fst (get_media_bytes w m)) \<longleftrightarrow>
         fetch_local w m \<noteq> None \<and> (\<forall>x. fetch_r2 w m \<noteq> Some (Inr x))
         \<and> (\<forall>x. fetch_drive w m \<noteq> Some (Inr x)) \<and> (\<forall>x. fetch_http w m \<noteq> Some (Inr x)))
   \<and> (fetch_r2 w m \<noteq> None \<longleftrightarrow>
         (\<exists>u. py_or (dict_get m ''r2_url'') (dict_get m ''url'') = Some u \<and> is_http_url u))
   \<and> (fetch_drive w m \<noteq> None \<longleftrightarrow>
         (\<exists>d. dict_get m ''uploaded_file_id'' = Some d \<and> d \<noteq> []))
   \<and> (fetch_http w m \<noteq> None \<longleftrightarrow>
         (\<exists>q. py_or (dict_get m ''requested_path'') (dict_get m ''url'') = Some q
              \<and> is_http_url q))
   \<and> (fetch_local w m \<noteq> None \<longleftrightarrow>
         (\<exists>q. py_or (dict_get m ''requested_path'') (dict_get m ''url'') = Some q
              \<and> q \<noteq> [] \<and> \<not> is_http_url q))
   \<and> (\<forall>r. fetch_r2 w m = Some (Inr r) \<longleftrightarrow>
         (\<exists>u data. py_or (dict_get m ''r2_url'') (dict_get m ''url'') = Some u \<and> is_http_url u
            \<and> r2_download w u = Inr data
            \<and> r = \<lparr>mb_bytes = data,
                     mb_file_name = Some (last_segment CHR ''/'' (urlparse_path w u)),
                     mb_mime_type = None, mb_source = ''r2''\<rparr>))
   \<and> (\<forall>r. fetch_drive w m = Some (Inr r) \<longleftrightarrow>
         (\<exists>d info. dict_get m ''uploaded_file_id'' = Some d \<and> d \<noteq> []
            \<and> drive_download w d = Inr info
            \<and> r = \<lparr>mb_bytes = df_bytes info, mb_file_name = df_file_name info,
                     mb_mime_type = df_mime_type info, mb_source = ''drive''\<rparr>))
   \<and> (\<forall>r. fetch_http w m = Some (Inr r) \<longleftrightarrow>
         (\<exists>q resp. py_or (dict_get m ''requested_path'') (dict_get m ''url'') = Some q
            \<and> is_http_url q \<and> http_get w q 20 = Inr resp
            \<and> \<not> (400 \<le> get_status resp \<and> get_status resp < 600)
            \<and> r = \<lparr>mb_bytes = get_content resp,
                     mb_file_name = Some (if last_segment CHR ''/'' (urlparse_path w q) \<noteq> []
                                          then last_segment CHR ''/'' (urlparse_path w q)
                                          else ''file''),
                     mb_mime_type = get_content_type resp, mb_source = ''http''\<rparr>))
   \<and> (\<forall>r. fetch_local w m = Some (Inr r) \<longleftrightarrow>
         (\<exists>q data. py_or (dict_get m ''requested_path'') (dict_get m ''url'') = Some q
            \<and> q \<noteq> [] \<and> \<not> is_http_url q \<and> read_file w q = Inr data
            \<and> r = \<lparr>mb_bytes = data,
                     mb_file_name = Some (if last_segment CHR ''/'' q \<noteq> []
                                          then last_segment CHR ''/'' q
                                          else last_segment (CHR 0x5C) q),
                     mb_mime_type = None, mb_source = ''local''\<rparr>))"
proof (intro conjI)
  show "subseq (fst (get_media_bytes w m)) [R2, Drive, Http, Local]"
    using try_sources_subseq[of "[(R2, fetch_r2 w m), (Drive, fetch_drive w m),
                  (Http, fetch_http w m), (Local, fetch_local w m)]"]
    by (simp add: get_media_bytes_def)
next
  show "\<forall>u data. dict_get m ''r2_url'' = Some u \<and> is_http_url u \<and> r2_download w u = Inr data \<longrightarrow>
         get_media_bytes w m =
           ([R2], Inr \<lparr>mb_bytes = data,
                       mb_file_name = Some (last_segment CHR ''/'' (urlparse_path w u)),
                       mb_mime_type = None, mb_source = ''r2''\<rparr>)"
  proof (intro allI impI)
    fix u data
    assume h: "dict_get m ''r2_url'' = Some u \<and> is_http_url u \<and> r2_download w u = Inr data"
    then have "py_or (dict_get m ''r2_url'') (dict_get m ''url'') = Some u"
      using is_http_url_nonempty[of u] by (simp add: py_or_def truthy_def)
    then have "fetch_r2 w m = Some (Inr \<lparr>mb_bytes = data,
                       mb_file_name = Some (last_segment CHR ''/'' (urlparse_path w u)),
                       mb_mime_type = None, mb_source = ''r2''\<rparr>)"
      using h fetch_r2_Some[of m u w] by simp
    then show "get_media_bytes w m =
           ([R2], Inr \<lparr>mb_bytes = data,
                       mb_file_name = Some (last_segment CHR ''/'' (urlparse_path w u)),
                       mb_mime_type = None, mb_source = ''r2''\<rparr>)"
      by (rule get_media_bytes_from_R2)
  qed
next
  show "\<forall>r. fetch_r2 w m = Some (Inr r) \<longrightarrow> get_media_bytes w m = ([R2], Inr r)"
    by (simp add: get_media_bytes_from_R2)
next
  show "\<forall>r. (\<forall>x. fetch_r2 w m \<noteq> Some (Inr x)) \<and> fetch_drive w m = Some (Inr r) \<longrightarrow>
         snd (get_media_bytes w m) = Inr r"
    using get_media_bytes_from_Drive[of w m] by blast
next
  show "\<forall>r. (\<forall>x. fetch_r2 w m \<noteq> Some (Inr x)) \<and> (\<forall>x. fetch_drive w m \<noteq> Some (Inr x))
           \<and> fetch_http w m = Some (Inr r) \<longrightarrow>
         snd (get_media_bytes w m) = Inr r"
    using get_media_bytes_from_Http[of w m] by blast
next
  show "\<forall>r. (\<forall>x. fetch_r2 w m \<noteq> Some (Inr x)) \<and> (\<forall>x. fetch_drive w m \<noteq> Some (Inr x))
           \<and> (\<forall>x. fetch_http w m \<noteq> Some (Inr x)) \<and> fetch_local w m = Some (Inr r) \<longrightarrow>
         snd (get_media_bytes w m) = Inr r"
    using get_media_bytes_from_Local[of w m] by blast
next
  show "(\<forall>x. fetch_r2 w m \<noteq> Some (Inr x)) \<and> (\<forall>x. fetch_drive w m \<noteq> Some (Inr x))
        \<and> (\<forall>x. fetch_http w m \<noteq> Some (Inr x)) \<and> (\<forall>x. fetch_local w m \<noteq> Some (Inr x)) \<longrightarrow>
         snd (get_media_bytes w m) =
           Inl (RuntimeError ''No available source found for media entry'')"
    using get_media_bytes_no_source[of w m] by blast
next
  show "R2 \<in> set (fst (get_media_bytes w m)) \<longleftrightarrow> fetch_r2 w m \<noteq> None"
    by (rule get_media_bytes_trace_R2)
next
  show "Drive \<in> set (fst (get_media_bytes w m)) \<longleftrightarrow>
         fetch_drive w m \<noteq> None \<and> (\<forall>x. fetch_r2 w m \<noteq> Some (Inr x))"
    by (rule get_media_bytes_trace_Drive)
next
  show "Http \<in> set (fst (get_media_bytes w m)) \<longleftrightarrow>
         fetch_http w m \<noteq> None \<and> (\<forall>x. fetch_r2 w m \<noteq> Some (Inr x))
         \<and> (\<forall>x. fetch_drive w m \<noteq> Some (Inr x))"
    by (rule get_media_bytes_trace_Http)
next
  show "Local \<in> set (fst (get_media_bytes w m)) \<longleftrightarrow>
         fetch_local w m \<noteq> None \<and> (\<forall>x. fetch_r2 w m \<noteq> Some (Inr x))
         \<and> (\<forall>x. fetch_drive w m \<noteq> Some (Inr x)) \<and> (\<forall>x. fetch_http w m \<noteq> Some (Inr x))"
    by (rule get_media_bytes_trace_Local)
qed (simp_all only: fetch_r2_attempted fetch_drive_attempted fetch_http_attempted
      fetch_local_attempted fetch_r2_delivers fetch_drive_delivers fetch_http_delivers
      fetch_local_delivers simp_thms)

theorem C6_resolution_priority_witness:
  "dict_get both_entry ''r2_url'' = Some ''https://bucket.r2.cloudflarestorage.com/posts/a.png''
   \<and> dict_get both_entry ''uploaded_file_id'' = Some ''1AbC''
   \<and> is_http_url ''https://bucket.r2.cloudflarestorage.com/posts/a.png''
   \<and> r2_download stores_world ''https://bucket.r2.cloudflarestorage.com/posts/a.png'' = Inr ''r2-bytes''
   \<and> get_media_bytes stores_world both_entry =
        ([R2], Inr \<lparr>mb_bytes = ''r2-bytes'', mb_file_name = Some ''a.png'',
                    mb_mime_type = None, mb_source = ''r2''\<rparr>)
   \<and> fetch_r2 stores_world drive_entry = None
   \<and> fetch_drive stores_world drive_entry =
        Some (Inr \<lparr>mb_bytes = ''drive-bytes'', mb_file_name = Some ''a.png'',
                   mb_mime_type = Some ''image/png'', mb_source = ''drive''\<rparr>)
   \<and> fetch_http stores_world drive_entry \<noteq> None
   \<and> snd (get_media_bytes stores_world drive_entry) =
        Inr \<lparr>mb_bytes = ''drive-bytes'', mb_file_name = Some ''a.png'',
             mb_mime_type = Some ''image/png'', mb_source = ''drive''\<rparr>
   \<and> Drive \<in> set (fst (get_media_bytes stores_world drive_entry))
   \<and> Http \<notin> set (fst (get_media_bytes stores_world drive_entry))"
proof -
  have h: "dict_get both_entry ''r2_url'' = Some ''https://bucket.r2.cloudflarestorage.com/posts/a.png''
     \<and> is_http_url ''https://bucket.r2.cloudflarestorage.com/posts/a.png''
     \<and> r2_download stores_world ''https://bucket.r2.cloudflarestorage.com/posts/a.png'' = Inr ''r2-bytes''"
    by (simp add: dict_get_def both_entry_def is_http_url_def startswith_def stores_world_def
        dead_world_def)
  have i: "dict_get both_entry ''uploaded_file_id'' = Some ''1AbC''"
    by (simp add: dict_get_def both_entry_def)
  have p: "last_segment CHR ''/'' (urlparse_path stores_world
             ''https://bucket.r2.cloudflarestorage.com/posts/a.png'') = ''a.png''"
    by (simp add: last_segment_def stores_world_def dead_world_def)
  have r: "fetch_r2 stores_world drive_entry = None"
    by (simp add: fetch_r2_def drive_entry_def dict_get_def py_or_def truthy_def)
  have d: "fetch_drive stores_world drive_entry =
        Some (Inr \<lparr>mb_bytes = ''drive-bytes'', mb_file_name = Some ''a.png'',
                   mb_mime_type = Some ''image/png'', mb_source = ''drive''\<rparr>)"
    by (simp add: fetch_drive_def drive_entry_def dict_get_def stores_world_def dead_world_def)
  have q: "fetch_http stores_world drive_entry \<noteq> None"
    by (simp add: fetch_http_def drive_entry_def dict_get_def py_or_def truthy_def
        is_http_url_def startswith_def)
  have rd: "(\<forall>x. fetch_r2 stores_world drive_entry \<noteq> Some (Inr x))
             \<and> fetch_drive stores_world drive_entry =
        Some (Inr \<lparr>mb_bytes = ''drive-bytes'', mb_file_name = Some ''a.png'',
                   mb_mime_type = Some ''image/png'', mb_source = ''drive''\<rparr>)"
    using r d by simp
  note c1 = C6_resolution_priority [where w = stores_world and m = both_entry,
      THEN conjunct2, THEN conjunct1, rule_format, OF h]
  note t = C6_resolution_priority [where w = stores_world and m = drive_entry]
  note c2 = t [THEN conjunct2, THEN conjunct2, THEN conjunct2, THEN conjunct1, rule_format, OF rd]
  note c3 = t [THEN conjunct2, THEN conjunct2, THEN conjunct2, THEN conjunct2, THEN conjunct2,
      THEN conjunct2, THEN conjunct2, THEN conjunct2, THEN conjunct1]
  note c4 = t [THEN conjunct2, THEN conjunct2, THEN conjunct2, THEN conjunct2, THEN conjunct2,
      THEN conjunct2, THEN conjunct2, THEN conjunct2, THEN conjunct2, THEN conjunct1]
  have e: "Drive \<in> set (fst (get_media_bytes stores_world drive_entry))"
    using c3 r d by simp
  have f: "Http \<notin> set (fst (get_media_bytes stores_world drive_entry))"
    using c4 d by simp
  show ?thesis using h i p r d q c1 c2 e f by simp
qed

subsection \<open>Archive folder deletion and cleanup\<close>

lemma is_HttpError_simps [simp]:
  "is_HttpError (HttpError st)" "\<not> is_HttpError (ConnectionError s)"
  "\<not> is_HttpError (AttributeError s)" "\<not> is_HttpError (TypeError s)"
  "\<not> is_HttpError (ValueError s)" "\<not> is_HttpError (RuntimeError s)"
  "\<not> is_HttpError (ValidationError s)" "\<not> is_HttpError (OSError s)"
  "\<not> is_HttpError (ZeroDivisionError s)"
  "\<not> is_HttpError (Exception s)"
  by (simp_all add: is_HttpError_def)

text \<open>The \<open>try\<close> block of delete_drive_folder: an HttpError is swallowed, any other exception leaves.\<close>

lemma swallow_HttpError:
  "(case x of Inl (HttpError st) \<Rightarrow> Inr () | Inl e \<Rightarrow> Inl e | Inr u \<Rightarrow> k u) = Inl e
     \<longleftrightarrow> (x = Inl e \<and> \<not> is_HttpError e) \<or> (\<exists>u. x = Inr u \<and> k u = Inl e)"
proof (cases x)
  case (Inl a)
  then show ?thesis by (cases a) auto
next
  case (Inr u)
  then show ?thesis by simp
qed

lemma delete_drive_folder_swallows:
  assumes "google_creds w = Inr c"
    and "drive_build w = Inl (HttpError st)
         \<or> (drive_build w = Inr () \<and> drive_files_delete w f = Inl (HttpError st))"
  shows "delete_drive_folder w f = Inr ()"
  using assms by (auto simp: delete_drive_folder_def)

lemma delete_drive_folder_raises:
  "delete_drive_folder w f = Inl e \<longleftrightarrow>
     google_creds w = Inl e
     \<or> ((\<exists>c. google_creds w = Inr c) \<and> \<not> is_HttpError e
          \<and> (drive_build w = Inl e \<or> (drive_build w = Inr () \<and> drive_files_delete w f = Inl e)))"
proof (cases "google_creds w")
  case (Inl a)
  then show ?thesis by (auto simp: delete_drive_folder_def)
next
  case c: (Inr c)
  have inner: "(case drive_files_delete w f of Inl (HttpError st) \<Rightarrow> Inr ()
                | Inl e \<Rightarrow> Inl e | Inr u \<Rightarrow> Inr ()) = Inl e
               \<longleftrightarrow> drive_files_delete w f = Inl e \<and> \<not> is_HttpError e"
    using swallow_HttpError[where x = "drive_files_delete w f" and k = "\<lambda>u. Inr ()" and e = e] by simp
  have "delete_drive_folder w f = Inl e \<longleftrightarrow>
          (drive_build w = Inl e \<and> \<not> is_HttpError e)
          \<or> (\<exists>u. drive_build w = Inr u
                \<and> drive_files_delete w f = Inl e \<and> \<not> is_HttpError e)"
    using c inner
      swallow_HttpError[where x = "drive_build w" and k = "\<lambda>service. (case drive_files_delete w f of
          Inl (HttpError st) \<Rightarrow> Inr () | Inl e \<Rightarrow> Inl e | Inr u \<Rightarrow> Inr ())" and e = e]
    by (simp add: delete_drive_folder_def)
  then show ?thesis using c by auto
qed

lemma delete_post_rows:
  assumes "\<forall>r\<in>set (rows (cs_db st)). post_id r = pid \<longrightarrow> status r = ''deleted''"
  shows "\<forall>r\<in>set (rows (cs_db (delete_post w p st))). post_id r = pid \<longrightarrow> status r = ''deleted''"
proof (cases "delete_drive_folder w (google_drive_folder_id p)")
  case (Inl e)
  then show ?thesis using assms by (simp add: delete_post_def)
next
  case (Inr u)
  then show ?thesis using assms
    by (cases "db_error w (UpdateStatus (post_id p) ''deleted'')")
       (auto simp: delete_post_def update_post_status_def)
qed

lemma delete_posts_rows:
  "\<forall>r\<in>set (rows (cs_db st)). post_id r = pid \<longrightarrow> status r = ''deleted'' \<Longrightarrow>
   \<forall>r\<in>set (rows (cs_db (delete_posts w ps st))). post_id r = pid \<longrightarrow> status r = ''deleted''"
proof (induction ps arbitrary: st)
  case Nil
  then show ?case by simp
next
  case (Cons q qs)
  show ?case using Cons.IH[OF delete_post_rows[OF Cons.prems]] by simp
qed

lemma delete_post_marks:
  assumes "delete_drive_folder w (google_drive_folder_id p) = Inr ()"
    "db_error w (UpdateStatus (post_id p) ''deleted'') = None"
  shows "\<forall>r\<in>set (rows (cs_db (delete_post w p st))). post_id r = post_id p \<longrightarrow> status r = ''deleted''"
  using assms by (auto simp: delete_post_def update_post_status_def)

lemma delete_posts_marks:
  assumes "p \<in> set ps" "delete_drive_folder w (google_drive_folder_id p) = Inr ()"
    "db_error w (UpdateStatus (post_id p) ''deleted'') = None"
  shows "\<forall>r\<in>set (rows (cs_db (delete_posts w ps st))). post_id r = post_id p \<longrightarrow> status r = ''deleted''"
  using assms(1)
proof (induction ps arbitrary: st)
  case Nil
  then show ?case by simp
next
  case (Cons q qs)
  show ?case
  proof (cases "p = q")
    case True
    show ?thesis
      using delete_posts_rows[OF delete_post_marks[OF assms(2,3), where st = st], where ps = qs] True by simp
  next
    case False
    then have "p \<in> set qs" using Cons.prems by simp
    then show ?thesis using Cons.IH by simp
  qed
qed

lemma delete_post_errors:
  "(pid, e) \<in> set (errors_caught (delete_post w p st)) \<Longrightarrow>
     (pid, e) \<in> set (errors_caught st)
     \<or> (pid = post_id p
         \<and> (delete_drive_folder w (google_drive_folder_id p) = Inl e
             \<or> (delete_drive_folder w (google_drive_folder_id p) = Inr ()
                 \<and> db_error w (UpdateStatus pid ''deleted'') = Some e)))"
proof (cases "delete_drive_folder w (google_drive_folder_id p)")
  case (Inl a)
  assume "(pid, e) \<in> set (errors_caught (delete_post w p st))"
  then show ?thesis using Inl by (auto simp: delete_post_def)
next
  case (Inr u)
  assume "(pid, e) \<in> set (errors_caught (delete_post w p st))"
  then show ?thesis using Inr
    by (cases "db_error w (UpdateStatus (post_id p) ''deleted'')") (auto simp: delete_post_def)
qed

lemma delete_posts_errors:
  "(pid, e) \<in> set (errors_caught (delete_posts w ps st)) \<Longrightarrow>
     (pid, e) \<in> set (errors_caught st)
     \<or> (\<exists>p\<in>set ps. pid = post_id p
         \<and> (delete_drive_folder w (google_drive_folder_id p) = Inl e
             \<or> (delete_drive_folder w (google_drive_folder_id p) = Inr ()
                 \<and> db_error w (UpdateStatus pid ''deleted'') = Some e)))"
proof (induction ps arbitrary: st)
  case Nil
  then show ?case by simp
next
  case (Cons q qs)
  from Cons.prems have "(pid, e) \<in> set (errors_caught (delete_posts w qs (delete_post w q st)))"
    by simp
  from Cons.IH[OF this] delete_post_errors[where pid = pid and e = e and w = w and p = q and st = st]
  show ?case by auto
qed

lemma delete_post_counts:
  "deleted_count (delete_post w p st) + error_count (delete_post w p st)
     = deleted_count st + error_count st + 1"
proof (cases "delete_drive_folder w (google_drive_folder_id p)")
  case (Inl e)
  then show ?thesis by (simp add: delete_post_def error_count_def)
next
  case (Inr u)
  then show ?thesis
    by (cases "db_error w (UpdateStatus (post_id p) ''deleted'')")
       (simp_all add: delete_post_def error_count_def)
qed

lemma delete_posts_counts:
  "deleted_count (delete_posts w ps st) + error_count (delete_posts w ps st)
     = deleted_count st + error_count st + length ps"
proof (induction ps arbitrary: st)
  case Nil
  then show ?case by simp
next
  case (Cons q qs)
  show ?case using Cons.IH[where st = "delete_post w q st"] delete_post_counts[where w = w and p = q and st = st] by simp
qed

text \<open>
  C10: delete_drive_folder swallows an HttpError of every status raised by the Drive
  API (it returns normally), and the only exceptions that leave it are those of
  get_google_creds and the exceptions other than HttpError of the Drive calls. So in
  check_and_delete_posts a selected post whose folder deletion fails with an HttpError
  still has its status set to 'deleted' (the status update not failing), every error
  counted by the per-post \<open>except\<close> is an exception of get_google_creds, an exception
  other than HttpError of the Drive calls or an exception of the status update, and
  every selected post is either counted as deleted or as an error.
\<close>

theorem C10_http_errors_swallowed:
  "(\<forall>c st. google_creds w = Inr c
        \<and> (drive_build w = Inl (HttpError st)
            \<or> (drive_build w = Inr () \<and> drive_files_delete w f = Inl (HttpError st))) \<longrightarrow>
      delete_drive_folder w f = Inr ())
   \<and> (\<forall>e. delete_drive_folder w f = Inl e \<longleftrightarrow>
         google_creds w = Inl e
         \<or> ((\<exists>c. google_creds w = Inr c) \<and> \<not> is_HttpError e
              \<and> (drive_build w = Inl e
                  \<or> (drive_build w = Inr () \<and> drive_files_delete w f = Inl e))))
   \<and> (\<forall>post c st. db_error w FindForDeletion = None
        \<and> post \<in> set (find_posts_for_deletion now DELETE_DELAY_HOURS db)
        \<and> google_creds w = Inr c \<and> drive_build w = Inr ()
        \<and> drive_files_delete w (google_drive_folder_id post) = Inl (HttpError st)
        \<and> db_error w (UpdateStatus (post_id post) ''deleted'') = None \<longrightarrow>
      (\<forall>r\<in>set (rows (cs_db (check_and_delete_posts w now db))).
          post_id r = post_id post \<longrightarrow> status r = ''deleted''))
   \<and> (\<forall>pid e. (pid, e) \<in> set (errors_caught (check_and_delete_posts w now db)) \<longrightarrow>
        (\<exists>post\<in>set (find_posts_for_deletion now DELETE_DELAY_HOURS db). pid = post_id post
           \<and> (google_creds w = Inl e
               \<or> ((\<exists>c. google_creds w = Inr c) \<and> \<not> is_HttpError e
                    \<and> (drive_build w = Inl e
                        \<or> (drive_build w = Inr ()
                            \<and> drive_files_delete w (google_drive_folder_id post) = Inl e)))
               \<or> (delete_drive_folder w (google_drive_folder_id post) = Inr ()
                   \<and> db_error w (UpdateStatus pid ''deleted'') = Some e))))
   \<and> ((\<forall>st. google_creds w \<noteq> Inl (HttpError st))
        \<and> (\<forall>q st. db_error w q \<noteq> Some (HttpError st)) \<longrightarrow>
      (\<forall>x\<in>set (errors_caught (check_and_delete_posts w now db)). \<not> is_HttpError (snd x)))
   \<and> (db_error w FindForDeletion = None \<longrightarrow>
        deleted_count (check_and_delete_posts w now db)
          + error_count (check_and_delete_posts w now db)
        = length (find_posts_for_deletion now DELETE_DELAY_HOURS db))"
proof -
  let ?sel = "find_posts_for_deletion now DELETE_DELAY_HOURS db"
  let ?init = "\<lparr>cs_db = db, deleted_count = 0, errors_caught = []\<rparr>"
  have g1: "\<forall>c st. google_creds w = Inr c
        \<and> (drive_build w = Inl (HttpError st)
            \<or> (drive_build w = Inr () \<and> drive_files_delete w f = Inl (HttpError st))) \<longrightarrow>
      delete_drive_folder w f = Inr ()"
    using delete_drive_folder_swallows[where w = w and f = f] by blast
  have g2: "\<forall>e. delete_drive_folder w f = Inl e \<longleftrightarrow>
         google_creds w = Inl e
         \<or> ((\<exists>c. google_creds w = Inr c) \<and> \<not> is_HttpError e
              \<and> (drive_build w = Inl e
                  \<or> (drive_build w = Inr () \<and> drive_files_delete w f = Inl e)))"
    by (rule allI) (rule delete_drive_folder_raises)
  have g3: "\<forall>post c st. db_error w FindForDeletion = None
        \<and> post \<in> set ?sel
        \<and> google_creds w = Inr c \<and> drive_build w = Inr ()
        \<and> drive_files_delete w (google_drive_folder_id post) = Inl (HttpError st)
        \<and> db_error w (UpdateStatus (post_id post) ''deleted'') = None \<longrightarrow>
      (\<forall>r\<in>set (rows (cs_db (check_and_delete_posts w now db))).
          post_id r = post_id post \<longrightarrow> status r = ''deleted'')"
  proof (intro allI impI)
    fix post c st
    assume h: "db_error w FindForDeletion = None
        \<and> post \<in> set ?sel
        \<and> google_creds w = Inr c \<and> drive_build w = Inr ()
        \<and> drive_files_delete w (google_drive_folder_id post) = Inl (HttpError st)
        \<and> db_error w (UpdateStatus (post_id post) ''deleted'') = None"
    then have d: "delete_drive_folder w (google_drive_folder_id post) = Inr ()"
      using delete_drive_folder_swallows[where w = w and c = c and st = st and f = "google_drive_folder_id post"] by blast
    from h have m: "post \<in> set ?sel"
      and u: "db_error w (UpdateStatus (post_id post) ''deleted'') = None" by simp_all
    show "\<forall>r\<in>set (rows (cs_db (check_and_delete_posts w now db))).
          post_id r = post_id post \<longrightarrow> status r = ''deleted''"
      using h delete_posts_marks[OF m d u, where st = ?init] by (simp add: check_and_delete_posts_def)
  qed
  have g4: "\<forall>pid e. (pid, e) \<in> set (errors_caught (check_and_delete_posts w now db)) \<longrightarrow>
        (\<exists>post\<in>set ?sel. pid = post_id post
           \<and> (google_creds w = Inl e
               \<or> ((\<exists>c. google_creds w = Inr c) \<and> \<not> is_HttpError e
                    \<and> (drive_build w = Inl e
                        \<or> (drive_build w = Inr ()
                            \<and> drive_files_delete w (google_drive_folder_id post) = Inl e)))
               \<or> (delete_drive_folder w (google_drive_folder_id post) = Inr ()
                   \<and> db_error w (UpdateStatus pid ''deleted'') = Some e)))"
  proof (intro allI impI)
    fix pid e
    assume a: "(pid, e) \<in> set (errors_caught (check_and_delete_posts w now db))"
    have q: "db_error w FindForDeletion = None"
      using a by (cases "db_error w FindForDeletion") (simp_all add: check_and_delete_posts_def)
    then have "(pid, e) \<in> set (errors_caught (delete_posts w ?sel ?init))"
      using a by (simp add: check_and_delete_posts_def)
    from delete_posts_errors[OF this]
    obtain p where p: "p \<in> set ?sel" "pid = post_id p"
      "delete_drive_folder w (google_drive_folder_id p) = Inl e
       \<or> (delete_drive_folder w (google_drive_folder_id p) = Inr ()
           \<and> db_error w (UpdateStatus pid ''deleted'') = Some e)"
      by auto
    show "\<exists>post\<in>set ?sel. pid = post_id post
           \<and> (google_creds w = Inl e
               \<or> ((\<exists>c. google_creds w = Inr c) \<and> \<not> is_HttpError e
                    \<and> (drive_build w = Inl e
                        \<or> (drive_build w = Inr ()
                            \<and> drive_files_delete w (google_drive_folder_id post) = Inl e)))
               \<or> (delete_drive_folder w (google_drive_folder_id post) = Inr ()
                   \<and> db_error w (UpdateStatus pid ''deleted'') = Some e))"
      using p delete_drive_folder_raises[where w = w and f = "google_drive_folder_id p" and e = e]
      by (intro bexI[of _ p]) auto
  qed
  have g5: "(\<forall>st. google_creds w \<noteq> Inl (HttpError st))
        \<and> (\<forall>q st. db_error w q \<noteq> Some (HttpError st)) \<longrightarrow>
      (\<forall>x\<in>set (errors_caught (check_and_delete_posts w now db)). \<not> is_HttpError (snd x))"
  proof (intro impI ballI)
    fix x
    assume n: "(\<forall>st. google_creds w \<noteq> Inl (HttpError st))
        \<and> (\<forall>q st. db_error w q \<noteq> Some (HttpError st))"
    assume x: "x \<in> set (errors_caught (check_and_delete_posts w now db))"
    obtain pid e where pe: "x = (pid, e)" by (cases x)
    have m: "(pid, e) \<in> set (errors_caught (check_and_delete_posts w now db))"
      using x pe by simp
    from g4[rule_format, OF m] obtain post where
      "post \<in> set ?sel" and
      "pid = post_id post
       \<and> (google_creds w = Inl e
           \<or> ((\<exists>c. google_creds w = Inr c) \<and> \<not> is_HttpError e
                \<and> (drive_build w = Inl e
                    \<or> (drive_build w = Inr ()
                        \<and> drive_files_delete w (google_drive_folder_id post) = Inl e)))
           \<or> (delete_drive_folder w (google_drive_folder_id post) = Inr ()
               \<and> db_error w (UpdateStatus pid ''deleted'') = Some e))"
      by (rule bexE)
    then have "\<not> is_HttpError e" using n by (cases e) auto
    then show "\<not> is_HttpError (snd x)" using pe by simp
  qed
  have g6: "db_error w FindForDeletion = None \<longrightarrow>
        deleted_count (check_and_delete_posts w now db)
          + error_count (check_and_delete_posts w now db)
        = length ?sel"
    using delete_posts_counts[where w = w and ps = ?sel and st = ?init]
    by (simp add: check_and_delete_posts_def error_count_def)
  show ?thesis
    by (rule conjI[OF g1 conjI[OF g2 conjI[OF g3 conjI[OF g4 conjI[OF g5 g6]]]]])
qed

theorem C10_http_errors_swallowed_witness:
  "old_post \<in> set (find_posts_for_deletion 7200000000 DELETE_DELAY_HOURS old_db)
   \<and> drive_files_delete drive_500_world (google_drive_folder_id old_post) = Inl (HttpError 500)
   \<and> delete_drive_folder drive_500_world (google_drive_folder_id old_post) = Inr ()
   \<and> status (hd (rows (cs_db (check_and_delete_posts drive_500_world 7200000000 old_db))))
       = ''deleted''
   \<and> deleted_count (check_and_delete_posts drive_500_world 7200000000 old_db) = 1
   \<and> error_count (check_and_delete_posts drive_500_world 7200000000 old_db) = 0"
proof -
  have h: "db_error drive_500_world FindForDeletion = None
        \<and> old_post \<in> set (find_posts_for_deletion 7200000000 DELETE_DELAY_HOURS old_db)
        \<and> google_creds drive_500_world = Inr ''creds'' \<and> drive_build drive_500_world = Inr ()
        \<and> drive_files_delete drive_500_world (google_drive_folder_id old_post) = Inl (HttpError 500)
        \<and> db_error drive_500_world (UpdateStatus (post_id old_post) ''deleted'') = None"
    by (simp add: drive_500_world_def dead_world_def find_posts_for_deletion_def
        DELETE_DELAY_HOURS_def timedelta_hours_def old_db_def old_post_def)
  have s: "google_creds drive_500_world = Inr ''creds''
        \<and> (drive_build drive_500_world = Inl (HttpError 500)
            \<or> (drive_build drive_500_world = Inr ()
                \<and> drive_files_delete drive_500_world (google_drive_folder_id old_post)
                    = Inl (HttpError 500)))"
    using h by simp
  note t = C10_http_errors_swallowed [where w = drive_500_world and now = 7200000000
      and db = old_db and f = "google_drive_folder_id old_post"]
  note c1 = t [THEN conjunct1, rule_format, OF s]
  note c3 = t [THEN conjunct2, THEN conjunct2, THEN conjunct1, rule_format, OF h]
  note c6 = t [THEN conjunct2, THEN conjunct2, THEN conjunct2, THEN conjunct2, THEN conjunct2,
      rule_format]
  have r: "rows (cs_db (check_and_delete_posts drive_500_world 7200000000 old_db)) \<noteq> []
     \<and> post_id (hd (rows (cs_db (check_and_delete_posts drive_500_world 7200000000 old_db))))
         = post_id old_post"
    using h c1
    by (simp add: check_and_delete_posts_def find_posts_for_deletion_def DELETE_DELAY_HOURS_def
        timedelta_hours_def old_db_def delete_post_def update_post_status_def old_post_def)
  have w1: "status (hd (rows (cs_db (check_and_delete_posts drive_500_world 7200000000 old_db))))
       = ''deleted''"
    using c3[of "hd (rows (cs_db (check_and_delete_posts drive_500_world 7200000000 old_db)))"] r
    by simp
  have e0: "error_count (check_and_delete_posts drive_500_world 7200000000 old_db) = 0"
    using h c1
    by (simp add: check_and_delete_posts_def find_posts_for_deletion_def DELETE_DELAY_HOURS_def
        timedelta_hours_def old_db_def delete_post_def error_count_def old_post_def)
  have w2: "deleted_count (check_and_delete_posts drive_500_world 7200000000 old_db) = 1"
    using c6 h e0
    by (simp add: find_posts_for_deletion_def DELETE_DELAY_HOURS_def
        timedelta_hours_def old_db_def old_post_def)
  show ?thesis using h c1 w1 w2 e0 by simp
qed

subsection \<open>Image normaliser\<close>

lemma next_quality_chain:
  "next_quality 95 = 80" "next_quality 80 = 68" "next_quality 68 = 57"
  "next_quality 57 = 48" "next_quality 48 = 40"
  by code_simp+

lemma encode_loop_stop:
  "jpeg_size q \<le> 8 * 1024 * 1024 \<or> q \<le> 40 \<Longrightarrow>
     encode_loop jpeg_size q = Some (q, jpeg_size q)"
  by (subst encode_loop.simps) (simp add: Let_def)

lemma encode_loop_step:
  "\<not> (jpeg_size q \<le> 8 * 1024 * 1024 \<or> q \<le> 40) \<Longrightarrow>
     encode_loop jpeg_size q = encode_loop jpeg_size (next_quality q)"
  by (subst encode_loop.simps) (simp add: Let_def)

lemma encode_loop_40: "encode_loop jpeg_size 40 = Some (40, jpeg_size 40)"
  by (rule encode_loop_stop) simp

lemma encode_loop_48:
  "encode_loop jpeg_size 48 =
     (if jpeg_size 48 \<le> 8 * 1024 * 1024 then Some (48, jpeg_size 48)
      else Some (40, jpeg_size 40))"
  using encode_loop_stop[of jpeg_size 48] encode_loop_step[of jpeg_size 48]
  by (simp add: next_quality_chain encode_loop_40)

lemma encode_loop_57:
  "encode_loop jpeg_size 57 =
     (if jpeg_size 57 \<le> 8 * 1024 * 1024 then Some (57, jpeg_size 57)
      else encode_loop jpeg_size 48)"
  using encode_loop_stop[of jpeg_size 57] encode_loop_step[of jpeg_size 57]
  by (simp add: next_quality_chain)

lemma encode_loop_68:
  "encode_loop jpeg_size 68 =
     (if jpeg_size 68 \<le> 8 * 1024 * 1024 then Some (68, jpeg_size 68)
      else encode_loop jpeg_size 57)"
  using encode_loop_stop[of jpeg_size 68] encode_loop_step[of jpeg_size 68]
  by (simp add: next_quality_chain)

lemma encode_loop_80:
  "encode_loop jpeg_size 80 =
     (if jpeg_size 80 \<le> 8 * 1024 * 1024 then Some (80, jpeg_size 80)
      else encode_loop jpeg_size 68)"
  using encode_loop_stop[of jpeg_size 80] encode_loop_step[of jpeg_size 80]
  by (simp add: next_quality_chain)

lemma encode_loop_95:
  "encode_loop jpeg_size 95 =
     (if jpeg_size 95 \<le> 8 * 1024 * 1024 then Some (95, jpeg_size 95)
      else encode_loop jpeg_size 80)"
  using encode_loop_stop[of jpeg_size 95] encode_loop_step[of jpeg_size 95]
  by (simp add: next_quality_chain)

text \<open>
  C8: for every image (every size the encoder may produce at each quality) the encode
  loop started at quality 95 terminates. It tries the qualities 95, 80, 68, 57, 48, 40
  in this order and returns the first whose file is at most 8 MiB, and the file of
  quality 40 when none is: at most six encodings, the last accepted whatever its size.
\<close>

theorem C8_encode_loop_terminates:
  "encode_loop jpeg_size 95 =
     Some (case find (\<lambda>q. jpeg_size q \<le> 8 * 1024 * 1024) [95, 80, 68, 57, 48] of
             Some q \<Rightarrow> (q, jpeg_size q)
           | None \<Rightarrow> (40, jpeg_size 40))
   \<and> (\<exists>q s. encode_loop jpeg_size 95 = Some (q, s) \<and> s = jpeg_size q
          \<and> q \<in> set [95, 80, 68, 57, 48, 40] \<and> (s \<le> 8 * 1024 * 1024 \<or> q = 40))"
proof -
  have e: "encode_loop jpeg_size 95 =
     Some (case find (\<lambda>q. jpeg_size q \<le> 8 * 1024 * 1024) [95, 80, 68, 57, 48] of
             Some q \<Rightarrow> (q, jpeg_size q)
           | None \<Rightarrow> (40, jpeg_size 40))"
    by (simp add: encode_loop_95 encode_loop_80 encode_loop_68 encode_loop_57 encode_loop_48)
  have "\<exists>q s. encode_loop jpeg_size 95 = Some (q, s) \<and> s = jpeg_size q
          \<and> q \<in> set [95, 80, 68, 57, 48, 40] \<and> (s \<le> 8 * 1024 * 1024 \<or> q = 40)"
    by (simp add: encode_loop_95 encode_loop_80 encode_loop_68 encode_loop_57 encode_loop_48)
  with e show ?thesis by (rule conjI)
qed

text \<open>
  C3 fails on the code for a wide, low image. A 1000 x 100 image has a width within
  bounds, so it is not resized; its ratio 10 exceeds 1.91 and the crop to height
  round(1000 / 1.91) = 524 does not fit, so the width is cropped to
  round(100 * 1.91) = 191, below MIN_WIDTH.
\<close>

theorem C3_narrow_crop:
  "normalize_size 1000 100 = Inr (191, 100) \<and> 191 < MIN_WIDTH
   \<and> MIN_WIDTH \<le> 1000 \<and> 1000 \<le> MAX_WIDTH"
  by code_simp

subsection \<open>Archive upload and scheduling\<close>












text \<open>
  C5 fails on the code when Drive cannot be reached: the record is persisted with the
  placeholder references, but the response is built from \<open>folder_id\<close> and \<open>event_id\<close>,
  which are \<open>None\<close>, instead of \<open>final_folder_id\<close> and \<open>final_event_id\<close>; its validation
  fails and the route answers with HTTP 500.
\<close>

theorem C5_response_lost:
  "schedule_post example_settings dead_uploader 5 image_request empty_db
     = (Inl (HTTPException 500
               ''Scheduling failed: validation error for ScheduleResponse: none is not an allowed value''),
        \<lparr>rows =
           [\<lparr>post_id = 1, post_type = ''static'', selected_caption = ''Hello'',
             scheduled_time = 1767261600000000,
             google_drive_folder_id = Some ''no_drive_static_2026-01-01_10-00'',
             google_calendar_event_id = Some ''no_calendar_static_2026-01-01_10-00'',
             status = ''scheduled'', media_paths = None, created_at = 5\<rparr>],
         id_serial = 2\<rparr>)
   \<and> fst (upload_files_to_drive example_settings dead_uploader
            (req_selected_media image_request) (req_selected_caption image_request)
            (req_post_type image_request))
     = Inl (OSError ''Credentials file not found'')"
  by code_simp

end
